theory Spec2Isabelle
  imports Main "HOL-Library.Word" "HOL-Library.AList"
begin

unbundle bit_operations_syntax

section \<open>Machine types and constants\<close>

type_synonym u8 = "8 word"
type_synonym u16 = "16 word"
type_synonym u32 = "32 word"
type_synonym u64 = "64 word"

text \<open>\<^verbatim>\<open>#define MAX_FILENAME_LEN 256\<close> (fileserver.h and nfs_server.h).\<close>

definition MAX_FILENAME_LEN :: nat where
  "MAX_FILENAME_LEN = 256"

text \<open>\<^verbatim>\<open>#define MAX_NFS_DATA_SIZE 8192\<close> (nfs_server.h).\<close>

definition MAX_NFS_DATA_SIZE :: nat where
  "MAX_NFS_DATA_SIZE = 8192"

text \<open>\<^verbatim>\<open>#define MAX_PACKET_SIZE 1024\<close> (fileserver.h).\<close>

definition MAX_PACKET_SIZE :: nat where
  "MAX_PACKET_SIZE = 1024"

section \<open>File names and file handles\<close>

text \<open>
  Where the source reads a file name as a C string, the model reads a list of bytes up to
  its first NUL; the byte read at an index at or beyond the end of the list is the
  terminating NUL, so a list without a NUL is the string of all its bytes.
\<close>

definition char_at :: "u8 list \<Rightarrow> nat \<Rightarrow> u8" where
  "char_at s i = (if i < length s then s ! i else 0)"

text \<open>\<^verbatim>\<open>strlen\<close>: the number of bytes before the first NUL.\<close>

definition strlen :: "u8 list \<Rightarrow> nat" where
  "strlen s = length (takeWhile (\<lambda>c. c \<noteq> 0) s)"

text \<open>
  \<^verbatim>\<open>struct nfs_fh { __u32 len; __u8 data[64]; }\<close>.
\<close>

record nfs_fh =
  fh_len :: u32
  fh_data :: "u8 list"

text \<open>
  \<^verbatim>\<open>hash * 31 + filename[i]\<close> on a \<^verbatim>\<open>__u32\<close> (\<^verbatim>\<open>uint32_t\<close>) hash: the
  \<^verbatim>\<open>char\<close> is promoted to \<^verbatim>\<open>int\<close> (a signed \<^verbatim>\<open>char\<close>, as on x86-64 and on the BPF
  target) and the sum wraps modulo \<open>2 ^ 32\<close>.
\<close>

definition hash_step :: "u32 \<Rightarrow> u8 \<Rightarrow> u32" where
  "hash_step hash c = hash * 31 + scast c"

text \<open>
  \<^verbatim>\<open>*(__u32 *)&fh->data[off] = v\<close>: a 32-bit store into the byte array, least significant
  byte first (little-endian host).
\<close>

definition store_u32 :: "u8 list \<Rightarrow> nat \<Rightarrow> u32 \<Rightarrow> u8 list" where
  "store_u32 d off v =
     d[off := ucast v,
       off + 1 := ucast (drop_bit 8 v),
       off + 2 := ucast (drop_bit 16 v),
       off + 3 := ucast (drop_bit 24 v)]"

text \<open>
  The interception engine's generator, \<^verbatim>\<open>generate_file_handle\<close> of nfs_server.bpf.c:
  \<^verbatim>\<open>
  for (int i = 0; i < MAX_FILENAME_LEN && filename[i] != '\0'; i++) {
      hash = hash * 31 + filename[i];
      if (i >= 3) break;  /* Limit loop to prevent verifier issues */
  }
  \<close>
\<close>

function generate_file_handle_loop :: "u8 list \<Rightarrow> nat \<Rightarrow> u32 \<Rightarrow> u32" where
  "generate_file_handle_loop filename i hash =
     (if i < MAX_FILENAME_LEN \<and> char_at filename i \<noteq> 0 then
        (let hash' = hash_step hash (char_at filename i)
         in if i \<ge> 3 then hash' else generate_file_handle_loop filename (i + 1) hash')
      else hash)"
  by pat_completeness auto
termination
  by (relation "measure (\<lambda>(filename, i, hash). 4 - i)") auto

declare generate_file_handle_loop.simps [simp del]

definition generate_file_handle :: "u8 list \<Rightarrow> nfs_fh \<Rightarrow> nfs_fh" where
  "generate_file_handle filename fh =
     (let hash = generate_file_handle_loop filename 0 0
      in fh\<lparr>fh_len := 8,
            fh_data := store_u32 (store_u32 (fh_data fh) 0 hash) 4 (hash XOR 0xdeadbeef)\<rparr>)"

text \<open>
  The control plane's generator, \<^verbatim>\<open>generate_nfs_file_handle\<close> of nfs_server.c:
  \<^verbatim>\<open>
  for (int i = 0; filename[i] && i < strlen(filename); i++) {
      hash = hash * 31 + filename[i];
  }
  \<close>
\<close>

function generate_nfs_file_handle_loop :: "u8 list \<Rightarrow> nat \<Rightarrow> u32 \<Rightarrow> u32" where
  "generate_nfs_file_handle_loop filename i hash =
     (if char_at filename i \<noteq> 0 \<and> i < strlen filename then
        generate_nfs_file_handle_loop filename (i + 1) (hash_step hash (char_at filename i))
      else hash)"
  by pat_completeness auto
termination
  by (relation "measure (\<lambda>(filename, i, hash). strlen filename - i)") auto

declare generate_nfs_file_handle_loop.simps [simp del]

definition generate_nfs_file_handle :: "u8 list \<Rightarrow> nfs_fh \<Rightarrow> nfs_fh" where
  "generate_nfs_file_handle filename fh =
     (let hash = generate_nfs_file_handle_loop filename 0 0
      in fh\<lparr>fh_len := 8,
            fh_data := store_u32 (store_u32 (fh_data fh) 0 hash) 4 (hash XOR 0xdeadbeef)\<rparr>)"

text \<open>
  The handle as the design describes it: a rolling hash of the name, kept in four bytes,
  followed by the four bytes of the hash combined with a constant.
\<close>

definition rolling_hash :: "u8 list \<Rightarrow> u32" where
  "rolling_hash s = foldl hash_step 0 (takeWhile (\<lambda>c. c \<noteq> 0) s)"

definition le32_bytes :: "u32 \<Rightarrow> u8 list" where
  "le32_bytes v = [ucast v, ucast (drop_bit 8 v), ucast (drop_bit 16 v), ucast (drop_bit 24 v)]"

text \<open>The byte of an ASCII character, and the bytes of a string literal.\<close>

definition ch :: "char \<Rightarrow> u8" where
  "ch c = of_char c"

definition bytes :: "string \<Rightarrow> u8 list" where
  "bytes s = map ch s"

text \<open>\<^verbatim>\<open>struct nfs_fh fh = {0}\<close>.\<close>

definition zero_fh :: nfs_fh where
  "zero_fh = \<lparr>fh_len = 0, fh_data = replicate 64 0\<rparr>"

section \<open>Shared pieces of the two interception programs\<close>

text \<open>
  Verdicts of a traffic-control program. \<^verbatim>\<open>#define TC_ACT_OK 0\<close> in both programs;
  \<^verbatim>\<open>#define TC_ACT_SHOT 2\<close> in nfs_server.bpf.c, where no statement uses it.
\<close>

definition TC_ACT_OK :: int where
  "TC_ACT_OK = 0"

definition TC_ACT_SHOT :: int where
  "TC_ACT_SHOT = 2"

text \<open>
  The programs hold no decision variable. The model labels every return path of a handler
  with the outcome it implements: the four outcomes named by the design, and
  \<open>ChannelFull\<close> for the returns taken when \<^verbatim>\<open>bpf_ringbuf_reserve\<close> yields \<^verbatim>\<open>NULL\<close>,
  which happen before the handler has branched on the request.
\<close>

datatype decision = PassThrough | KernelServed | ForwardToControlPlane | NotFound | ChannelFull

text \<open>
  What one invocation of a handler leaves behind: the verdict returned to the hosting
  stack, the label of the return path, the shared maps, and the bytes of the frame.
\<close>

record 'm tc_result =
  verdict :: int
  decision :: decision
  maps :: 'm
  skb_out :: "u8 list"

text \<open>
  A frame is the list of bytes from \<^verbatim>\<open>skb->data\<close> to \<^verbatim>\<open>skb->data_end\<close>; a pointer into it is
  an offset, and \<^verbatim>\<open>p + n > data_end\<close> reads \<open>length skb < p + n\<close>. Multi-byte header
  fields are compared in network byte order (\<^verbatim>\<open>x != bpf_htons(c)\<close>), which is the
  big-endian reading of the bytes compared with \<open>c\<close>. Addresses and ports copied into
  records (\<^verbatim>\<open>ip->saddr\<close>, \<^verbatim>\<open>tcp->source\<close>, \<^verbatim>\<open>udp->source\<close>) are named by the same reading.
\<close>

definition be16 :: "u8 list \<Rightarrow> nat \<Rightarrow> u16" where
  "be16 d i = push_bit 8 (ucast (d ! i)) OR ucast (d ! (i + 1))"

definition be32 :: "u8 list \<Rightarrow> nat \<Rightarrow> u32" where
  "be32 d i = push_bit 24 (ucast (d ! i)) OR push_bit 16 (ucast (d ! (i + 1)))
              OR push_bit 8 (ucast (d ! (i + 2))) OR ucast (d ! (i + 3))"

definition ETH_P_IP :: u16 where
  "ETH_P_IP = 0x0800"

definition IPPROTO_TCP :: u8 where
  "IPPROTO_TCP = 6"

definition IPPROTO_UDP :: u8 where
  "IPPROTO_UDP = 17"

text \<open>
  Offsets inside the frame: \<^verbatim>\<open>struct ethhdr\<close> is 14 bytes with \<^verbatim>\<open>h_proto\<close> at 12;
  \<^verbatim>\<open>struct iphdr\<close> is 20 bytes with \<^verbatim>\<open>ihl\<close> in the low half of byte 0, \<^verbatim>\<open>protocol\<close> at 9 and
  \<^verbatim>\<open>saddr\<close> at 12. The transport header starts at \<^verbatim>\<open>(void *)ip + (ip->ihl * 4)\<close>.
\<close>

definition ip_saddr :: "u8 list \<Rightarrow> u32" where
  "ip_saddr skb = be32 skb 26"

definition transport_offset :: "u8 list \<Rightarrow> nat" where
  "transport_offset skb = 14 + unat (skb ! 14 AND 0x0F) * 4"

text \<open>
  A hash map of the kernel with its \<^verbatim>\<open>max_entries\<close>: an association list with distinct
  keys. \<^verbatim>\<open>bpf_map_update_elem(..., BPF_ANY)\<close> replaces the value of a present key and
  inserts an absent one unless the map is full, in which case it fails and changes
  nothing.
\<close>

definition bpf_map_lookup_elem :: "('k \<times> 'v) list \<Rightarrow> 'k \<Rightarrow> 'v option" where
  "bpf_map_lookup_elem m k = map_of m k"

definition bpf_map_update_elem :: "nat \<Rightarrow> ('k \<times> 'v) list \<Rightarrow> 'k \<Rightarrow> 'v \<Rightarrow> ('k \<times> 'v) list option" where
  "bpf_map_update_elem max_entries m k v =
     (if k \<in> fst ` set m \<or> length m < max_entries then Some (AList.update k v m) else None)"

text \<open>
  A write through the pointer that \<^verbatim>\<open>bpf_map_lookup_elem\<close> returned changes the value
  stored under the key that was looked up.
\<close>

definition write_elem :: "('k \<times> 'v) list \<Rightarrow> 'k \<Rightarrow> 'v \<Rightarrow> ('k \<times> 'v) list" where
  "write_elem m k v = AList.update k v m"

text \<open>
  \<^verbatim>\<open>update_stats\<close> and \<^verbatim>\<open>update_nfs_stats\<close>: the statistics array has 16 slots; a lookup
  outside the array yields \<^verbatim>\<open>NULL\<close> and nothing is added.
\<close>

definition update_stats :: "u64 list \<Rightarrow> nat \<Rightarrow> u64 \<Rightarrow> u64 list" where
  "update_stats counters stat_type v =
     (if stat_type < length counters
      then counters[stat_type := counters ! stat_type + v] else counters)"

text \<open>\<^verbatim>\<open>__builtin_memcpy(dst, src, n)\<close> on byte arrays.\<close>

definition memcpy :: "u8 list \<Rightarrow> u8 list \<Rightarrow> nat \<Rightarrow> u8 list" where
  "memcpy dst src n = take n src @ drop n dst"

section \<open>The file-fetch program: fileserver.bpf.c\<close>

text \<open>
  Fields of a C struct keep their names behind a prefix for the struct, since several
  structs share field names: \<open>hr_\<close> for \<^verbatim>\<open>struct http_request\<close>, \<open>fe_\<close> for
  \<^verbatim>\<open>struct file_event\<close>, \<open>fc_\<close> for \<^verbatim>\<open>struct file_cache_entry\<close>. The \<^verbatim>\<open>headers\<close> array of
  \<^verbatim>\<open>struct http_request\<close> is never written and is left out.
\<close>

definition HTTP_UNKNOWN :: u8 where "HTTP_UNKNOWN = 0"
definition HTTP_GET :: u8 where "HTTP_GET = 1"
definition HTTP_POST :: u8 where "HTTP_POST = 2"
definition HTTP_PUT :: u8 where "HTTP_PUT = 3"
definition HTTP_DELETE :: u8 where "HTTP_DELETE = 4"

definition FILE_OP_SUCCESS :: u8 where "FILE_OP_SUCCESS = 0"
definition FILE_OP_NOT_FOUND :: u8 where "FILE_OP_NOT_FOUND = 1"
definition FILE_OP_FORWARD_TO_USER :: u8 where "FILE_OP_FORWARD_TO_USER = 4"

record http_request =
  hr_src_addr :: u32
  hr_src_port :: u16
  hr_method :: u8
  hr_processed_in_kernel :: u8
  hr_filename :: "u8 list"
  hr_content_length :: u16

record file_event =
  fe_client_addr :: u32
  fe_client_port :: u16
  fe_operation :: u8
  fe_filename :: "u8 list"
  fe_file_size :: u32
  fe_timestamp :: u64
  fe_forwarded_to_user :: u8

text \<open>
  \<open>fc_cached_data\<close> holds the bytes read into \<^verbatim>\<open>cached_data[MAX_PACKET_SIZE]\<close>; the rest of
  the array stays zero.
\<close>

record file_cache_entry =
  fc_filename :: "u8 list"
  fc_file_size :: u32
  fc_last_modified :: u64
  fc_cached_data :: "u8 list"
  fc_cache_hits :: u32
  fc_valid :: u8

datatype fileserver_record = HttpRequest http_request | FileEvent file_event

text \<open>
  The maps of the program: \<^verbatim>\<open>stats\<close> (array of 16), \<^verbatim>\<open>file_cache\<close> (hash, 1024 entries,
  keyed by the whole \<^verbatim>\<open>char[MAX_FILENAME_LEN]\<close> buffer), \<^verbatim>\<open>conn_track\<close> (hash, 4096
  entries) and \<^verbatim>\<open>events\<close>, the ring buffer, as the list of submitted records in the order
  of the \<^verbatim>\<open>bpf_ringbuf_submit\<close> calls.
\<close>

record fileserver_maps =
  stats :: "u64 list"
  file_cache :: "(u8 list \<times> file_cache_entry) list"
  conn_track :: "(u32 \<times> u64) list"
  events :: "fileserver_record list"

text \<open>The \<^verbatim>\<open>const volatile\<close> configuration; the defaults are 1, 4096 and 300.\<close>

record fileserver_config =
  enable_kernel_processing :: u32
  max_file_size :: u32
  cache_ttl_seconds :: u32

text \<open>
  What the kernel decides during one invocation: whether each \<^verbatim>\<open>bpf_ringbuf_reserve\<close>
  returns a record, and the value of each \<^verbatim>\<open>bpf_ktime_get_ns()\<close> call.
\<close>

record ingress_env =
  reserve_req_event :: bool
  reserve_file_event :: bool
  ktime_file_event :: u64
  ktime_conn_track :: u64

text \<open>
  \<^verbatim>\<open>parse_http_method(data, data_end, len)\<close>; \<open>payload\<close> is the bytes from \<^verbatim>\<open>data\<close> to
  \<^verbatim>\<open>data_end\<close>.
\<close>

definition parse_http_method :: "u8 list \<Rightarrow> nat \<Rightarrow> u8" where
  "parse_http_method payload len =
     (if length payload < 3 \<or> len < 3 then HTTP_UNKNOWN
      else if payload ! 0 = ch CHR ''G'' \<and> payload ! 1 = ch CHR ''E'' \<and> payload ! 2 = ch CHR ''T''
      then HTTP_GET
      else if 4 \<le> length payload \<and> len \<ge> 4 \<and>
              payload ! 0 = ch CHR ''P'' \<and> payload ! 1 = ch CHR ''O'' \<and>
              payload ! 2 = ch CHR ''S'' \<and> payload ! 3 = ch CHR ''T''
      then HTTP_POST
      else if payload ! 0 = ch CHR ''P'' \<and> payload ! 1 = ch CHR ''U'' \<and> payload ! 2 = ch CHR ''T''
      then HTTP_PUT
      else if 6 \<le> length payload \<and> len \<ge> 6 \<and>
              payload ! 0 = ch CHR ''D'' \<and> payload ! 1 = ch CHR ''E'' \<and>
              payload ! 2 = ch CHR ''L'' \<and> payload ! 3 = ch CHR ''E'' \<and>
              payload ! 4 = ch CHR ''T'' \<and> payload ! 5 = ch CHR ''E''
      then HTTP_DELETE
      else HTTP_UNKNOWN)"

text \<open>
  The loop of \<^verbatim>\<open>extract_filename\<close>:
  \<^verbatim>\<open>
  for (int i = 5; i < 13 && i < len && j < 8; i++) {
      if (payload + i >= (char *)data_end) break;
      if (payload[i] == ' ' || payload[i] == '?' || payload[i] == '\r' || payload[i] == '\n') break;
      filename[j++] = payload[i];
  }
  \<close>
\<close>

function extract_filename_loop :: "u8 list \<Rightarrow> nat \<Rightarrow> nat \<Rightarrow> nat \<Rightarrow> u8 list \<Rightarrow> nat \<times> u8 list" where
  "extract_filename_loop payload len i j filename =
     (if i < 13 \<and> i < len \<and> j < 8 then
        (if i \<ge> length payload then (j, filename)
         else if payload ! i = ch CHR '' '' \<or> payload ! i = ch CHR ''?'' \<or>
                 payload ! i = 13 \<or> payload ! i = 10 then (j, filename)
         else extract_filename_loop payload len (i + 1) (j + 1) (filename[j := payload ! i]))
      else (j, filename))"
  by pat_completeness auto
termination
  by (relation "measure (\<lambda>(payload, len, i, j, filename). 13 - i)") auto

declare extract_filename_loop.simps [simp del]

text \<open>\<^verbatim>\<open>extract_filename\<close> returns the length and leaves the name in \<open>filename\<close>.\<close>

definition extract_filename :: "u8 list \<Rightarrow> nat \<Rightarrow> u8 list \<Rightarrow> nat \<times> u8 list" where
  "extract_filename payload len filename =
     (if len < 5 \<or> length payload < 5 then (0, filename[0 := 0])
      else if payload ! 0 = ch CHR ''G'' \<and> payload ! 1 = ch CHR ''E'' \<and>
              payload ! 2 = ch CHR ''T'' \<and> payload ! 3 = ch CHR '' '' \<and>
              payload ! 4 = ch CHR ''/''
      then (let (j, filename') = extract_filename_loop payload len 5 0 filename
            in (j, filename'[j := 0]))
      else (0, filename[0 := 0]))"

definition check_file_exists :: "u8 list \<Rightarrow> int" where
  "check_file_exists filename =
     (if filename ! 0 = ch CHR ''i'' \<and> filename ! 1 = ch CHR ''n'' \<and> filename ! 2 = ch CHR ''d''
      then 1
      else if filename ! 0 = ch CHR ''s'' \<and> filename ! 1 = ch CHR ''t'' \<and> filename ! 2 = ch CHR ''a''
      then 1
      else if filename ! 0 = ch CHR ''t'' \<and> filename ! 1 = ch CHR ''e'' \<and> filename ! 2 = ch CHR ''s''
      then 1
      else 0)"

text \<open>
  The three blocks that create a file event have one shape:
  \<^verbatim>\<open>file_event = bpf_ringbuf_reserve(...); if (file_event) { ...; bpf_ringbuf_submit(file_event, 0); }\<close>
\<close>

definition emit_file_event :: "ingress_env \<Rightarrow> fileserver_maps \<Rightarrow> file_event \<Rightarrow> fileserver_maps" where
  "emit_file_event env m ev =
     (if reserve_file_event env then m\<lparr>events := events m @ [FileEvent ev]\<rparr> else m)"

text \<open>
  Lines 225 to 285 of \<^verbatim>\<open>fileserver_ingress\<close>: the branch on the request, which yields the
  request record, the maps and the label of the branch.
\<close>

definition ingress_decide ::
  "fileserver_config \<Rightarrow> ingress_env \<Rightarrow> fileserver_maps \<Rightarrow> u32 \<Rightarrow> u16 \<Rightarrow> u8 \<Rightarrow> u8 list \<Rightarrow>
   http_request \<Rightarrow> http_request \<times> fileserver_maps \<times> decision" where
  "ingress_decide cfg env m client_ip client_port method filename req_event =
     (if enable_kernel_processing cfg \<noteq> 0 \<and> method = HTTP_GET then
        (if check_file_exists filename \<noteq> 0 then
           (let not_cached =
                  (req_event\<lparr>hr_processed_in_kernel := 0\<rparr>,
                   emit_file_event env (m\<lparr>stats := update_stats (stats m) 2 1\<rparr>)
                     \<lparr>fe_client_addr = client_ip, fe_client_port = client_port,
                      fe_operation = FILE_OP_FORWARD_TO_USER, fe_filename = filename,
                      fe_file_size = 0, fe_timestamp = ktime_file_event env,
                      fe_forwarded_to_user = 1\<rparr>,
                   ForwardToControlPlane)
            in case bpf_map_lookup_elem (file_cache m) filename of
                 None \<Rightarrow> not_cached
               | Some cache_entry \<Rightarrow>
                   if fc_valid cache_entry \<noteq> 0 then
                     (let cache_entry' = cache_entry\<lparr>fc_cache_hits := fc_cache_hits cache_entry + 1\<rparr>;
                          m1 = m\<lparr>file_cache := write_elem (file_cache m) filename cache_entry'\<rparr>;
                          m2 = m1\<lparr>stats := update_stats (stats m1) 1 1\<rparr>
                      in (req_event\<lparr>hr_processed_in_kernel := 1\<rparr>,
                          emit_file_event env m2
                            \<lparr>fe_client_addr = client_ip, fe_client_port = client_port,
                             fe_operation = FILE_OP_SUCCESS, fe_filename = filename,
                             fe_file_size = fc_file_size cache_entry',
                             fe_timestamp = ktime_file_event env,
                             fe_forwarded_to_user = 0\<rparr>,
                          KernelServed))
                   else not_cached)
         else
           (let m1 = emit_file_event env m
                       \<lparr>fe_client_addr = client_ip, fe_client_port = client_port,
                        fe_operation = FILE_OP_NOT_FOUND, fe_filename = filename,
                        fe_file_size = 0, fe_timestamp = ktime_file_event env,
                        fe_forwarded_to_user = 1\<rparr>
            in (req_event, m1\<lparr>stats := update_stats (stats m1) 3 1\<rparr>, NotFound)))
      else (req_event, m\<lparr>stats := update_stats (stats m) 2 1\<rparr>, ForwardToControlPlane))"

text \<open>
  Lines 203 to 208 of \<^verbatim>\<open>fileserver_ingress\<close>: the name is extracted into the zeroed local
  array \<^verbatim>\<open>char filename[MAX_FILENAME_LEN] = {0}\<close>, and a name of length 0 is replaced by
  \<^verbatim>\<open>__builtin_memcpy(filename, "index.html", 11)\<close>.
\<close>

definition ingress_filename :: "u8 list \<Rightarrow> nat \<Rightarrow> u8 list" where
  "ingress_filename http_payload payload_len =
     (let (filename_len, filename) =
            extract_filename http_payload payload_len (replicate MAX_FILENAME_LEN 0)
      in if filename_len = 0 then memcpy filename (bytes ''index.html'' @ [0]) 11
         else filename)"

text \<open>Lines 218 to 223 of \<^verbatim>\<open>fileserver_ingress\<close>: the request record as it is initialised.\<close>

definition new_http_request :: "u32 \<Rightarrow> u16 \<Rightarrow> u8 \<Rightarrow> u8 list \<Rightarrow> http_request" where
  "new_http_request client_ip client_port method filename =
     \<lparr>hr_src_addr = client_ip, hr_src_port = client_port, hr_method = method,
      hr_processed_in_kernel = 0, hr_filename = filename, hr_content_length = 0\<rparr>"

text \<open>
  Lines 200 to 292 of \<^verbatim>\<open>fileserver_ingress\<close>: what the handler does once the method is
  known. The failed update of a full \<^verbatim>\<open>conn_track\<close> is ignored, as its result is in the
  source.
\<close>

definition ingress_request ::
  "fileserver_config \<Rightarrow> ingress_env \<Rightarrow> fileserver_maps \<Rightarrow> u8 list \<Rightarrow> u32 \<Rightarrow> u16 \<Rightarrow> u8 \<Rightarrow>
   u8 list \<Rightarrow> nat \<Rightarrow> fileserver_maps tc_result" where
  "ingress_request cfg env m skb client_ip client_port method http_payload payload_len =
     (let filename = ingress_filename http_payload payload_len;
          m1 = m\<lparr>stats := update_stats (stats m) 0 1\<rparr>
      in if \<not> reserve_req_event env
         then \<lparr>verdict = TC_ACT_OK, decision = ChannelFull, maps = m1, skb_out = skb\<rparr>
         else
           (let req_event = new_http_request client_ip client_port method filename;
                (req_event', m2, d) =
                   ingress_decide cfg env m1 client_ip client_port method filename req_event;
                timestamp = ktime_conn_track env;
                m3 = (case bpf_map_update_elem 4096 (conn_track m2) client_ip timestamp of
                        None \<Rightarrow> m2
                      | Some c \<Rightarrow> m2\<lparr>conn_track := c\<rparr>)
            in \<lparr>verdict = TC_ACT_OK, decision = d,
                maps = m3\<lparr>events := events m3 @ [HttpRequest req_event']\<rparr>,
                skb_out = skb\<rparr>))"

text \<open>
  \<^verbatim>\<open>http_payload = (char *)tcp + (tcp->doff * 4)\<close>, with \<^verbatim>\<open>doff\<close> in the high half of byte 12
  of \<^verbatim>\<open>struct tcphdr\<close>, and \<^verbatim>\<open>payload_len = data_end - (void *)http_payload\<close>, a \<^verbatim>\<open>__u16\<close>.
\<close>

definition http_payload_offset :: "u8 list \<Rightarrow> nat" where
  "http_payload_offset skb =
     transport_offset skb + unat (drop_bit 4 (skb ! (transport_offset skb + 12))) * 4"

definition http_payload_len :: "u8 list \<Rightarrow> nat" where
  "http_payload_len skb = (length skb - http_payload_offset skb) mod 65536"

text \<open>
  \<^verbatim>\<open>fileserver_ingress\<close>: lines 163 to 198 walk the headers and return \<^verbatim>\<open>TC_ACT_OK\<close> at the
  first mismatch; \<^verbatim>\<open>struct tcphdr\<close> is 20 bytes with \<^verbatim>\<open>source\<close> at 0 and \<^verbatim>\<open>dest\<close> at 2.
\<close>

definition fileserver_ingress ::
  "fileserver_config \<Rightarrow> ingress_env \<Rightarrow> fileserver_maps \<Rightarrow> u8 list \<Rightarrow> fileserver_maps tc_result" where
  "fileserver_ingress cfg env m skb =
     (let pass = \<lparr>verdict = TC_ACT_OK, decision = PassThrough, maps = m, skb_out = skb\<rparr>;
          tcp = transport_offset skb
      in if length skb < 14 then pass
         else if be16 skb 12 \<noteq> ETH_P_IP then pass
         else if length skb < 34 then pass
         else if skb ! 23 \<noteq> IPPROTO_TCP then pass
         else if length skb < tcp + 20 then pass
         else if be16 skb (tcp + 2) \<noteq> 80 \<and> be16 skb (tcp + 2) \<noteq> 8080 then pass
         else if http_payload_offset skb \<ge> length skb then pass
         else if http_payload_len skb < 4 then pass
         else
           (let http_payload = drop (http_payload_offset skb) skb;
                method = parse_http_method http_payload (http_payload_len skb)
            in if method = HTTP_UNKNOWN then pass
               else ingress_request cfg env m skb (ip_saddr skb) (be16 skb tcp) method
                      http_payload (http_payload_len skb)))"

section \<open>The remote-filesystem program: nfs_server.bpf.c\<close>

text \<open>
  Prefixes: \<open>rh_\<close> for \<^verbatim>\<open>struct rpc_header\<close>, \<open>fa_\<close> for \<^verbatim>\<open>struct nfs_fattr\<close>, \<open>rq_\<close> for
  \<^verbatim>\<open>struct nfs_request\<close>, \<open>ev_\<close> for \<^verbatim>\<open>struct nfs_event\<close>, \<open>ce_\<close> for
  \<^verbatim>\<open>struct nfs_file_cache_entry\<close>, \<open>cs_\<close> for \<^verbatim>\<open>struct nfs_client_state\<close>.
\<close>

definition NFS_PORT :: u16 where "NFS_PORT = 2049"
definition RPC_PROGRAM_NFS :: u32 where "RPC_PROGRAM_NFS = 100003"
definition NFS_VERSION_3 :: u32 where "NFS_VERSION_3 = 3"
definition RPC_CALL :: u32 where "RPC_CALL = 0"

definition NFSPROC3_NULL :: u32 where "NFSPROC3_NULL = 0"
definition NFSPROC3_GETATTR :: u32 where "NFSPROC3_GETATTR = 1"
definition NFSPROC3_READ :: u32 where "NFSPROC3_READ = 6"

definition NFS_OP_SUCCESS :: u32 where "NFS_OP_SUCCESS = 0"
definition NFS_OP_FORWARD_TO_USER :: u32 where "NFS_OP_FORWARD_TO_USER = 10002"

record rpc_header =
  rh_xid :: u32
  rh_msg_type :: u32
  rh_rpc_version :: u32
  rh_program :: u32
  rh_version :: u32
  rh_procedure :: u32
  rh_auth_flavor :: u32
  rh_auth_len :: u32

record nfs_fattr =
  fa_type :: u32
  fa_mode :: u32
  fa_nlink :: u32
  fa_uid :: u32
  fa_gid :: u32
  fa_size :: u64
  fa_used :: u64
  fa_fsid :: u64
  fa_fileid :: u64
  fa_atime_sec :: u64
  fa_atime_nsec :: u32
  fa_mtime_sec :: u64
  fa_mtime_nsec :: u32
  fa_ctime_sec :: u64
  fa_ctime_nsec :: u32

text \<open>
  The records of the ring buffer. \<open>rq_filename\<close> and \<open>ev_filename\<close> hold the bytes the
  handler writes into \<^verbatim>\<open>filename[MAX_FILENAME_LEN]\<close>: the empty string after
  \<^verbatim>\<open>filename[0] = '\0'\<close>, which leaves the other bytes of the reserved record unwritten, and
  all \<open>MAX_FILENAME_LEN\<close> bytes of the local array after \<^verbatim>\<open>__builtin_memcpy\<close>.
\<close>

record nfs_request =
  rq_client_addr :: u32
  rq_client_port :: u16
  rq_xid :: u32
  rq_procedure :: u32
  rq_processed_in_kernel :: u8
  rq_filename :: "u8 list"
  rq_offset :: u32
  rq_count :: u32
  rq_fh :: nfs_fh

record nfs_event =
  ev_client_addr :: u32
  ev_client_port :: u16
  ev_xid :: u32
  ev_procedure :: u32
  ev_result :: u32
  ev_filename :: "u8 list"
  ev_file_size :: u32
  ev_timestamp :: u64
  ev_forwarded_to_user :: u8
  ev_from_cache :: u8

text \<open>
  \<open>ce_data\<close> holds the bytes read into \<^verbatim>\<open>data[MAX_NFS_DATA_SIZE]\<close>; the rest of the array
  stays zero.
\<close>

record nfs_file_cache_entry =
  ce_filename :: "u8 list"
  ce_fh :: nfs_fh
  ce_attr :: nfs_fattr
  ce_data_size :: u32
  ce_data :: "u8 list"
  ce_cache_time :: u64
  ce_cache_hits :: u32
  ce_valid :: u8
  ce_data_valid :: u8

record nfs_client_state =
  cs_client_addr :: u32
  cs_last_request_time :: u64
  cs_request_count :: u32
  cs_kernel_processed :: u32
  cs_user_forwarded :: u32

datatype nfs_record = NfsRequest nfs_request | NfsEvent nfs_event

text \<open>
  The maps of the program: \<^verbatim>\<open>nfs_stats\<close> (array of 16), \<^verbatim>\<open>nfs_file_cache\<close> (hash, 1024),
  \<^verbatim>\<open>fh_to_name\<close> (hash, 2048), \<^verbatim>\<open>client_track\<close> (hash, 1024) and the ring buffer
  \<^verbatim>\<open>nfs_events\<close>.

  A key of \<^verbatim>\<open>nfs_file_cache\<close> and a value of \<^verbatim>\<open>fh_to_name\<close> is a
  \<^verbatim>\<open>char[MAX_FILENAME_LEN]\<close>: all \<open>MAX_FILENAME_LEN\<close> bytes as they were stored, the bytes
  behind the terminator of the name included. Two keys are the same key when all their
  bytes agree.
\<close>

record nfs_maps =
  nfs_stats :: "u64 list"
  nfs_file_cache :: "(u8 list \<times> nfs_file_cache_entry) list"
  fh_to_name :: "(nfs_fh \<times> u8 list) list"
  client_track :: "(u32 \<times> nfs_client_state) list"
  nfs_events :: "nfs_record list"

text \<open>The \<^verbatim>\<open>const volatile\<close> configuration; the defaults are 1, 4096 and 300.\<close>

record nfs_config =
  nfs_enable_kernel_processing :: u32
  max_cached_file_size :: u32
  nfs_cache_ttl_seconds :: u32

text \<open>
  What the kernel answers during one run of the handler: whether the two reservations in
  the ring buffer succeed, the values of \<^verbatim>\<open>bpf_ktime_get_ns()\<close> at the three places that
  read the clock, and \<open>stack_filename\<close>, the \<open>MAX_FILENAME_LEN\<close> bytes that the
  uninitialised local \<^verbatim>\<open>char filename[MAX_FILENAME_LEN]\<close> of \<^verbatim>\<open>handle_nfs_getattr\<close> or
  \<^verbatim>\<open>handle_nfs_read\<close> holds when the function is entered.
\<close>

record nfs_env =
  reserve_nfs_request :: bool
  reserve_nfs_event :: bool
  ktime_client :: u64
  ktime_event :: u64
  ktime_ttl :: u64
  stack_filename :: "u8 list"

text \<open>\<^verbatim>\<open>extract_be32(data, data_end, offset)\<close>; \<open>d\<close> is the bytes from \<^verbatim>\<open>data\<close> to \<^verbatim>\<open>data_end\<close>.\<close>

definition extract_be32 :: "u8 list \<Rightarrow> nat \<Rightarrow> u32" where
  "extract_be32 d offset = (if length d < offset + 4 then 0 else be32 d offset)"

text \<open>
  \<^verbatim>\<open>parse_rpc_header\<close>: \<open>None\<close> is the return value \<open>-1\<close>; \<^verbatim>\<open>sizeof(struct rpc_header)\<close> is 32.
\<close>

definition parse_rpc_header :: "u8 list \<Rightarrow> nat \<Rightarrow> rpc_header option" where
  "parse_rpc_header d payload_len =
     (if payload_len < 32 then None
      else if length d < 32 then None
      else Some \<lparr>rh_xid = extract_be32 d 0, rh_msg_type = extract_be32 d 4,
                 rh_rpc_version = extract_be32 d 8, rh_program = extract_be32 d 12,
                 rh_version = extract_be32 d 16, rh_procedure = extract_be32 d 20,
                 rh_auth_flavor = extract_be32 d 24, rh_auth_len = extract_be32 d 28\<rparr>)"

definition lookup_file_cache :: "nfs_maps \<Rightarrow> u8 list \<Rightarrow> nfs_file_cache_entry option" where
  "lookup_file_cache m filename = bpf_map_lookup_elem (nfs_file_cache m) filename"

text \<open>
  The copy of the name found in \<^verbatim>\<open>fh_to_name\<close> into the local array:
  \<^verbatim>\<open>
  for (int i = 0; i < MAX_FILENAME_LEN - 1; i++) {
      filename[i] = cached_name[i];
      if (cached_name[i] == '\0') break;
  }
  filename[MAX_FILENAME_LEN - 1] = '\0';
  \<close>
  \<open>filename\<close> is the array as it stands, \<open>cached_name\<close> the value found in the map. The
  loop writes the name and its terminator; the bytes of the array behind the terminator,
  up to the last one, stay what they were on entry.
\<close>

function copy_name_loop :: "nat \<Rightarrow> u8 list \<Rightarrow> u8 list \<Rightarrow> u8 list" where
  "copy_name_loop i cached_name filename =
     (if i < MAX_FILENAME_LEN - 1 then
        (let filename' = filename[i := char_at cached_name i]
         in if char_at cached_name i = 0 then filename'
            else copy_name_loop (i + 1) cached_name filename')
      else filename)"
  by pat_completeness auto
termination
  by (relation "measure (\<lambda>(i, cached_name, filename). MAX_FILENAME_LEN - 1 - i)") auto

declare copy_name_loop.simps [simp del]

definition copy_name :: "u8 list \<Rightarrow> u8 list \<Rightarrow> u8 list" where
  "copy_name stack cached_name =
     (copy_name_loop 0 cached_name stack)[MAX_FILENAME_LEN - 1 := 0]"

text \<open>
  \<^verbatim>\<open>handle_nfs_getattr(req, event)\<close>: the return value, the event and the maps;
  \<open>current_time\<close> is the value of \<^verbatim>\<open>bpf_ktime_get_ns()\<close> at the TTL check and \<open>stack\<close>
  the content of the local \<^verbatim>\<open>filename\<close> on entry. The lookup in \<^verbatim>\<open>nfs_file_cache\<close> and the
  \<^verbatim>\<open>__builtin_memcpy\<close> into the event take all \<open>MAX_FILENAME_LEN\<close> bytes of the array.
\<close>

definition handle_nfs_getattr ::
  "nfs_config \<Rightarrow> u64 \<Rightarrow> u8 list \<Rightarrow> nfs_maps \<Rightarrow> nfs_request \<Rightarrow> nfs_event \<Rightarrow>
   int \<times> nfs_event \<times> nfs_maps" where
  "handle_nfs_getattr cfg current_time stack m req event =
     (case bpf_map_lookup_elem (fh_to_name m) (rq_fh req) of
        None \<Rightarrow>
          (0, event\<lparr>ev_result := NFS_OP_FORWARD_TO_USER, ev_forwarded_to_user := 1\<rparr>, m)
      | Some cached_name \<Rightarrow>
          (let filename = copy_name stack cached_name;
               forward = (0, event\<lparr>ev_result := NFS_OP_FORWARD_TO_USER,
                                   ev_forwarded_to_user := 1, ev_filename := filename\<rparr>, m)
           in case lookup_file_cache m filename of
                None \<Rightarrow> forward
              | Some cache_entry \<Rightarrow>
                  if ce_valid cache_entry = 0 then forward
                  else if current_time - ce_cache_time cache_entry
                            > ucast (nfs_cache_ttl_seconds cfg) * 1000000000
                  then forward
                  else
                    (let cache_entry' =
                           cache_entry\<lparr>ce_cache_hits := ce_cache_hits cache_entry + 1\<rparr>;
                         m1 = m\<lparr>nfs_file_cache :=
                                  write_elem (nfs_file_cache m) filename cache_entry'\<rparr>
                     in (1,
                         event\<lparr>ev_result := NFS_OP_SUCCESS, ev_forwarded_to_user := 0,
                               ev_from_cache := 1,
                               ev_file_size := ucast (fa_size (ce_attr cache_entry')),
                               ev_filename := filename\<rparr>,
                         m1\<lparr>nfs_stats := update_stats (nfs_stats m1) 1 1\<rparr>))))"

text \<open>\<^verbatim>\<open>handle_nfs_read(req, event)\<close>; the comparisons are on \<^verbatim>\<open>__u32\<close> values.\<close>

definition handle_nfs_read ::
  "u8 list \<Rightarrow> nfs_maps \<Rightarrow> nfs_request \<Rightarrow> nfs_event \<Rightarrow> int \<times> nfs_event \<times> nfs_maps" where
  "handle_nfs_read stack m req event =
     (case bpf_map_lookup_elem (fh_to_name m) (rq_fh req) of
        None \<Rightarrow>
          (0, event\<lparr>ev_result := NFS_OP_FORWARD_TO_USER, ev_forwarded_to_user := 1\<rparr>, m)
      | Some cached_name \<Rightarrow>
          (let filename = copy_name stack cached_name;
               forward = (0, event\<lparr>ev_result := NFS_OP_FORWARD_TO_USER,
                                   ev_forwarded_to_user := 1, ev_filename := filename\<rparr>, m)
           in case lookup_file_cache m filename of
                None \<Rightarrow> forward
              | Some cache_entry \<Rightarrow>
                  if ce_valid cache_entry = 0 \<or> ce_data_valid cache_entry = 0 then forward
                  else if rq_offset req \<ge> ce_data_size cache_entry \<or>
                          rq_count req > of_nat MAX_NFS_DATA_SIZE \<or>
                          rq_offset req + rq_count req > ce_data_size cache_entry
                  then forward
                  else
                    (let cache_entry' =
                           cache_entry\<lparr>ce_cache_hits := ce_cache_hits cache_entry + 1\<rparr>;
                         m1 = m\<lparr>nfs_file_cache :=
                                  write_elem (nfs_file_cache m) filename cache_entry'\<rparr>
                     in (1,
                         event\<lparr>ev_result := NFS_OP_SUCCESS, ev_forwarded_to_user := 0,
                               ev_from_cache := 1, ev_file_size := rq_count req,
                               ev_filename := filename\<rparr>,
                         m1\<lparr>nfs_stats := update_stats (nfs_stats m1) 1 1\<rparr>))))"

text \<open>
  Lines 616 to 631 of \<^verbatim>\<open>nfs_server_tc\<close>, the client tracker. The result tells whether
  \<^verbatim>\<open>client_state\<close> points into the map (the client was found) or at the local
  \<^verbatim>\<open>new_state\<close>; the failed insertion into a full map is ignored, as in the source.
\<close>

definition track_client :: "nfs_env \<Rightarrow> nfs_maps \<Rightarrow> u32 \<Rightarrow> bool \<times> nfs_maps" where
  "track_client env m client_ip =
     (case bpf_map_lookup_elem (client_track m) client_ip of
        None \<Rightarrow>
          (let new_state = \<lparr>cs_client_addr = client_ip,
                            cs_last_request_time = ktime_client env,
                            cs_request_count = 1, cs_kernel_processed = 0,
                            cs_user_forwarded = 0\<rparr>
           in (False,
               case bpf_map_update_elem 1024 (client_track m) client_ip new_state of
                 None \<Rightarrow> m
               | Some t \<Rightarrow> m\<lparr>client_track := t\<rparr>))
      | Some client_state \<Rightarrow>
          (True,
           m\<lparr>client_track := write_elem (client_track m) client_ip
                (client_state\<lparr>cs_last_request_time := ktime_client env,
                              cs_request_count := cs_request_count client_state + 1\<rparr>)\<rparr>))"

text \<open>
  \<^verbatim>\<open>client_state->kernel_processed++\<close> and \<^verbatim>\<open>client_state->user_forwarded++\<close>: a write into
  the map when \<^verbatim>\<open>client_state\<close> points there, and a write to the local copy, which nobody
  reads afterwards, when it does not.
\<close>

definition write_client_state ::
  "bool \<Rightarrow> nfs_maps \<Rightarrow> u32 \<Rightarrow> (nfs_client_state \<Rightarrow> nfs_client_state) \<Rightarrow> nfs_maps" where
  "write_client_state in_map m client_ip f =
     (if in_map then
        (case bpf_map_lookup_elem (client_track m) client_ip of
           None \<Rightarrow> m
         | Some client_state \<Rightarrow>
             m\<lparr>client_track := write_elem (client_track m) client_ip (f client_state)\<rparr>)
      else m)"

text \<open>
  Lines 666 to 689 of \<^verbatim>\<open>nfs_server_tc\<close>: the switch on the procedure, which yields
  \<^verbatim>\<open>handled_in_kernel\<close>, the operation event and the maps.
\<close>

definition nfs_dispatch ::
  "nfs_config \<Rightarrow> nfs_env \<Rightarrow> nfs_maps \<Rightarrow> u32 \<Rightarrow> nfs_request \<Rightarrow> nfs_event \<Rightarrow>
   int \<times> nfs_event \<times> nfs_maps" where
  "nfs_dispatch cfg env m procedure req_event nfs_event =
     (if nfs_enable_kernel_processing cfg \<noteq> 0 then
        (if procedure = NFSPROC3_NULL then
           (1, nfs_event\<lparr>ev_result := NFS_OP_SUCCESS, ev_forwarded_to_user := 0,
                         ev_from_cache := 0\<rparr>,
            m\<lparr>nfs_stats := update_stats (nfs_stats m) 1 1\<rparr>)
         else if procedure = NFSPROC3_GETATTR then
           handle_nfs_getattr cfg (ktime_ttl env) (stack_filename env) m req_event nfs_event
         else if procedure = NFSPROC3_READ then
           handle_nfs_read (stack_filename env) m req_event nfs_event
         else
           (0, nfs_event\<lparr>ev_result := NFS_OP_FORWARD_TO_USER, ev_forwarded_to_user := 1\<rparr>, m))
      else (0, nfs_event, m))"

text \<open>
  Lines 638 to 646 and 655 to 664 of \<^verbatim>\<open>nfs_server_tc\<close>: the two records as they are
  initialised. The request record gets an empty name, offset and count 0 and a zeroed
  handle; nothing is decoded from the payload behind the RPC header.
\<close>

definition new_nfs_request :: "u32 \<Rightarrow> u16 \<Rightarrow> rpc_header \<Rightarrow> nfs_request" where
  "new_nfs_request client_ip client_port rpc =
     \<lparr>rq_client_addr = client_ip, rq_client_port = client_port,
      rq_xid = rh_xid rpc, rq_procedure = rh_procedure rpc,
      rq_processed_in_kernel = 0, rq_filename = [],
      rq_offset = 0, rq_count = 0, rq_fh = zero_fh\<rparr>"

definition new_nfs_event :: "nfs_env \<Rightarrow> u32 \<Rightarrow> u16 \<Rightarrow> rpc_header \<Rightarrow> nfs_event" where
  "new_nfs_event env client_ip client_port rpc =
     \<lparr>ev_client_addr = client_ip, ev_client_port = client_port,
      ev_xid = rh_xid rpc, ev_procedure = rh_procedure rpc,
      ev_result = NFS_OP_FORWARD_TO_USER, ev_filename = [],
      ev_file_size = 0, ev_timestamp = ktime_event env,
      ev_forwarded_to_user = 1, ev_from_cache = 0\<rparr>"

text \<open>
  Lines 613 to 705 of \<^verbatim>\<open>nfs_server_tc\<close>: what the handler does with a validated call.
  When the second reservation fails the first record is discarded.
\<close>

definition nfs_call ::
  "nfs_config \<Rightarrow> nfs_env \<Rightarrow> nfs_maps \<Rightarrow> u8 list \<Rightarrow> u32 \<Rightarrow> u16 \<Rightarrow> rpc_header \<Rightarrow>
   nfs_maps tc_result" where
  "nfs_call cfg env m skb client_ip client_port rpc =
     (let (in_map, m1) = track_client env m client_ip
      in if \<not> reserve_nfs_request env
         then \<lparr>verdict = TC_ACT_OK, decision = ChannelFull, maps = m1, skb_out = skb\<rparr>
         else
           (let req_event = new_nfs_request client_ip client_port rpc
            in if \<not> reserve_nfs_event env
               then \<lparr>verdict = TC_ACT_OK, decision = ChannelFull, maps = m1, skb_out = skb\<rparr>
               else
                 (let nfs_event = new_nfs_event env client_ip client_port rpc;
                      (handled_in_kernel, nfs_event', m2) =
                         nfs_dispatch cfg env m1 (rh_procedure rpc) req_event nfs_event;
                      m3 = m2\<lparr>nfs_stats := update_stats (nfs_stats m2) 0 1\<rparr>;
                      (req_event', m4) =
                         (if handled_in_kernel \<noteq> 0 then
                            (req_event\<lparr>rq_processed_in_kernel := 1\<rparr>,
                             write_client_state in_map m3 client_ip
                               (\<lambda>c. c\<lparr>cs_kernel_processed := cs_kernel_processed c + 1\<rparr>))
                          else
                            (let m' = write_client_state in_map m3 client_ip
                                        (\<lambda>c. c\<lparr>cs_user_forwarded := cs_user_forwarded c + 1\<rparr>)
                             in (req_event, m'\<lparr>nfs_stats := update_stats (nfs_stats m') 2 1\<rparr>)))
                  in \<lparr>verdict = TC_ACT_OK,
                      decision = (if handled_in_kernel \<noteq> 0 then KernelServed
                                  else ForwardToControlPlane),
                      maps = m4\<lparr>nfs_events := nfs_events m4 @
                                   [NfsRequest req_event', NfsEvent nfs_event']\<rparr>,
                      skb_out = skb\<rparr>)))"

text \<open>
  \<^verbatim>\<open>nfs_payload = (void *)udp + sizeof(struct udphdr)\<close> with a \<^verbatim>\<open>struct udphdr\<close> of 8 bytes
  (\<^verbatim>\<open>source\<close> at 0, \<^verbatim>\<open>dest\<close> at 2), and \<^verbatim>\<open>payload_len = data_end - nfs_payload\<close>, a
  \<^verbatim>\<open>__u16\<close>.
\<close>

definition nfs_payload_offset :: "u8 list \<Rightarrow> nat" where
  "nfs_payload_offset skb = transport_offset skb + 8"

definition nfs_payload_len :: "u8 list \<Rightarrow> nat" where
  "nfs_payload_len skb = (length skb - nfs_payload_offset skb) mod 65536"

text \<open>\<^verbatim>\<open>nfs_server_tc\<close>: lines 570 to 611 walk the headers and validate the RPC envelope.\<close>

definition nfs_server_tc ::
  "nfs_config \<Rightarrow> nfs_env \<Rightarrow> nfs_maps \<Rightarrow> u8 list \<Rightarrow> nfs_maps tc_result" where
  "nfs_server_tc cfg env m skb =
     (let pass = \<lparr>verdict = TC_ACT_OK, decision = PassThrough, maps = m, skb_out = skb\<rparr>;
          udp = transport_offset skb
      in if length skb < 14 then pass
         else if be16 skb 12 \<noteq> ETH_P_IP then pass
         else if length skb < 34 then pass
         else if skb ! 23 \<noteq> IPPROTO_UDP then pass
         else if length skb < udp + 8 then pass
         else if be16 skb (udp + 2) \<noteq> NFS_PORT then pass
         else if nfs_payload_offset skb \<ge> length skb then pass
         else if nfs_payload_len skb < 32 then pass
         else
           (case parse_rpc_header (drop (nfs_payload_offset skb) skb) (nfs_payload_len skb) of
              None \<Rightarrow> pass
            | Some rpc \<Rightarrow>
                if rh_msg_type rpc \<noteq> RPC_CALL \<or> rh_rpc_version rpc \<noteq> 2 \<or>
                   rh_program rpc \<noteq> RPC_PROGRAM_NFS \<or> rh_version rpc \<noteq> NFS_VERSION_3
                then pass
                else nfs_call cfg env m skb (ip_saddr skb) (be16 skb udp) rpc))"

section \<open>The control plane's refresh: cache_file_in_kernel\<close>

text \<open>
  The fields of \<^verbatim>\<open>struct stat\<close> that the refresh reads. \<open>st_size\<close> is a file size, which
  is never negative. \<^verbatim>\<open>S_ISREG\<close> and \<^verbatim>\<open>S_ISDIR\<close> test the file type bits of the mode.
\<close>

record stat =
  st_mode :: u32
  st_nlink :: u64
  st_uid :: u32
  st_gid :: u32
  st_size :: nat
  st_blocks :: u64
  st_ino :: u64
  st_atime :: u64
  st_mtime :: u64
  st_ctime :: u64

definition S_ISREG :: "u32 \<Rightarrow> bool" where
  "S_ISREG mode \<longleftrightarrow> mode AND 0xF000 = 0x8000"

definition S_ISDIR :: "u32 \<Rightarrow> bool" where
  "S_ISDIR mode \<longleftrightarrow> mode AND 0xF000 = 0x4000"

text \<open>
  What the operating system answers for the file at \<^verbatim>\<open>export_root/filename\<close> (or
  \<^verbatim>\<open>document_root/filename\<close>): the result of \<^verbatim>\<open>stat\<close> (\<open>None\<close> when it fails), whether
  \<^verbatim>\<open>open\<close> succeeds, the bytes \<^verbatim>\<open>read\<close> delivers (\<open>None\<close> when it returns \<open>-1\<close>; no more
  than the count asked for are taken), and \<^verbatim>\<open>time(NULL)\<close>.
\<close>

record file_io =
  io_stat :: "stat option"
  io_open :: bool
  io_read :: "u8 list option"
  io_time :: u64

text \<open>
  The string held by an \<open>n\<close>-byte buffer filled from the string at \<open>s\<close>
  (\<^verbatim>\<open>strncpy\<close> into a zeroed array).
\<close>

definition name_buf :: "nat \<Rightarrow> u8 list \<Rightarrow> u8 list" where
  "name_buf n s = take n (takeWhile (\<lambda>c. c \<noteq> 0) s)"

text \<open>
  Lines 181 to 203 of \<^verbatim>\<open>cache_file_in_kernel\<close> of nfs_server.c: the entry built from the
  \<^verbatim>\<open>stat\<close> result \<open>st\<close>, the bytes read \<open>bs\<close> and \<^verbatim>\<open>time(NULL)\<close>, starting from
  \<^verbatim>\<open>struct nfs_file_cache_entry cache_entry = {0}\<close>.
\<close>

definition new_nfs_cache_entry :: "stat \<Rightarrow> u8 list \<Rightarrow> u64 \<Rightarrow> u8 list \<Rightarrow> nfs_file_cache_entry" where
  "new_nfs_cache_entry st bs now filename =
     \<lparr>ce_filename = name_buf (MAX_FILENAME_LEN - 1) filename,
      ce_fh = generate_nfs_file_handle filename zero_fh,
      ce_attr =
        \<lparr>fa_type = (if S_ISDIR (st_mode st) then 2 else 1),
         fa_mode = st_mode st, fa_nlink = ucast (st_nlink st),
         fa_uid = st_uid st, fa_gid = st_gid st,
         fa_size = of_nat (st_size st), fa_used = st_blocks st * 512,
         fa_fsid = 1, fa_fileid = st_ino st,
         fa_atime_sec = st_atime st, fa_atime_nsec = 0,
         fa_mtime_sec = st_mtime st, fa_mtime_nsec = 0,
         fa_ctime_sec = st_ctime st, fa_ctime_nsec = 0\<rparr>,
      ce_data_size = of_nat (st_size st),
      ce_data = take (st_size st) bs,
      ce_cache_time = now * 1000000000,
      ce_cache_hits = 0, ce_valid = 1, ce_data_valid = 1\<rparr>"

text \<open>
  A pointer to a name handed to \<^verbatim>\<open>bpf_map_update_elem\<close> as a key or value of
  \<open>MAX_FILENAME_LEN\<close> bytes: the kernel copies that many bytes from the address, whatever
  stands behind the terminator of the name. \<open>mem\<close> is the memory from the address on, as far
  as it can be read; with fewer than \<open>MAX_FILENAME_LEN\<close> readable bytes the copy fails and
  so does the update.
\<close>

definition name_bytes_at :: "u8 list \<Rightarrow> u8 list option" where
  "name_bytes_at mem =
     (if length mem < MAX_FILENAME_LEN then None else Some (take MAX_FILENAME_LEN mem))"

text \<open>
  \<^verbatim>\<open>cache_file_in_kernel\<close> of nfs_server.c. \<open>enable_kernel_cache\<close> is \<^verbatim>\<open>env.enable_kernel_cache\<close>.
  \<open>filename\<close> is the memory at the pointer \<^verbatim>\<open>filename\<close>: the name, its terminator and the
  bytes that follow it (\<^verbatim>\<open>main\<close> passes the string literal \<^verbatim>\<open>"test.txt"\<close>). \<^verbatim>\<open>stat\<close>,
  \<^verbatim>\<open>strncpy\<close> and \<^verbatim>\<open>generate_nfs_file_handle\<close> read the name as a string; the two map
  updates read \<open>MAX_FILENAME_LEN\<close> bytes at the pointer. The result is the return value and
  the maps.
\<close>

definition cache_file_in_kernel_nfs ::
  "bool \<Rightarrow> file_io \<Rightarrow> nfs_maps \<Rightarrow> u8 list \<Rightarrow> int \<times> nfs_maps" where
  "cache_file_in_kernel_nfs enable_kernel_cache io m filename =
     (if \<not> enable_kernel_cache then (0, m)
      else
        (case io_stat io of
           None \<Rightarrow> (- 1, m)
         | Some st \<Rightarrow>
             if \<not> S_ISREG (st_mode st) then (- 1, m)
             else if st_size st > MAX_NFS_DATA_SIZE then (- 1, m)
             else if \<not> io_open io then (- 1, m)
             else
               (case io_read io of
                  None \<Rightarrow> (- 1, m)
                | Some bs \<Rightarrow>
                    if length (take (st_size st) bs) \<noteq> st_size st then (- 1, m)
                    else
                      (let cache_entry = new_nfs_cache_entry st bs (io_time io) filename
                       in (case name_bytes_at filename of
                             None \<Rightarrow> (- 1, m)
                           | Some name \<Rightarrow>
                               (case bpf_map_update_elem 1024 (nfs_file_cache m) name
                                       cache_entry of
                                  None \<Rightarrow> (- 1, m)
                                | Some c \<Rightarrow>
                                    (let m1 = m\<lparr>nfs_file_cache := c\<rparr>
                                     in (case bpf_map_update_elem 2048 (fh_to_name m1)
                                                (ce_fh cache_entry) name of
                                           None \<Rightarrow> (- 1, m1)
                                         | Some t \<Rightarrow> (0, m1\<lparr>fh_to_name := t\<rparr>)))))))))"

text \<open>
  Lines 239 to 243 of \<^verbatim>\<open>cache_file_in_kernel\<close> of fileserver.c: the entry, starting from
  \<^verbatim>\<open>struct file_cache_entry cache_entry = {0}\<close>;
  \<^verbatim>\<open>strncpy(cache_entry.filename, filename, MAX_FILENAME_LEN - 1)\<close> fills the zeroed array.
\<close>

definition new_file_cache_entry :: "stat \<Rightarrow> u8 list \<Rightarrow> u8 list \<Rightarrow> file_cache_entry" where
  "new_file_cache_entry st bs filename =
     (let name = name_buf (MAX_FILENAME_LEN - 1) filename
      in \<lparr>fc_filename = name @ replicate (MAX_FILENAME_LEN - length name) 0,
          fc_file_size = of_nat (st_size st),
          fc_last_modified = st_mtime st,
          fc_cached_data = take (st_size st) bs,
          fc_cache_hits = 0, fc_valid = 1\<rparr>)"

text \<open>
  \<^verbatim>\<open>cache_file_in_kernel\<close> of fileserver.c. \<open>filename\<close> is the caller's zero-filled
  \<^verbatim>\<open>char filename[MAX_FILENAME_LEN]\<close>, which is the key of the update. The function
  returns the result of \<^verbatim>\<open>bpf_map_update_elem\<close>, negative on failure.
\<close>

definition cache_file_in_kernel_http ::
  "bool \<Rightarrow> file_io \<Rightarrow> fileserver_maps \<Rightarrow> u8 list \<Rightarrow> int \<times> fileserver_maps" where
  "cache_file_in_kernel_http enable_kernel_cache io m filename =
     (if \<not> enable_kernel_cache then (0, m)
      else
        (case io_stat io of
           None \<Rightarrow> (- 1, m)
         | Some st \<Rightarrow>
             if \<not> S_ISREG (st_mode st) \<or> st_size st > MAX_PACKET_SIZE then (- 1, m)
             else if \<not> io_open io then (- 1, m)
             else
               (case io_read io of
                  None \<Rightarrow> (- 1, m)
                | Some bs \<Rightarrow>
                    if length (take (st_size st) bs) \<noteq> st_size st then (- 1, m)
                    else
                      (case bpf_map_update_elem 1024 (file_cache m) filename
                              (new_file_cache_entry st bs filename) of
                         None \<Rightarrow> (- 1, m)
                       | Some c \<Rightarrow> (0, m\<lparr>file_cache := c\<rparr>)))))"

section \<open>Runs of the system\<close>

text \<open>
  The maps after loading: zeroed statistics, empty hash maps, an empty ring. A reachable
  state is one that frames handled by the interception program and refreshes by the
  control plane lead to, in any order and with any answers of the kernel and the
  operating system.
\<close>

definition nfs_maps_init :: nfs_maps where
  "nfs_maps_init = \<lparr>nfs_stats = replicate 16 0, nfs_file_cache = [], fh_to_name = [],
                    client_track = [], nfs_events = []\<rparr>"

definition fileserver_maps_init :: fileserver_maps where
  "fileserver_maps_init = \<lparr>stats = replicate 16 0, file_cache = [], conn_track = [],
                           events = []\<rparr>"

inductive nfs_reachable :: "nfs_maps \<Rightarrow> bool" where
  nfs_start: "nfs_reachable nfs_maps_init"
| nfs_frame: "nfs_reachable m \<Longrightarrow> nfs_reachable (maps (nfs_server_tc cfg env m skb))"
| nfs_refresh:
    "nfs_reachable m \<Longrightarrow> nfs_reachable (snd (cache_file_in_kernel_nfs enable io m filename))"

inductive fileserver_reachable :: "fileserver_maps \<Rightarrow> bool" where
  fileserver_start: "fileserver_reachable fileserver_maps_init"
| fileserver_frame:
    "fileserver_reachable m \<Longrightarrow> fileserver_reachable (maps (fileserver_ingress cfg env m skb))"
| fileserver_refresh:
    "fileserver_reachable m \<Longrightarrow>
     fileserver_reachable (snd (cache_file_in_kernel_http enable io m filename))"

section \<open>Properties of frames, requests and cache entries\<close>

text \<open>
  A frame matches the transport and port of a program when it is long enough for the
  headers the handler reads and carries IPv4, the program's transport protocol and a
  destination port the program accepts.
\<close>

definition http_transport_match :: "u8 list \<Rightarrow> bool" where
  "http_transport_match skb \<longleftrightarrow>
     34 \<le> length skb \<and> be16 skb 12 = 0x0800 \<and> skb ! 23 = 6 \<and>
     transport_offset skb + 20 \<le> length skb \<and>
     (be16 skb (transport_offset skb + 2) = 80 \<or> be16 skb (transport_offset skb + 2) = 8080)"

definition nfs_transport_match :: "u8 list \<Rightarrow> bool" where
  "nfs_transport_match skb \<longleftrightarrow>
     34 \<le> length skb \<and> be16 skb 12 = 0x0800 \<and> skb ! 23 = 17 \<and>
     transport_offset skb + 8 \<le> length skb \<and>
     be16 skb (transport_offset skb + 2) = 2049"

text \<open>
  The RPC envelope of a datagram: 32 bytes of header behind the UDP header, with message
  type call (0), RPC version 2, program 100003 and program version 3.
\<close>

definition rpc_envelope_valid :: "u8 list \<Rightarrow> bool" where
  "rpc_envelope_valid skb \<longleftrightarrow>
     nfs_payload_offset skb + 32 \<le> length skb \<and> 32 \<le> nfs_payload_len skb \<and>
     be32 skb (nfs_payload_offset skb + 4) = 0 \<and>
     be32 skb (nfs_payload_offset skb + 8) = 2 \<and>
     be32 skb (nfs_payload_offset skb + 12) = 100003 \<and>
     be32 skb (nfs_payload_offset skb + 16) = 3"

text \<open>The method and the key of the request a frame carries, and its RPC procedure.\<close>

definition request_method :: "u8 list \<Rightarrow> u8" where
  "request_method skb =
     parse_http_method (drop (http_payload_offset skb) skb) (http_payload_len skb)"

definition request_filename :: "u8 list \<Rightarrow> u8 list" where
  "request_filename skb =
     ingress_filename (drop (http_payload_offset skb) skb) (http_payload_len skb)"

definition request_procedure :: "u8 list \<Rightarrow> u32" where
  "request_procedure skb = be32 skb (nfs_payload_offset skb + 20)"

text \<open>The RPC header of a datagram, read at fixed offsets behind the UDP header.\<close>

definition request_rpc :: "u8 list \<Rightarrow> rpc_header" where
  "request_rpc skb =
     (let off = nfs_payload_offset skb
      in \<lparr>rh_xid = be32 skb off, rh_msg_type = be32 skb (off + 4),
          rh_rpc_version = be32 skb (off + 8), rh_program = be32 skb (off + 12),
          rh_version = be32 skb (off + 16), rh_procedure = be32 skb (off + 20),
          rh_auth_flavor = be32 skb (off + 24), rh_auth_len = be32 skb (off + 28)\<rparr>)"

text \<open>A recognized request: a frame the handler takes beyond its header checks.\<close>

definition http_recognized :: "u8 list \<Rightarrow> bool" where
  "http_recognized skb \<longleftrightarrow>
     http_transport_match skb \<and> http_payload_offset skb < length skb \<and>
     4 \<le> http_payload_len skb \<and> request_method skb \<noteq> HTTP_UNKNOWN"

definition nfs_recognized :: "u8 list \<Rightarrow> bool" where
  "nfs_recognized skb \<longleftrightarrow> nfs_transport_match skb \<and> rpc_envelope_valid skb"

text \<open>
  The records a handler invocation added to the ring, and the test for a file event among
  them.
\<close>

definition is_file_event :: "fileserver_record \<Rightarrow> bool" where
  "is_file_event r = (case r of FileEvent _ \<Rightarrow> True | HttpRequest _ \<Rightarrow> False)"

definition new_records :: "fileserver_maps \<Rightarrow> fileserver_maps tc_result \<Rightarrow> fileserver_record list" where
  "new_records m r = drop (length (events m)) (events (maps r))"

text \<open>
  The data-model invariant of a cache entry. For the remote-filesystem entry: data valid
  only if valid, content no longer than the inline buffer, and the recorded file size equal
  to the content length. The file-fetch entry has no separate flag for its content.
\<close>

definition nfs_entry_inv :: "nfs_file_cache_entry \<Rightarrow> bool" where
  "nfs_entry_inv e \<longleftrightarrow>
     (ce_data_valid e \<noteq> 0 \<longrightarrow> ce_valid e \<noteq> 0) \<and>
     unat (ce_data_size e) \<le> MAX_NFS_DATA_SIZE \<and>
     length (ce_data e) = unat (ce_data_size e) \<and>
     unat (fa_size (ce_attr e)) = unat (ce_data_size e)"

definition file_entry_inv :: "file_cache_entry \<Rightarrow> bool" where
  "file_entry_inv e \<longleftrightarrow>
     fc_valid e \<noteq> 0 \<and> unat (fc_file_size e) \<le> MAX_PACKET_SIZE \<and>
     length (fc_cached_data e) = unat (fc_file_size e)"

section \<open>Concrete frames and states\<close>

definition be16_bytes :: "u16 \<Rightarrow> u8 list" where
  "be16_bytes w = [ucast (drop_bit 8 w), ucast w]"

definition be32_bytes :: "u32 \<Rightarrow> u8 list" where
  "be32_bytes w = [ucast (drop_bit 24 w), ucast (drop_bit 16 w), ucast (drop_bit 8 w), ucast w]"

text \<open>
  An Ethernet frame carrying IPv4 from 127.0.0.1 to 127.0.0.1 with a 20-byte IP header and
  the given protocol byte.
\<close>

definition ipv4_frame :: "u8 \<Rightarrow> u8 list \<Rightarrow> u8 list" where
  "ipv4_frame proto segment =
     replicate 12 0 @ [0x08, 0x00] @
     [0x45, 0, 0, 0, 0, 0, 0, 0, 64, proto, 0, 0, 127, 0, 0, 1, 127, 0, 0, 1] @ segment"

text \<open>A TCP segment from port 12345 with a 20-byte header, and a UDP datagram.\<close>

definition tcp_frame :: "u16 \<Rightarrow> u8 list \<Rightarrow> u8 list" where
  "tcp_frame dport payload =
     ipv4_frame 6 ([0x30, 0x39] @ be16_bytes dport @
                   [0, 0, 0, 0, 0, 0, 0, 0, 0x50, 0x18, 0, 0, 0, 0, 0, 0] @ payload)"

definition udp_frame :: "u16 \<Rightarrow> u8 list \<Rightarrow> u8 list" where
  "udp_frame dport payload =
     ipv4_frame 17 ([0x30, 0x39] @ be16_bytes dport @ [0, 0, 0, 0] @ payload)"

text \<open>
  The RPC header the test script sends: transaction id, message type, RPC version,
  program, program version, procedure, and a null credential.
\<close>

definition rpc_bytes :: "u32 \<Rightarrow> u32 \<Rightarrow> u32 \<Rightarrow> u32 \<Rightarrow> u32 \<Rightarrow> u32 \<Rightarrow> u8 list" where
  "rpc_bytes x msg_type rpc_version prog vers procedure =
     be32_bytes x @ be32_bytes msg_type @ be32_bytes rpc_version @ be32_bytes prog @
     be32_bytes vers @ be32_bytes procedure @ be32_bytes 0 @ be32_bytes 0"

definition default_fileserver_config :: fileserver_config where
  "default_fileserver_config =
     \<lparr>enable_kernel_processing = 1, max_file_size = 4096, cache_ttl_seconds = 300\<rparr>"

definition default_nfs_config :: nfs_config where
  "default_nfs_config =
     \<lparr>nfs_enable_kernel_processing = 1, max_cached_file_size = 4096,
      nfs_cache_ttl_seconds = 300\<rparr>"

text \<open>A file name in a zero-filled \<^verbatim>\<open>char[MAX_FILENAME_LEN]\<close>.\<close>

definition filename_buf :: "string \<Rightarrow> u8 list" where
  "filename_buf s = bytes s @ replicate (MAX_FILENAME_LEN - length s) 0"

text \<open>Request payloads of the file-fetch protocol.\<close>

definition get_root :: "u8 list" where
  "get_root = bytes ''GET / HTTP/1.1''"

definition post_root :: "u8 list" where
  "post_root = bytes ''POST / HTTP/1.1''"

definition get_foo :: "u8 list" where
  "get_foo = bytes ''GET /foo.txt HTTP/1.1''"

text \<open>
  Answers of the kernel: every reservation succeeds, or none does; the clock values are
  arbitrary.
\<close>

definition ingress_env_ok :: ingress_env where
  "ingress_env_ok = \<lparr>reserve_req_event = True, reserve_file_event = True,
                      ktime_file_event = 1000, ktime_conn_track = 1001\<rparr>"

definition ingress_env_full :: ingress_env where
  "ingress_env_full = \<lparr>reserve_req_event = False, reserve_file_event = False,
                        ktime_file_event = 1000, ktime_conn_track = 1001\<rparr>"

text \<open>A cache holding one valid entry of 512 bytes, under the given name.\<close>

definition cached_file :: "string \<Rightarrow> file_cache_entry" where
  "cached_file name =
     \<lparr>fc_filename = filename_buf name, fc_file_size = 512, fc_last_modified = 0,
      fc_cached_data = replicate 512 0, fc_cache_hits = 0, fc_valid = 1\<rparr>"

definition maps_caching :: "string \<Rightarrow> fileserver_maps" where
  "maps_caching name =
     fileserver_maps_init\<lparr>file_cache := [(filename_buf name, cached_file name)]\<rparr>"

text \<open>The calls the test script sends, and one with RPC version 3.\<close>

definition getattr_call :: "u8 list" where
  "getattr_call = rpc_bytes 0x12345678 0 2 100003 3 1"

definition read_call :: "u8 list" where
  "read_call = rpc_bytes 0x12345679 0 2 100003 3 6"

definition null_call :: "u8 list" where
  "null_call = rpc_bytes 0x12345677 0 2 100003 3 0"

definition bad_version_call :: "u8 list" where
  "bad_version_call = rpc_bytes 0x12345678 0 3 100003 3 1"

text \<open>
  Runs of the remote-filesystem handler with room in the ring buffer and without; the local
  \<^verbatim>\<open>filename\<close> array holds 256 bytes \<open>0xAA\<close> on entry.
\<close>

definition nfs_env_ok :: nfs_env where
  "nfs_env_ok = \<lparr>reserve_nfs_request = True, reserve_nfs_event = True,
                  ktime_client = 1000, ktime_event = 1001, ktime_ttl = 1002,
                  stack_filename = replicate 256 0xAA\<rparr>"

definition nfs_env_full :: nfs_env where
  "nfs_env_full = \<lparr>reserve_nfs_request = False, reserve_nfs_event = False,
                    ktime_client = 1000, ktime_event = 1001, ktime_ttl = 1002,
                    stack_filename = replicate 256 0xAA\<rparr>"

text \<open>
  The file the control plane caches at start, \<open>test.txt\<close> with its 23 bytes, as an
  operating-system answer at wall-clock second \<open>t\<close>, and a file of the given size.
\<close>

definition regular_file :: "nat \<Rightarrow> u64 \<Rightarrow> file_io" where
  "regular_file n t =
     \<lparr>io_stat = Some \<lparr>st_mode = 0x81A4, st_nlink = 1, st_uid = 0, st_gid = 0, st_size = n,
                       st_blocks = 8, st_ino = 42, st_atime = t, st_mtime = t,
                       st_ctime = t\<rparr>,
      io_open = True, io_read = Some (replicate n 0x48), io_time = t\<rparr>"

text \<open>
  The memory at the string literal \<^verbatim>\<open>"test.txt"\<close> that \<^verbatim>\<open>main\<close> passes to
  \<^verbatim>\<open>cache_file_in_kernel\<close>: the name, its terminator and, up to the 256 bytes a map key
  takes, the read-only data that follows the literal, here 247 bytes \<open>0x25\<close>.
\<close>

definition test_txt_literal :: "u8 list" where
  "test_txt_literal = bytes ''test.txt'' @ [0] @ replicate 247 0x25"

text \<open>The maps after the control plane has cached \<open>test.txt\<close> at second 0.\<close>

definition test_txt_cached :: nfs_maps where
  "test_txt_cached =
     snd (cache_file_in_kernel_nfs True (regular_file 23 0) nfs_maps_init test_txt_literal)"

text \<open>
  The attribute call followed by its argument, the handle of the cached \<open>test.txt\<close> in XDR
  form (length, then the opaque bytes).
\<close>

definition getattr_test_txt_call :: "u8 list" where
  "getattr_test_txt_call =
     getattr_call @ be32_bytes 8 @
     take 8 (fh_data (generate_nfs_file_handle test_txt_literal zero_fh))"

section \<open>File handles: the two generators\<close>

lemma strlen_le: "strlen s \<le> length s"
  by (simp add: strlen_def length_takeWhile_le)

lemma char_at_nonzero_iff:
  "i \<le> strlen s \<Longrightarrow> char_at s i \<noteq> 0 \<longleftrightarrow> i < strlen s"
proof (cases "i < strlen s")
  case True
  then have "s ! i \<noteq> 0"
    unfolding strlen_def
    by (metis (mono_tags, lifting) takeWhile_nth nth_mem set_takeWhileD)
  with True strlen_le[of s] show ?thesis by (simp add: char_at_def)
next
  case False
  assume "i \<le> strlen s"
  with False have i: "i = strlen s" by simp
  have "char_at s i = 0"
  proof (cases "i < length s")
    case True
    then show ?thesis using i nth_length_takeWhile[of "\<lambda>c. c \<noteq> 0" s]
      by (simp add: char_at_def strlen_def)
  next
    case False
    then show ?thesis by (simp add: char_at_def)
  qed
  with False show ?thesis by simp
qed

lemma takeWhile_nth_char_at:
  "i < strlen s \<Longrightarrow> takeWhile (\<lambda>c. c \<noteq> 0) s ! i = char_at s i"
  using strlen_le[of s] by (simp add: strlen_def char_at_def takeWhile_nth)

lemma drop_name_cons:
  assumes "i < strlen s"
  shows "drop i (takeWhile (\<lambda>c. c \<noteq> 0) s) =
         char_at s i # drop (Suc i) (takeWhile (\<lambda>c. c \<noteq> 0) s)"
  using assms takeWhile_nth_char_at[OF assms] by (metis Cons_nth_drop_Suc strlen_def)

text \<open>The control plane's loop folds the hash step over the whole name.\<close>

lemma generate_nfs_file_handle_loop_foldl:
  "i \<le> strlen s \<Longrightarrow>
   generate_nfs_file_handle_loop s i h =
     foldl hash_step h (drop i (takeWhile (\<lambda>c. c \<noteq> 0) s))"
proof (induction s i h rule: generate_nfs_file_handle_loop.induct)
  case (1 filename i hash)
  show ?case
  proof (cases "i < strlen filename")
    case True
    then have nz: "char_at filename i \<noteq> 0"
      using char_at_nonzero_iff[of i filename] by simp
    from True nz "1.IH" have
      "generate_nfs_file_handle_loop filename (i + 1) (hash_step hash (char_at filename i))
       = foldl hash_step (hash_step hash (char_at filename i))
           (drop (i + 1) (takeWhile (\<lambda>c. c \<noteq> 0) filename))"
      by simp
    with True nz drop_name_cons[OF True] show ?thesis
      by (subst generate_nfs_file_handle_loop.simps) simp
  next
    case False
    with "1.prems" have "i = strlen filename" by simp
    then show ?thesis using False
      by (subst generate_nfs_file_handle_loop.simps) (simp add: strlen_def)
  qed
qed

text \<open>The engine's loop folds it over at most the bytes at indices 0 to 3.\<close>

lemma generate_file_handle_loop_foldl:
  "i \<le> strlen s \<Longrightarrow> i \<le> 3 \<Longrightarrow>
   generate_file_handle_loop s i h =
     foldl hash_step h (take (4 - i) (drop i (takeWhile (\<lambda>c. c \<noteq> 0) s)))"
proof (induction s i h rule: generate_file_handle_loop.induct)
  case (1 filename i hash)
  have lt: "i < MAX_FILENAME_LEN" using "1.prems" by (simp add: MAX_FILENAME_LEN_def)
  show ?case
  proof (cases "i < strlen filename")
    case True
    then have nz: "char_at filename i \<noteq> 0"
      using char_at_nonzero_iff[of i filename] by simp
    note d = drop_name_cons[OF True]
    show ?thesis
    proof (cases "i \<ge> 3")
      case True
      with "1.prems" have "i = 3" by simp
      then show ?thesis using nz lt d
        by (subst generate_file_handle_loop.simps) (simp add: Let_def)
    next
      case False
      with True nz lt "1.IH" have
        "generate_file_handle_loop filename (i + 1) (hash_step hash (char_at filename i))
         = foldl hash_step (hash_step hash (char_at filename i))
             (take (4 - (i + 1)) (drop (i + 1) (takeWhile (\<lambda>c. c \<noteq> 0) filename)))"
        by simp
      moreover have "4 - i = Suc (4 - (i + 1))" using False by simp
      ultimately show ?thesis using nz lt d False
        by (subst generate_file_handle_loop.simps) (simp add: Let_def)
    qed
  next
    case False
    with "1.prems" have "i = strlen filename" by simp
    then show ?thesis using False char_at_nonzero_iff[of i filename]
      by (subst generate_file_handle_loop.simps) (simp add: strlen_def)
  qed
qed

lemma takeWhile_take_comm: "takeWhile P (take n xs) = take n (takeWhile P xs)"
  by (induction xs arbitrary: n) (auto simp: take_Cons split: nat.splits)

lemma length_ge_Suc_cons: "Suc n \<le> length xs \<Longrightarrow> \<exists>x ys. xs = x # ys \<and> n \<le> length ys"
  by (cases xs) auto

lemma length8_decomp:
  assumes "8 \<le> length d"
  shows "\<exists>a b c e f g i j r. d = a # b # c # e # f # g # i # j # r"
proof -
  from assms have "Suc 7 \<le> length d" by simp
  then obtain a d1 where 1: "d = a # d1" "Suc 6 \<le> length d1"
    using length_ge_Suc_cons[of 7 d] by auto
  then obtain b d2 where 2: "d1 = b # d2" "Suc 5 \<le> length d2"
    using length_ge_Suc_cons[of 6 d1] by auto
  then obtain c d3 where 3: "d2 = c # d3" "Suc 4 \<le> length d3"
    using length_ge_Suc_cons[of 5 d2] by auto
  then obtain e d4 where 4: "d3 = e # d4" "Suc 3 \<le> length d4"
    using length_ge_Suc_cons[of 4 d3] by auto
  then obtain f d5 where 5: "d4 = f # d5" "Suc 2 \<le> length d5"
    using length_ge_Suc_cons[of 3 d4] by auto
  then obtain g d6 where 6: "d5 = g # d6" "Suc 1 \<le> length d6"
    using length_ge_Suc_cons[of 2 d5] by auto
  then obtain i d7 where 7: "d6 = i # d7" "Suc 0 \<le> length d7"
    using length_ge_Suc_cons[of 1 d6] by auto
  then obtain j r where 8: "d7 = j # r"
    using length_ge_Suc_cons[of 0 d7] by auto
  from 1 2 3 4 5 6 7 8 show ?thesis by blast
qed

lemma take8_store_cons:
  "take 8 (store_u32 (store_u32 (a # b # c # e # f # g # i # j # r) 0 h) 4 h') =
   le32_bytes h @ le32_bytes h'"
  unfolding store_u32_def le32_bytes_def by simp

lemma take8_store:
  "8 \<le> length d \<Longrightarrow>
   take 8 (store_u32 (store_u32 d 0 h) 4 h') = le32_bytes h @ le32_bytes h'"
  using length8_decomp[of d] take8_store_cons by metis

lemma nfs_loop_is_rolling_hash:
  "generate_nfs_file_handle_loop filename 0 0 = rolling_hash filename"
  by (simp add: generate_nfs_file_handle_loop_foldl rolling_hash_def)

lemma bpf_loop_is_rolling_hash_take4:
  "generate_file_handle_loop filename 0 0 = rolling_hash (take 4 filename)"
  by (simp add: generate_file_handle_loop_foldl rolling_hash_def takeWhile_take_comm)

lemma rolling_hash_short:
  "strlen filename \<le> 4 \<Longrightarrow> rolling_hash (take 4 filename) = rolling_hash filename"
  by (simp add: rolling_hash_def takeWhile_take_comm strlen_def)

text \<open>
  Claim C8, as amended. Either generator writes length 8 and eight bytes that depend on
  the name alone: the rolling hash and the hash combined with \<open>0xdeadbeef\<close>. The control
  plane hashes the whole name; the engine hashes only its first four bytes. Hence the
  engine's handle of a name is the control plane's handle of the name cut to four bytes,
  and the two handles of one name are equal when the name has at most four bytes.
\<close>

theorem handle_generators_agree_up_to_four:
  "8 \<le> length (fh_data fh) \<Longrightarrow>
   fh_len (generate_nfs_file_handle filename fh) = 8 \<and>
   take 8 (fh_data (generate_nfs_file_handle filename fh)) =
     le32_bytes (rolling_hash filename) @ le32_bytes (rolling_hash filename XOR 0xdeadbeef) \<and>
   fh_len (generate_file_handle filename fh) = 8 \<and>
   take 8 (fh_data (generate_file_handle filename fh)) =
     le32_bytes (rolling_hash (take 4 filename)) @
     le32_bytes (rolling_hash (take 4 filename) XOR 0xdeadbeef) \<and>
   generate_file_handle filename fh = generate_nfs_file_handle (take 4 filename) fh \<and>
   (strlen filename \<le> 4 \<longrightarrow>
      generate_file_handle filename fh = generate_nfs_file_handle filename fh)"
proof -
  assume len: "8 \<le> length (fh_data fh)"
  show ?thesis
    using len
    by (simp add: generate_nfs_file_handle_def generate_file_handle_def Let_def
        nfs_loop_is_rolling_hash bpf_loop_is_rolling_hash_take4 rolling_hash_short take8_store)
qed

theorem handle_generators_agree_up_to_four_witness:
  "8 \<le> length (fh_data zero_fh) \<and> strlen (bytes ''test'') \<le> 4 \<and>
   fh_len (generate_file_handle (bytes ''test'') zero_fh) = 8 \<and>
   generate_file_handle (bytes ''test'') zero_fh =
     generate_nfs_file_handle (bytes ''test'') zero_fh"
proof -
  have l: "8 \<le> length (fh_data zero_fh)" by (simp add: zero_fh_def)
  have s: "strlen (bytes ''test'') \<le> 4" by (simp add: strlen_def bytes_def ch_def)
  show ?thesis
    using handle_generators_agree_up_to_four[OF l, of "bytes ''test''"] l s by blast
qed

text \<open>
  Claim C8 as stated fails at the name the control plane caches at start, \<open>test.txt\<close>: the
  engine's generator and the control plane's generator give different handles.
\<close>

theorem handle_generators_differ_on_test_txt:
  "generate_file_handle (bytes ''test.txt'') zero_fh \<noteq>
   generate_nfs_file_handle (bytes ''test.txt'') zero_fh"
proof -
  have a: "generate_nfs_file_handle_loop (bytes ''test.txt'') 0 0 = 0xBB945714"
    by (simp add: generate_nfs_file_handle_loop_foldl bytes_def ch_def hash_step_def)
  have b: "generate_file_handle_loop (bytes ''test.txt'') 0 0 = 0x364492"
    by (simp add: generate_file_handle_loop_foldl bytes_def ch_def hash_step_def)
  have "fh_data (generate_file_handle (bytes ''test.txt'') zero_fh) ! 0 = 0x92"
    by (simp add: generate_file_handle_def b store_u32_def zero_fh_def Let_def)
  moreover have "fh_data (generate_nfs_file_handle (bytes ''test.txt'') zero_fh) ! 0 = 0x14"
    by (simp add: generate_nfs_file_handle_def a store_u32_def zero_fh_def Let_def)
  ultimately show ?thesis by auto
qed

section \<open>The header walk\<close>

text \<open>
  An unrecognized frame leaves the handler at one of the early returns, and a recognized
  one reaches the part of the handler that touches the maps.
\<close>

lemma fileserver_ingress_pass:
  "\<not> http_recognized skb \<Longrightarrow>
   fileserver_ingress cfg env m skb =
     \<lparr>verdict = TC_ACT_OK, decision = PassThrough, maps = m, skb_out = skb\<rparr>"
  unfolding fileserver_ingress_def http_recognized_def http_transport_match_def
    request_method_def Let_def ETH_P_IP_def IPPROTO_TCP_def
  by (auto simp: not_less not_le)

lemma fileserver_ingress_recognized:
  "http_recognized skb \<Longrightarrow>
   fileserver_ingress cfg env m skb =
     ingress_request cfg env m skb (ip_saddr skb) (be16 skb (transport_offset skb))
       (request_method skb) (drop (http_payload_offset skb) skb) (http_payload_len skb)"
  unfolding fileserver_ingress_def http_recognized_def http_transport_match_def
    request_method_def Let_def ETH_P_IP_def IPPROTO_TCP_def
  by (auto simp: not_less not_le)

lemma be32_drop:
  "off + k + 4 \<le> length skb \<Longrightarrow> be32 (drop off skb) k = be32 skb (off + k)"
  by (simp add: be32_def add.assoc)

lemma extract_be32_drop:
  "off + k + 4 \<le> length skb \<Longrightarrow> extract_be32 (drop off skb) k = be32 skb (off + k)"
  using be32_drop[of off k skb] by (auto simp: extract_be32_def)

lemma parse_rpc_header_drop:
  "off + 32 \<le> length skb \<Longrightarrow> 32 \<le> n \<Longrightarrow>
   parse_rpc_header (drop off skb) n =
     Some \<lparr>rh_xid = be32 skb off, rh_msg_type = be32 skb (off + 4),
            rh_rpc_version = be32 skb (off + 8), rh_program = be32 skb (off + 12),
            rh_version = be32 skb (off + 16), rh_procedure = be32 skb (off + 20),
            rh_auth_flavor = be32 skb (off + 24), rh_auth_len = be32 skb (off + 28)\<rparr>"
  using extract_be32_drop[of off 0 skb]
  by (simp add: parse_rpc_header_def extract_be32_drop)

lemma nfs_server_tc_pass:
  assumes "\<not> nfs_recognized skb"
  shows "nfs_server_tc cfg env m skb =
     \<lparr>verdict = TC_ACT_OK, decision = PassThrough, maps = m, skb_out = skb\<rparr>"
proof (cases "nfs_payload_offset skb + 32 \<le> length skb \<and> 32 \<le> nfs_payload_len skb")
  case True
  with assms show ?thesis
    unfolding nfs_server_tc_def nfs_recognized_def nfs_transport_match_def rpc_envelope_valid_def
      Let_def ETH_P_IP_def IPPROTO_UDP_def NFS_PORT_def RPC_CALL_def RPC_PROGRAM_NFS_def
      NFS_VERSION_3_def
    by (auto simp: parse_rpc_header_drop)
next
  case False
  then show ?thesis
    unfolding nfs_server_tc_def Let_def
    by (auto simp: parse_rpc_header_def split: option.splits)
qed

lemma nfs_server_tc_recognized:
  "nfs_recognized skb \<Longrightarrow>
   nfs_server_tc cfg env m skb =
     nfs_call cfg env m skb (ip_saddr skb) (be16 skb (transport_offset skb)) (request_rpc skb)"
  unfolding nfs_server_tc_def nfs_recognized_def nfs_transport_match_def rpc_envelope_valid_def
      Let_def ETH_P_IP_def IPPROTO_UDP_def NFS_PORT_def RPC_CALL_def RPC_PROGRAM_NFS_def
      NFS_VERSION_3_def request_rpc_def
  by (auto simp: parse_rpc_header_drop nfs_payload_offset_def)

section \<open>Facts about the concrete frames\<close>

lemma tcp_frame_length: "length (tcp_frame d p) = 54 + length p"
  by (simp add: tcp_frame_def ipv4_frame_def be16_bytes_def)

lemma tcp_frame_transport_offset: "transport_offset (tcp_frame d p) = 34"
  by (simp add: transport_offset_def tcp_frame_def ipv4_frame_def nth_append)

lemma tcp_frame_ethertype: "be16 (tcp_frame d p) 12 = 0x0800"
  by (simp add: be16_def tcp_frame_def ipv4_frame_def nth_append)

lemma tcp_frame_protocol: "tcp_frame d p ! 23 = 6"
  by (simp add: tcp_frame_def ipv4_frame_def nth_append)

lemma be16_bytes_roundtrip: "be16 (xs @ be16_bytes d @ ys) (length xs) = d"
  unfolding be16_def be16_bytes_def
  by (rule bit_word_eqI) (auto simp: nth_append bit_simps)

lemma tcp_frame_dport: "be16 (tcp_frame d p) 36 = d"
proof -
  have "tcp_frame d p =
          (replicate 12 0 @ [0x08, 0x00] @
           [0x45, 0, 0, 0, 0, 0, 0, 0, 64, 6, 0, 0, 127, 0, 0, 1, 127, 0, 0, 1] @
           [0x30, 0x39]) @ be16_bytes d @
          ([0, 0, 0, 0, 0, 0, 0, 0, 0x50, 0x18, 0, 0, 0, 0, 0, 0] @ p)"
    by (simp add: tcp_frame_def ipv4_frame_def)
  then show ?thesis
    using be16_bytes_roundtrip[of "replicate 12 0 @ [0x08, 0x00] @
           [0x45, 0, 0, 0, 0, 0, 0, 0, 64, 6, 0, 0, 127, 0, 0, 1, 127, 0, 0, 1] @
           [0x30, 0x39]" d]
    by simp
qed

lemma tcp_frame_payload_offset: "http_payload_offset (tcp_frame d p) = 54"
  by (simp add: http_payload_offset_def tcp_frame_transport_offset)
     (simp add: tcp_frame_def ipv4_frame_def be16_bytes_def nth_append)

lemma tcp_frame_payload: "drop 54 (tcp_frame d p) = p"
  by (simp add: tcp_frame_def ipv4_frame_def be16_bytes_def)

lemma tcp_frame_payload_len:
  "length p < 65536 \<Longrightarrow> http_payload_len (tcp_frame d p) = length p"
  by (simp add: http_payload_len_def tcp_frame_payload_offset tcp_frame_length)

lemma tcp_frame_match: "http_transport_match (tcp_frame d p) \<longleftrightarrow> d = 80 \<or> d = 8080"
  by (simp add: http_transport_match_def tcp_frame_length tcp_frame_ethertype tcp_frame_protocol
      tcp_frame_transport_offset tcp_frame_dport)

lemma tcp_frame_saddr: "ip_saddr (tcp_frame d p) = 0x7F000001"
  by (simp add: ip_saddr_def be32_def tcp_frame_def ipv4_frame_def nth_append)

lemma tcp_frame_sport: "be16 (tcp_frame d p) 34 = 12345"
  by (simp add: be16_def tcp_frame_def ipv4_frame_def nth_append)

lemma udp_frame_length: "length (udp_frame d p) = 42 + length p"
  by (simp add: udp_frame_def ipv4_frame_def be16_bytes_def)

lemma udp_frame_transport_offset: "transport_offset (udp_frame d p) = 34"
  by (simp add: transport_offset_def udp_frame_def ipv4_frame_def nth_append)

lemma udp_frame_ethertype: "be16 (udp_frame d p) 12 = 0x0800"
  by (simp add: be16_def udp_frame_def ipv4_frame_def nth_append)

lemma udp_frame_protocol: "udp_frame d p ! 23 = 17"
  by (simp add: udp_frame_def ipv4_frame_def nth_append)

lemma udp_frame_dport: "be16 (udp_frame d p) 36 = d"
proof -
  have "udp_frame d p =
          (replicate 12 0 @ [0x08, 0x00] @
           [0x45, 0, 0, 0, 0, 0, 0, 0, 64, 17, 0, 0, 127, 0, 0, 1, 127, 0, 0, 1] @
           [0x30, 0x39]) @ be16_bytes d @ ([0, 0, 0, 0] @ p)"
    by (simp add: udp_frame_def ipv4_frame_def)
  then show ?thesis
    using be16_bytes_roundtrip[of "replicate 12 0 @ [0x08, 0x00] @
           [0x45, 0, 0, 0, 0, 0, 0, 0, 64, 17, 0, 0, 127, 0, 0, 1, 127, 0, 0, 1] @
           [0x30, 0x39]" d]
    by simp
qed

lemma udp_frame_match: "nfs_transport_match (udp_frame d p) \<longleftrightarrow> d = 2049"
  by (simp add: nfs_transport_match_def udp_frame_length udp_frame_ethertype udp_frame_protocol
      udp_frame_transport_offset udp_frame_dport)

lemma udp_frame_payload_offset: "nfs_payload_offset (udp_frame d p) = 42"
  by (simp add: nfs_payload_offset_def udp_frame_transport_offset)

lemma udp_frame_payload_len:
  "length p < 65536 \<Longrightarrow> nfs_payload_len (udp_frame d p) = length p"
  by (simp add: nfs_payload_len_def udp_frame_payload_offset udp_frame_length)

lemma udp_frame_saddr: "ip_saddr (udp_frame d p) = 0x7F000001"
  by (simp add: ip_saddr_def be32_def udp_frame_def ipv4_frame_def nth_append)

lemma udp_frame_sport: "be16 (udp_frame d p) 34 = 12345"
  by (simp add: be16_def udp_frame_def ipv4_frame_def nth_append)

lemma be32_bytes_roundtrip: "be32 (xs @ be32_bytes d @ ys) (length xs) = d"
proof (rule bit_word_eqI)
  fix n
  assume "n < LENGTH(32)"
  then consider "n < 8" | "8 \<le> n \<and> n < 16" | "16 \<le> n \<and> n < 24" | "24 \<le> n \<and> n < 32"
    by fastforce
  then show "bit (be32 (xs @ be32_bytes d @ ys) (length xs)) n = bit d n"
    unfolding be32_def be32_bytes_def
    by cases (auto simp: nth_append bit_simps)
qed

lemma udp_frame_be32:
  "k + 4 \<le> length p \<Longrightarrow> be32 (udp_frame d p) (42 + k) = be32 p k"
proof -
  have "be32 (drop 42 (udp_frame d p)) k = be32 (udp_frame d p) (42 + k)"
    if "k + 4 \<le> length p"
    using that be32_drop[of 42 k "udp_frame d p"] by (simp add: udp_frame_length)
  moreover have "drop 42 (udp_frame d p) = p"
    by (simp add: udp_frame_def ipv4_frame_def be16_bytes_def)
  ultimately show "k + 4 \<le> length p \<Longrightarrow> be32 (udp_frame d p) (42 + k) = be32 p k"
    by simp
qed

lemma rpc_bytes_length: "length (rpc_bytes x t v pr vs pc) = 32"
  by (simp add: rpc_bytes_def be32_bytes_def)

lemma length_be32_bytes: "length (be32_bytes x) = 4"
  by (simp add: be32_bytes_def)

lemma rpc_bytes_fields:
  "be32 (rpc_bytes x t v pr vs pc) 0 = x"
  "be32 (rpc_bytes x t v pr vs pc) 4 = t"
  "be32 (rpc_bytes x t v pr vs pc) 8 = v"
  "be32 (rpc_bytes x t v pr vs pc) 12 = pr"
  "be32 (rpc_bytes x t v pr vs pc) 16 = vs"
  "be32 (rpc_bytes x t v pr vs pc) 20 = pc"
proof -
  show "be32 (rpc_bytes x t v pr vs pc) 0 = x"
    using be32_bytes_roundtrip[of "[]" x] by (simp add: rpc_bytes_def)
  show "be32 (rpc_bytes x t v pr vs pc) 4 = t"
    using be32_bytes_roundtrip[of "be32_bytes x" t]
    by (simp add: rpc_bytes_def length_be32_bytes)
  show "be32 (rpc_bytes x t v pr vs pc) 8 = v"
    using be32_bytes_roundtrip[of "be32_bytes x @ be32_bytes t" v]
    by (simp add: rpc_bytes_def length_be32_bytes)
  show "be32 (rpc_bytes x t v pr vs pc) 12 = pr"
    using be32_bytes_roundtrip[of "be32_bytes x @ be32_bytes t @ be32_bytes v" pr]
    by (simp add: rpc_bytes_def length_be32_bytes)
  show "be32 (rpc_bytes x t v pr vs pc) 16 = vs"
    using be32_bytes_roundtrip[of "be32_bytes x @ be32_bytes t @ be32_bytes v @ be32_bytes pr" vs]
    by (simp add: rpc_bytes_def length_be32_bytes)
  show "be32 (rpc_bytes x t v pr vs pc) 20 = pc"
    using be32_bytes_roundtrip[of "be32_bytes x @ be32_bytes t @ be32_bytes v @ be32_bytes pr @
        be32_bytes vs" pc]
    by (simp add: rpc_bytes_def length_be32_bytes)
qed

lemma rpc_frame_envelope:
  "rpc_envelope_valid (udp_frame d (rpc_bytes x t v pr vs pc)) \<longleftrightarrow>
     t = 0 \<and> v = 2 \<and> pr = 100003 \<and> vs = 3"
  using udp_frame_be32[of 4 "rpc_bytes x t v pr vs pc" d]
    udp_frame_be32[of 8 "rpc_bytes x t v pr vs pc" d]
    udp_frame_be32[of 12 "rpc_bytes x t v pr vs pc" d]
    udp_frame_be32[of 16 "rpc_bytes x t v pr vs pc" d]
  by (simp add: rpc_envelope_valid_def udp_frame_payload_offset udp_frame_payload_len
      udp_frame_length rpc_bytes_length rpc_bytes_fields)

lemma rpc_frame_procedure:
  "request_procedure (udp_frame d (rpc_bytes x t v pr vs pc)) = pc"
  using udp_frame_be32[of 20 "rpc_bytes x t v pr vs pc" d]
  by (simp add: request_procedure_def udp_frame_payload_offset rpc_bytes_length rpc_bytes_fields)

lemma get_root_length: "length get_root = 14"
  by (simp add: get_root_def bytes_def)

lemma get_root_method: "parse_http_method get_root 14 = HTTP_GET"
  by (simp add: parse_http_method_def get_root_def bytes_def ch_def)

lemma replicate_update_same: "(replicate n x)[i := x] = replicate n x"
  by (cases "i < n") (simp_all add: list_eq_iff_nth_eq nth_list_update)

lemma get_root_extract:
  "extract_filename get_root 14 (replicate MAX_FILENAME_LEN 0) = (0, replicate MAX_FILENAME_LEN 0)"
  by (simp add: extract_filename_def extract_filename_loop.simps[of _ _ 5] get_root_def
      bytes_def ch_def replicate_update_same)

lemma get_root_filename: "ingress_filename get_root 14 = filename_buf ''index.html''"
proof -
  have "replicate 246 (0::u8) = 0 # replicate 245 0"
    by (simp add: replicate_Suc[symmetric] del: replicate_Suc)
  then show ?thesis
    by (simp add: ingress_filename_def get_root_extract)
       (simp add: memcpy_def filename_buf_def MAX_FILENAME_LEN_def bytes_def)
qed

lemma get_root_frame_recognized:
  "http_recognized (tcp_frame d get_root) \<longleftrightarrow> d = 80 \<or> d = 8080"
  by (simp add: http_recognized_def tcp_frame_match tcp_frame_payload_offset tcp_frame_length
      tcp_frame_payload_len request_method_def tcp_frame_payload get_root_length
      get_root_method HTTP_GET_def HTTP_UNKNOWN_def)

lemma get_root_frame_method: "request_method (tcp_frame d get_root) = HTTP_GET"
  by (simp add: request_method_def tcp_frame_payload_offset tcp_frame_payload
      tcp_frame_payload_len get_root_length get_root_method)

lemma get_root_frame_filename:
  "request_filename (tcp_frame d get_root) = filename_buf ''index.html''"
  by (simp add: request_filename_def tcp_frame_payload_offset tcp_frame_payload
      tcp_frame_payload_len get_root_length get_root_filename)

lemma index_exists: "check_file_exists (filename_buf ''index.html'') = 1"
  by (simp add: check_file_exists_def filename_buf_def bytes_def ch_def)

section \<open>The decision of the file-fetch handler\<close>

lemma ingress_decide_decision:
  "snd (snd (ingress_decide cfg env m ip port method fn req)) =
     (if enable_kernel_processing cfg \<noteq> 0 \<and> method = HTTP_GET then
        (if check_file_exists fn \<noteq> 0 then
           (case bpf_map_lookup_elem (file_cache m) fn of
              None \<Rightarrow> ForwardToControlPlane
            | Some e \<Rightarrow> if fc_valid e \<noteq> 0 then KernelServed else ForwardToControlPlane)
         else NotFound)
      else ForwardToControlPlane)"
  by (simp add: ingress_decide_def Let_def split: option.splits)

lemma ingress_request_decision:
  "decision (ingress_request cfg env m skb ip port method payload len) =
     (if \<not> reserve_req_event env then ChannelFull
      else if enable_kernel_processing cfg \<noteq> 0 \<and> method = HTTP_GET then
        (if check_file_exists (ingress_filename payload len) \<noteq> 0 then
           (case bpf_map_lookup_elem (file_cache m) (ingress_filename payload len) of
              None \<Rightarrow> ForwardToControlPlane
            | Some e \<Rightarrow> if fc_valid e \<noteq> 0 then KernelServed else ForwardToControlPlane)
         else NotFound)
      else ForwardToControlPlane)"
proof -
  have "decision (ingress_request cfg env m skb ip port method payload len) =
     (if \<not> reserve_req_event env then ChannelFull
      else snd (snd (ingress_decide cfg env (m\<lparr>stats := update_stats (stats m) 0 1\<rparr>) ip port method
         (ingress_filename payload len)
         (new_http_request ip port method (ingress_filename payload len)))))"
    by (simp add: ingress_request_def Let_def split: prod.splits option.splits)
  then show ?thesis by (simp add: ingress_decide_decision)
qed

lemma fileserver_ingress_decision:
  "decision (fileserver_ingress cfg env m skb) =
     (if \<not> http_recognized skb then PassThrough
      else if \<not> reserve_req_event env then ChannelFull
      else if enable_kernel_processing cfg \<noteq> 0 \<and> request_method skb = HTTP_GET then
        (if check_file_exists (request_filename skb) \<noteq> 0 then
           (case bpf_map_lookup_elem (file_cache m) (request_filename skb) of
              None \<Rightarrow> ForwardToControlPlane
            | Some e \<Rightarrow> if fc_valid e \<noteq> 0 then KernelServed else ForwardToControlPlane)
         else NotFound)
      else ForwardToControlPlane)"
  by (simp add: fileserver_ingress_pass fileserver_ingress_recognized ingress_request_decision
      request_filename_def)

section \<open>Verdicts\<close>

lemma ingress_request_verdict:
  "verdict (ingress_request cfg env m skb ip port method payload len) = TC_ACT_OK \<and>
   skb_out (ingress_request cfg env m skb ip port method payload len) = skb"
  by (simp add: ingress_request_def Let_def split: prod.splits option.splits)

lemma nfs_call_verdict:
  "verdict (nfs_call cfg env m skb ip port rpc) = TC_ACT_OK \<and>
   skb_out (nfs_call cfg env m skb ip port rpc) = skb"
  by (simp add: nfs_call_def Let_def split: prod.splits)

lemma fileserver_ingress_verdict:
  "verdict (fileserver_ingress cfg env m skb) = TC_ACT_OK \<and>
   skb_out (fileserver_ingress cfg env m skb) = skb"
  by (cases "http_recognized skb")
     (simp_all add: fileserver_ingress_pass fileserver_ingress_recognized ingress_request_verdict)

lemma nfs_server_tc_verdict:
  "verdict (nfs_server_tc cfg env m skb) = TC_ACT_OK \<and>
   skb_out (nfs_server_tc cfg env m skb) = skb"
  by (cases "nfs_recognized skb")
     (simp_all add: nfs_server_tc_pass nfs_server_tc_recognized nfs_call_verdict)

text \<open>
  Claim C10. Each per-frame handler is a total function of the frame, the configuration,
  the answers of the kernel and the maps; on every input it returns \<open>TC_ACT_OK\<close> and leaves
  the bytes of the frame as they were, whatever branch it took.
\<close>

theorem handlers_always_return_ok:
  "verdict (fileserver_ingress cfg env m skb) = TC_ACT_OK \<and>
   skb_out (fileserver_ingress cfg env m skb) = skb \<and>
   verdict (nfs_server_tc cfg' env' m' skb) = TC_ACT_OK \<and>
   skb_out (nfs_server_tc cfg' env' m' skb) = skb"
proof -
  note http = fileserver_ingress_verdict[of cfg env m skb]
  note nfs = nfs_server_tc_verdict[of cfg' env' m' skb]
  from http nfs show ?thesis by (intro conjI) simp_all
qed

text \<open>
  The witness: the frame of \<open>GET /\<close> to port 8080, given to both handlers; the first
  serves it from the cache, the second passes it through.
\<close>

theorem handlers_always_return_ok_witness:
  "verdict (fileserver_ingress default_fileserver_config ingress_env_ok
      (maps_caching ''index.html'') (tcp_frame 8080 get_root)) = TC_ACT_OK \<and>
   skb_out (fileserver_ingress default_fileserver_config ingress_env_ok
      (maps_caching ''index.html'') (tcp_frame 8080 get_root)) = tcp_frame 8080 get_root \<and>
   verdict (nfs_server_tc default_nfs_config nfs_env_ok nfs_maps_init
      (tcp_frame 8080 get_root)) = TC_ACT_OK \<and>
   skb_out (nfs_server_tc default_nfs_config nfs_env_ok nfs_maps_init
      (tcp_frame 8080 get_root)) = tcp_frame 8080 get_root"
  by (rule handlers_always_return_ok)

section \<open>Frames that are not requests\<close>

text \<open>
  Claim C4. A frame that does not match the transport and port of the file-fetch program
  leaves its handler with the decision pass-through and the maps (statistics, cache,
  connection tracker, ring of records) as they were. The same holds for the
  remote-filesystem handler and a frame that does not match its transport and port or
  whose RPC envelope is not a version-2 call of program 100003, version 3.
\<close>

theorem unmatched_frame_changes_nothing:
  "(\<not> http_transport_match skb \<longrightarrow>
      fileserver_ingress cfg env m skb =
        \<lparr>verdict = TC_ACT_OK, decision = PassThrough, maps = m, skb_out = skb\<rparr>) \<and>
   (\<not> nfs_transport_match skb' \<or> \<not> rpc_envelope_valid skb' \<longrightarrow>
      nfs_server_tc cfg' env' m' skb' =
        \<lparr>verdict = TC_ACT_OK, decision = PassThrough, maps = m', skb_out = skb'\<rparr>)"
  using fileserver_ingress_pass[of skb cfg env m] nfs_server_tc_pass[of skb' cfg' env' m']
  by (auto simp: http_recognized_def nfs_recognized_def)

lemma bad_version_frame_envelope:
  "\<not> rpc_envelope_valid (udp_frame 2049 bad_version_call)"
  by (simp add: bad_version_call_def rpc_frame_envelope)

text \<open>
  The witness: a GET sent to TCP port 443, and a datagram to UDP port 2049 whose RPC
  version field is 3, both arriving while the caches are filled.
\<close>

theorem unmatched_frame_changes_nothing_witness:
  "\<not> http_transport_match (tcp_frame 443 get_root) \<and>
   fileserver_ingress default_fileserver_config ingress_env_ok (maps_caching ''index.html'')
       (tcp_frame 443 get_root) =
     \<lparr>verdict = TC_ACT_OK, decision = PassThrough, maps = maps_caching ''index.html'',
      skb_out = tcp_frame 443 get_root\<rparr> \<and>
   \<not> rpc_envelope_valid (udp_frame 2049 bad_version_call) \<and>
   nfs_server_tc default_nfs_config nfs_env_ok test_txt_cached (udp_frame 2049 bad_version_call) =
     \<lparr>verdict = TC_ACT_OK, decision = PassThrough, maps = test_txt_cached,
      skb_out = udp_frame 2049 bad_version_call\<rparr>"
  using unmatched_frame_changes_nothing[of "tcp_frame 443 get_root" default_fileserver_config
      ingress_env_ok "maps_caching ''index.html''" "udp_frame 2049 bad_version_call"
      default_nfs_config nfs_env_ok test_txt_cached]
    bad_version_frame_envelope
  by (simp add: tcp_frame_match)

lemma nfs_call_decision_not_pass:
  "decision (nfs_call cfg env m skb ip port rpc) \<noteq> PassThrough"
  by (simp add: nfs_call_def Let_def split: prod.splits)

text \<open>
  Claim C5, as amended. A frame that either handler does not pass through is IPv4 over
  Ethernet and carries the handler's transport protocol: TCP with destination port 80 or
  8080 for the file-fetch handler, UDP with destination port 2049 for the
  remote-filesystem handler. Every other frame is passed through.
\<close>

theorem recognized_transport_and_ports:
  "(decision (fileserver_ingress cfg env m skb) \<noteq> PassThrough \<longrightarrow>
      34 \<le> length skb \<and> be16 skb 12 = 0x0800 \<and> skb ! 23 = 6 \<and>
      (be16 skb (transport_offset skb + 2) = 80 \<or> be16 skb (transport_offset skb + 2) = 8080)) \<and>
   (decision (nfs_server_tc cfg' env' m' skb') \<noteq> PassThrough \<longrightarrow>
      34 \<le> length skb' \<and> be16 skb' 12 = 0x0800 \<and> skb' ! 23 = 17 \<and>
      be16 skb' (transport_offset skb' + 2) = 2049)"
proof -
  have "http_recognized skb" if "decision (fileserver_ingress cfg env m skb) \<noteq> PassThrough"
    using that by (cases "http_recognized skb") (simp_all add: fileserver_ingress_pass)
  moreover have "nfs_recognized skb'"
    if "decision (nfs_server_tc cfg' env' m' skb') \<noteq> PassThrough"
    using that by (cases "nfs_recognized skb'") (simp_all add: nfs_server_tc_pass)
  ultimately show ?thesis
    by (auto simp: http_recognized_def http_transport_match_def nfs_recognized_def
        nfs_transport_match_def)
qed

lemma get_root_decision_uncached:
  "d = 80 \<or> d = 8080 \<Longrightarrow>
   decision (fileserver_ingress default_fileserver_config ingress_env_ok fileserver_maps_init
      (tcp_frame d get_root)) = ForwardToControlPlane"
  by (simp add: fileserver_ingress_decision get_root_frame_recognized get_root_frame_method
      get_root_frame_filename index_exists default_fileserver_config_def ingress_env_ok_def
      fileserver_maps_init_def bpf_map_lookup_elem_def)

lemma getattr_frame_recognized: "nfs_recognized (udp_frame 2049 getattr_call)"
  by (simp add: nfs_recognized_def udp_frame_match getattr_call_def rpc_frame_envelope)

theorem recognized_transport_and_ports_witness:
  "decision (fileserver_ingress default_fileserver_config ingress_env_ok fileserver_maps_init
      (tcp_frame 8080 get_root)) \<noteq> PassThrough \<and>
   be16 (tcp_frame 8080 get_root) (transport_offset (tcp_frame 8080 get_root) + 2) = 8080 \<and>
   tcp_frame 8080 get_root ! 23 = 6 \<and>
   decision (nfs_server_tc default_nfs_config nfs_env_ok nfs_maps_init
      (udp_frame 2049 getattr_call)) \<noteq> PassThrough \<and>
   be16 (udp_frame 2049 getattr_call) (transport_offset (udp_frame 2049 getattr_call) + 2) = 2049 \<and>
   udp_frame 2049 getattr_call ! 23 = 17"
  using recognized_transport_and_ports[of default_fileserver_config ingress_env_ok
      fileserver_maps_init "tcp_frame 8080 get_root" default_nfs_config nfs_env_ok nfs_maps_init
      "udp_frame 2049 getattr_call"]
    get_root_decision_uncached[of 8080]
    nfs_call_decision_not_pass[of default_nfs_config nfs_env_ok nfs_maps_init]
  by (simp add: nfs_server_tc_recognized getattr_frame_recognized tcp_frame_transport_offset
      tcp_frame_dport udp_frame_transport_offset udp_frame_dport)

text \<open>
  Claim C5 as stated fails for the file-fetch handler, which recognizes two destination
  ports: the same request sent to port 80 and to port 8080 is taken as a request (and
  forwarded, the cache being empty) both times.
\<close>

theorem two_ports_recognized:
  "decision (fileserver_ingress default_fileserver_config ingress_env_ok fileserver_maps_init
      (tcp_frame 80 get_root)) = ForwardToControlPlane \<and>
   be16 (tcp_frame 80 get_root) (transport_offset (tcp_frame 80 get_root) + 2) = 80 \<and>
   decision (fileserver_ingress default_fileserver_config ingress_env_ok fileserver_maps_init
      (tcp_frame 8080 get_root)) = ForwardToControlPlane \<and>
   be16 (tcp_frame 8080 get_root) (transport_offset (tcp_frame 8080 get_root) + 2) = 8080"
  by (simp add: get_root_decision_uncached tcp_frame_transport_offset tcp_frame_dport)

section \<open>Branches of the file-fetch handler\<close>

lemma lookup_write_elem: "bpf_map_lookup_elem (write_elem m k v) k' = (if k' = k then Some v else bpf_map_lookup_elem m k')"
  by (simp add: bpf_map_lookup_elem_def write_elem_def update_conv')

lemma ingress_request_channel_full:
  "\<not> reserve_req_event env \<Longrightarrow>
   ingress_request cfg env m skb ip port method payload len =
     \<lparr>verdict = TC_ACT_OK, decision = ChannelFull,
      maps = m\<lparr>stats := update_stats (stats m) 0 1\<rparr>, skb_out = skb\<rparr>"
  by (simp add: ingress_request_def Let_def)

lemma ingress_decide_conn_track:
  "conn_track (fst (snd (ingress_decide cfg env m ip port method fn req))) = conn_track m"
  by (simp add: ingress_decide_def emit_file_event_def Let_def split: option.splits)

lemma ingress_decide_kernel_served:
  assumes "enable_kernel_processing cfg \<noteq> 0" "method = HTTP_GET" "check_file_exists fn \<noteq> 0"
    "bpf_map_lookup_elem (file_cache m) fn = Some e" "fc_valid e \<noteq> 0"
  shows "ingress_decide cfg env m ip port method fn req =
     (req\<lparr>hr_processed_in_kernel := 1\<rparr>,
      emit_file_event env
        (m\<lparr>file_cache := write_elem (file_cache m) fn (e\<lparr>fc_cache_hits := fc_cache_hits e + 1\<rparr>),
           stats := update_stats (stats m) 1 1\<rparr>)
        \<lparr>fe_client_addr = ip, fe_client_port = port, fe_operation = FILE_OP_SUCCESS,
         fe_filename = fn, fe_file_size = fc_file_size e,
         fe_timestamp = ktime_file_event env, fe_forwarded_to_user = 0\<rparr>,
      KernelServed)"
  using assms by (simp add: ingress_decide_def Let_def)


lemma ingress_request_kernel_served:
  assumes "reserve_req_event env"
    "enable_kernel_processing cfg \<noteq> 0" "method = HTTP_GET"
    "check_file_exists (ingress_filename payload len) \<noteq> 0"
    "bpf_map_lookup_elem (file_cache m) (ingress_filename payload len) = Some e" "fc_valid e \<noteq> 0"
  shows
   "decision (ingress_request cfg env m skb ip port method payload len) = KernelServed \<and>
    stats (maps (ingress_request cfg env m skb ip port method payload len)) =
      update_stats (update_stats (stats m) 0 1) 1 1 \<and>
    file_cache (maps (ingress_request cfg env m skb ip port method payload len)) =
      write_elem (file_cache m) (ingress_filename payload len)
        (e\<lparr>fc_cache_hits := fc_cache_hits e + 1\<rparr>) \<and>
    events (maps (ingress_request cfg env m skb ip port method payload len)) =
      events m @
      (if reserve_file_event env then
         [FileEvent \<lparr>fe_client_addr = ip, fe_client_port = port, fe_operation = FILE_OP_SUCCESS,
           fe_filename = ingress_filename payload len, fe_file_size = fc_file_size e,
           fe_timestamp = ktime_file_event env, fe_forwarded_to_user = 0\<rparr>]
       else []) @
      [HttpRequest ((new_http_request ip port method (ingress_filename payload len))
                      \<lparr>hr_processed_in_kernel := 1\<rparr>)]"
  using assms
  by (simp add: ingress_request_def Let_def ingress_decide_kernel_served emit_file_event_def
      split: option.splits)

lemma ingress_request_file_event_only:
  assumes "reserve_req_event env"
  shows
   "decision (ingress_request cfg (env\<lparr>reserve_file_event := False\<rparr>) m skb ip port method payload len) =
    decision (ingress_request cfg (env\<lparr>reserve_file_event := True\<rparr>) m skb ip port method payload len) \<and>
    stats (maps (ingress_request cfg (env\<lparr>reserve_file_event := False\<rparr>) m skb ip port method payload len)) =
    stats (maps (ingress_request cfg (env\<lparr>reserve_file_event := True\<rparr>) m skb ip port method payload len)) \<and>
    file_cache (maps (ingress_request cfg (env\<lparr>reserve_file_event := False\<rparr>) m skb ip port method payload len)) =
    file_cache (maps (ingress_request cfg (env\<lparr>reserve_file_event := True\<rparr>) m skb ip port method payload len)) \<and>
    conn_track (maps (ingress_request cfg (env\<lparr>reserve_file_event := False\<rparr>) m skb ip port method payload len)) =
    conn_track (maps (ingress_request cfg (env\<lparr>reserve_file_event := True\<rparr>) m skb ip port method payload len)) \<and>
    new_records m (ingress_request cfg (env\<lparr>reserve_file_event := False\<rparr>) m skb ip port method payload len) =
    filter (\<lambda>r. \<not> is_file_event r)
      (new_records m (ingress_request cfg (env\<lparr>reserve_file_event := True\<rparr>) m skb ip port method payload len))"
  using assms
  by (simp add: ingress_request_def Let_def ingress_decide_def emit_file_event_def
      new_records_def is_file_event_def split: option.splits)

section \<open>Branches of the remote-filesystem handler\<close>

lemma track_client_fields:
  "nfs_file_cache (snd (track_client env m ip)) = nfs_file_cache m \<and>
   nfs_stats (snd (track_client env m ip)) = nfs_stats m \<and>
   fh_to_name (snd (track_client env m ip)) = fh_to_name m \<and>
   nfs_events (snd (track_client env m ip)) = nfs_events m"
  by (simp add: track_client_def Let_def split: option.splits)

lemma write_client_state_fields:
  "nfs_file_cache (write_client_state b m ip f) = nfs_file_cache m \<and>
   nfs_stats (write_client_state b m ip f) = nfs_stats m \<and>
   fh_to_name (write_client_state b m ip f) = fh_to_name m \<and>
   nfs_events (write_client_state b m ip f) = nfs_events m"
  by (simp add: write_client_state_def split: option.splits)

lemma nfs_call_channel_full:
  "\<not> reserve_nfs_request env \<or> \<not> reserve_nfs_event env \<Longrightarrow>
   nfs_call cfg env m skb ip port rpc =
     \<lparr>verdict = TC_ACT_OK, decision = ChannelFull, maps = snd (track_client env m ip),
      skb_out = skb\<rparr>"
  by (auto simp: nfs_call_def Let_def split: prod.splits)


lemma nfs_call_decision:
  "reserve_nfs_request env \<Longrightarrow> reserve_nfs_event env \<Longrightarrow>
   decision (nfs_call cfg env m skb ip port rpc) =
     (if fst (nfs_dispatch cfg env (snd (track_client env m ip)) (rh_procedure rpc)
                (new_nfs_request ip port rpc) (new_nfs_event env ip port rpc)) \<noteq> 0
      then KernelServed else ForwardToControlPlane)"
  by (simp add: nfs_call_def Let_def split: prod.splits)

lemma nfs_call_file_cache:
  "reserve_nfs_request env \<Longrightarrow> reserve_nfs_event env \<Longrightarrow>
   nfs_file_cache (maps (nfs_call cfg env m skb ip port rpc)) =
     nfs_file_cache (snd (snd (nfs_dispatch cfg env (snd (track_client env m ip)) (rh_procedure rpc)
                (new_nfs_request ip port rpc) (new_nfs_event env ip port rpc))))"
  by (simp add: nfs_call_def Let_def write_client_state_fields split: prod.splits)

section \<open>The kernel-processing switch\<close>


lemma index_cached_lookup:
  "bpf_map_lookup_elem (file_cache (maps_caching name)) (filename_buf name) = Some (cached_file name)"
  by (simp add: maps_caching_def bpf_map_lookup_elem_def)



section \<open>A full event channel\<close>

text \<open>
  Claim C7, as amended. A failed reservation is never retried and its record is not
  emitted. When the reservation of the file event fails in the file-fetch handler, the
  decision, the statistics, the cache and the connection tracker are the same as when it
  succeeds, and the ring receives the same records but for the file event. When the
  reservation of the request record fails, the file-fetch handler returns at once with
  only the total-request counter (slot 0) updated. When either reservation of the
  remote-filesystem handler fails, it returns at once with only the client tracker
  touched; statistics, cache, handle table and ring are as before.
\<close>

theorem failed_reservation_effects:
  "(http_recognized skb \<and> reserve_req_event env \<longrightarrow>
      decision (fileserver_ingress cfg (env\<lparr>reserve_file_event := False\<rparr>) m skb) =
      decision (fileserver_ingress cfg (env\<lparr>reserve_file_event := True\<rparr>) m skb) \<and>
      stats (maps (fileserver_ingress cfg (env\<lparr>reserve_file_event := False\<rparr>) m skb)) =
      stats (maps (fileserver_ingress cfg (env\<lparr>reserve_file_event := True\<rparr>) m skb)) \<and>
      file_cache (maps (fileserver_ingress cfg (env\<lparr>reserve_file_event := False\<rparr>) m skb)) =
      file_cache (maps (fileserver_ingress cfg (env\<lparr>reserve_file_event := True\<rparr>) m skb)) \<and>
      conn_track (maps (fileserver_ingress cfg (env\<lparr>reserve_file_event := False\<rparr>) m skb)) =
      conn_track (maps (fileserver_ingress cfg (env\<lparr>reserve_file_event := True\<rparr>) m skb)) \<and>
      new_records m (fileserver_ingress cfg (env\<lparr>reserve_file_event := False\<rparr>) m skb) =
      filter (\<lambda>r. \<not> is_file_event r)
        (new_records m (fileserver_ingress cfg (env\<lparr>reserve_file_event := True\<rparr>) m skb))) \<and>
   (http_recognized skb \<and> \<not> reserve_req_event env \<longrightarrow>
      fileserver_ingress cfg env m skb =
        \<lparr>verdict = TC_ACT_OK, decision = ChannelFull,
         maps = m\<lparr>stats := update_stats (stats m) 0 1\<rparr>, skb_out = skb\<rparr>) \<and>
   (nfs_recognized skb' \<and> (\<not> reserve_nfs_request env' \<or> \<not> reserve_nfs_event env') \<longrightarrow>
      nfs_server_tc cfg' env' m' skb' =
        \<lparr>verdict = TC_ACT_OK, decision = ChannelFull,
         maps = snd (track_client env' m' (ip_saddr skb')), skb_out = skb'\<rparr> \<and>
      nfs_stats (snd (track_client env' m' (ip_saddr skb'))) = nfs_stats m' \<and>
      nfs_file_cache (snd (track_client env' m' (ip_saddr skb'))) = nfs_file_cache m' \<and>
      fh_to_name (snd (track_client env' m' (ip_saddr skb'))) = fh_to_name m' \<and>
      nfs_events (snd (track_client env' m' (ip_saddr skb'))) = nfs_events m')"
proof -
  have a: "reserve_req_event (env\<lparr>reserve_file_event := b\<rparr>) = reserve_req_event env" for b
    by simp
  show ?thesis
    using ingress_request_file_event_only[of env cfg m skb "ip_saddr skb"
        "be16 skb (transport_offset skb)" "request_method skb"
        "drop (http_payload_offset skb) skb" "http_payload_len skb"]
      nfs_call_channel_full[of env' cfg' m' skb' "ip_saddr skb'"
        "be16 skb' (transport_offset skb')" "request_rpc skb'"]
    by (auto simp: fileserver_ingress_recognized ingress_request_channel_full
        nfs_server_tc_recognized track_client_fields)
qed

lemma get_root_hit:
  "decision (fileserver_ingress default_fileserver_config ingress_env_ok
      (maps_caching ''index.html'') (tcp_frame 8080 get_root)) = KernelServed"
  by (simp add: fileserver_ingress_decision get_root_frame_recognized get_root_frame_method
      get_root_frame_filename index_exists default_fileserver_config_def ingress_env_ok_def
      index_cached_lookup cached_file_def)

text \<open>
  The witness: a cache hit whose file event finds no room is still kernel-served; with no
  room for the request record the handlers return early.
\<close>

theorem failed_reservation_effects_witness:
  "http_recognized (tcp_frame 8080 get_root) \<and>
   decision (fileserver_ingress default_fileserver_config
      (ingress_env_ok\<lparr>reserve_file_event := False\<rparr>) (maps_caching ''index.html'')
      (tcp_frame 8080 get_root)) = KernelServed \<and>
   decision (fileserver_ingress default_fileserver_config ingress_env_full
      (maps_caching ''index.html'') (tcp_frame 8080 get_root)) = ChannelFull \<and>
   nfs_recognized (udp_frame 2049 getattr_call) \<and>
   nfs_events (maps (nfs_server_tc default_nfs_config nfs_env_full test_txt_cached
      (udp_frame 2049 getattr_call))) = nfs_events test_txt_cached"
  using failed_reservation_effects[of "tcp_frame 8080 get_root" ingress_env_ok
      default_fileserver_config "maps_caching ''index.html''" "udp_frame 2049 getattr_call"
      nfs_env_full default_nfs_config test_txt_cached]
    failed_reservation_effects[of "tcp_frame 8080 get_root" ingress_env_full
      default_fileserver_config "maps_caching ''index.html''" "udp_frame 2049 getattr_call"
      nfs_env_full default_nfs_config test_txt_cached]
    get_root_hit
  by (simp add: get_root_frame_recognized getattr_frame_recognized ingress_env_ok_def
      ingress_env_full_def nfs_env_full_def)

text \<open>
  Claim C7 as stated fails when the reservation of the request record fails: the same
  request for the cached \<open>index.html\<close> is kernel-served, with the hit counter of the
  entry and the kernel-served counter (slot 1) going from 0 to 1, when the reservation
  succeeds, and is left undecided, with both counters still 0, when it fails.
\<close>

theorem failed_request_reservation_changes_outcome:
  "decision (fileserver_ingress default_fileserver_config ingress_env_ok
      (maps_caching ''index.html'') (tcp_frame 8080 get_root)) = KernelServed \<and>
   decision (fileserver_ingress default_fileserver_config ingress_env_full
      (maps_caching ''index.html'') (tcp_frame 8080 get_root)) = ChannelFull \<and>
   map_option fc_cache_hits (bpf_map_lookup_elem
      (file_cache (maps (fileserver_ingress default_fileserver_config ingress_env_ok
         (maps_caching ''index.html'') (tcp_frame 8080 get_root))))
      (filename_buf ''index.html'')) = Some 1 \<and>
   map_option fc_cache_hits (bpf_map_lookup_elem
      (file_cache (maps (fileserver_ingress default_fileserver_config ingress_env_full
         (maps_caching ''index.html'') (tcp_frame 8080 get_root))))
      (filename_buf ''index.html'')) = Some 0 \<and>
   stats (maps (fileserver_ingress default_fileserver_config ingress_env_ok
      (maps_caching ''index.html'') (tcp_frame 8080 get_root))) ! 1 = 1 \<and>
   stats (maps (fileserver_ingress default_fileserver_config ingress_env_full
      (maps_caching ''index.html'') (tcp_frame 8080 get_root))) ! 1 = 0"
proof -
  have ok: "reserve_req_event ingress_env_ok" by (simp add: ingress_env_ok_def)
  have en: "enable_kernel_processing default_fileserver_config \<noteq> 0"
    by (simp add: default_fileserver_config_def)
  have v: "fc_valid (cached_file ''index.html'') \<noteq> 0" by (simp add: cached_file_def)
  have ex: "check_file_exists (ingress_filename get_root 14) \<noteq> 0"
    by (simp add: get_root_filename index_exists)
  have lk: "bpf_map_lookup_elem (file_cache (maps_caching ''index.html''))
              (ingress_filename get_root 14) = Some (cached_file ''index.html'')"
    by (simp add: get_root_filename index_cached_lookup)
  note hit = ingress_request_kernel_served[OF ok en get_root_method[symmetric, THEN sym] ex lk v,
      of "tcp_frame 8080 get_root" "ip_saddr (tcp_frame 8080 get_root)"
         "be16 (tcp_frame 8080 get_root) (transport_offset (tcp_frame 8080 get_root))"]
  have r: "fileserver_ingress default_fileserver_config ingress_env_ok
      (maps_caching ''index.html'') (tcp_frame 8080 get_root) =
      ingress_request default_fileserver_config ingress_env_ok (maps_caching ''index.html'')
        (tcp_frame 8080 get_root) (ip_saddr (tcp_frame 8080 get_root))
        (be16 (tcp_frame 8080 get_root) (transport_offset (tcp_frame 8080 get_root)))
        (parse_http_method get_root 14) get_root 14"
    by (simp add: fileserver_ingress_recognized get_root_frame_recognized request_method_def
        tcp_frame_payload_offset tcp_frame_payload tcp_frame_payload_len get_root_length)
  have full: "fileserver_ingress default_fileserver_config ingress_env_full
      (maps_caching ''index.html'') (tcp_frame 8080 get_root) =
     \<lparr>verdict = TC_ACT_OK, decision = ChannelFull,
      maps = (maps_caching ''index.html'')\<lparr>stats :=
               update_stats (stats (maps_caching ''index.html'')) 0 1\<rparr>,
      skb_out = tcp_frame 8080 get_root\<rparr>"
    by (simp add: fileserver_ingress_recognized get_root_frame_recognized
        ingress_request_channel_full ingress_env_full_def)
  show ?thesis
    using hit
    by (simp add: r full lookup_write_elem get_root_filename index_cached_lookup)
       (simp add: maps_caching_def fileserver_maps_init_def update_stats_def cached_file_def)
qed

section \<open>The handle table of a reachable state\<close>

text \<open>
  The remote-filesystem handler looks a name up under the handle of its request record,
  which it has zeroed. The handlers leave \<^verbatim>\<open>fh_to_name\<close> alone, and the refresh is its only
  writer.
\<close>

lemma request_rpc_procedure: "rh_procedure (request_rpc skb) = request_procedure skb"
  by (simp add: request_rpc_def request_procedure_def Let_def)

lemma handle_nfs_getattr_no_handle:
  "bpf_map_lookup_elem (fh_to_name m) (rq_fh req) = None \<Longrightarrow>
   handle_nfs_getattr cfg now stack m req ev =
     (0, ev\<lparr>ev_result := NFS_OP_FORWARD_TO_USER, ev_forwarded_to_user := 1\<rparr>, m)"
  by (simp add: handle_nfs_getattr_def)

lemma handle_nfs_read_no_handle:
  "bpf_map_lookup_elem (fh_to_name m) (rq_fh req) = None \<Longrightarrow>
   handle_nfs_read stack m req ev =
     (0, ev\<lparr>ev_result := NFS_OP_FORWARD_TO_USER, ev_forwarded_to_user := 1\<rparr>, m)"
  by (simp add: handle_nfs_read_def)

lemma handle_nfs_getattr_result:
  "(fst (handle_nfs_getattr cfg now stack m req ev) \<noteq> 0 \<longrightarrow>
      ev_result (fst (snd (handle_nfs_getattr cfg now stack m req ev))) = NFS_OP_SUCCESS \<and>
      ev_forwarded_to_user (fst (snd (handle_nfs_getattr cfg now stack m req ev))) = 0 \<and>
      ev_from_cache (fst (snd (handle_nfs_getattr cfg now stack m req ev))) = 1 \<and>
      nfs_stats (snd (snd (handle_nfs_getattr cfg now stack m req ev))) =
        update_stats (nfs_stats m) 1 1) \<and>
   nfs_events (snd (snd (handle_nfs_getattr cfg now stack m req ev))) = nfs_events m \<and>
   fh_to_name (snd (snd (handle_nfs_getattr cfg now stack m req ev))) = fh_to_name m \<and>
   client_track (snd (snd (handle_nfs_getattr cfg now stack m req ev))) = client_track m"
  by (simp add: handle_nfs_getattr_def Let_def split: option.splits)

lemma handle_nfs_read_result:
  "(fst (handle_nfs_read stack m req ev) \<noteq> 0 \<longrightarrow>
      ev_result (fst (snd (handle_nfs_read stack m req ev))) = NFS_OP_SUCCESS \<and>
      ev_forwarded_to_user (fst (snd (handle_nfs_read stack m req ev))) = 0 \<and>
      ev_from_cache (fst (snd (handle_nfs_read stack m req ev))) = 1 \<and>
      nfs_stats (snd (snd (handle_nfs_read stack m req ev))) =
        update_stats (nfs_stats m) 1 1) \<and>
   nfs_events (snd (snd (handle_nfs_read stack m req ev))) = nfs_events m \<and>
   fh_to_name (snd (snd (handle_nfs_read stack m req ev))) = fh_to_name m \<and>
   client_track (snd (snd (handle_nfs_read stack m req ev))) = client_track m"
  by (simp add: handle_nfs_read_def Let_def split: option.splits)

lemma nfs_dispatch_result:
  "(fst (nfs_dispatch cfg env m p req ev) \<noteq> 0 \<longrightarrow>
      ev_result (fst (snd (nfs_dispatch cfg env m p req ev))) = NFS_OP_SUCCESS \<and>
      ev_forwarded_to_user (fst (snd (nfs_dispatch cfg env m p req ev))) = 0 \<and>
      nfs_stats (snd (snd (nfs_dispatch cfg env m p req ev))) =
        update_stats (nfs_stats m) 1 1) \<and>
   nfs_events (snd (snd (nfs_dispatch cfg env m p req ev))) = nfs_events m \<and>
   fh_to_name (snd (snd (nfs_dispatch cfg env m p req ev))) = fh_to_name m \<and>
   client_track (snd (snd (nfs_dispatch cfg env m p req ev))) = client_track m"
  using handle_nfs_getattr_result[of cfg "ktime_ttl env" "stack_filename env" m req ev]
    handle_nfs_read_result[of "stack_filename env" m req ev]
  by (simp add: nfs_dispatch_def)

lemma nfs_call_fh_to_name:
  "fh_to_name (maps (nfs_call cfg env m skb ip port rpc)) = fh_to_name m"
proof (cases "reserve_nfs_request env \<and> reserve_nfs_event env")
  case True
  then show ?thesis
    using nfs_dispatch_result[of cfg env "snd (track_client env m ip)" "rh_procedure rpc"
        "new_nfs_request ip port rpc" "new_nfs_event env ip port rpc"]
    by (simp add: nfs_call_def Let_def case_prod_beta write_client_state_fields
        track_client_fields)
next
  case False
  then show ?thesis
    using nfs_call_channel_full[of env cfg m skb ip port rpc]
    by (auto simp: track_client_fields)
qed

lemma nfs_server_tc_fh_to_name:
  "fh_to_name (maps (nfs_server_tc cfg env m skb)) = fh_to_name m"
  by (cases "nfs_recognized skb")
     (simp_all add: nfs_server_tc_pass nfs_server_tc_recognized nfs_call_fh_to_name)

lemma lookup_update_elem:
  "bpf_map_update_elem n m k v = Some m' \<Longrightarrow>
   bpf_map_lookup_elem m' k' = (if k' = k then Some v else bpf_map_lookup_elem m k')"
  by (auto simp add: bpf_map_update_elem_def bpf_map_lookup_elem_def update_conv' split: if_splits)

lemma generated_handle_not_zero: "generate_nfs_file_handle s fh \<noteq> zero_fh"
proof
  assume "generate_nfs_file_handle s fh = zero_fh"
  then have "fh_len (generate_nfs_file_handle s fh) = fh_len zero_fh" by simp
  then show False by (simp add: generate_nfs_file_handle_def zero_fh_def Let_def)
qed

lemma new_nfs_cache_entry_fh:
  "ce_fh (new_nfs_cache_entry st bs now filename) = generate_nfs_file_handle filename zero_fh"
  by (simp add: new_nfs_cache_entry_def)

text \<open>
  What a refresh does to the maps: nothing, or it installs the entry under the bytes at
  the pointer, and then, unless the second update fails, the handle of the name.
\<close>

lemma cache_file_in_kernel_nfs_cases:
  "snd (cache_file_in_kernel_nfs en io m filename) = m \<or>
   (\<exists>st bs name c.
      io_stat io = Some st \<and> st_size st \<le> MAX_NFS_DATA_SIZE \<and>
      length (take (st_size st) bs) = st_size st \<and>
      name_bytes_at filename = Some name \<and>
      bpf_map_update_elem 1024 (nfs_file_cache m) name
        (new_nfs_cache_entry st bs (io_time io) filename) = Some c \<and>
      (snd (cache_file_in_kernel_nfs en io m filename) = m\<lparr>nfs_file_cache := c\<rparr> \<or>
       (\<exists>t. bpf_map_update_elem 2048 (fh_to_name m)
               (generate_nfs_file_handle filename zero_fh) name = Some t \<and>
            fst (cache_file_in_kernel_nfs en io m filename) = 0 \<and>
            snd (cache_file_in_kernel_nfs en io m filename) =
              m\<lparr>nfs_file_cache := c, fh_to_name := t\<rparr>)))"
proof (cases "io_stat io")
  case None
  then show ?thesis by (simp add: cache_file_in_kernel_nfs_def)
next
  case (Some st)
  note st = this
  show ?thesis
  proof (cases "io_read io")
    case None
    with st show ?thesis by (simp add: cache_file_in_kernel_nfs_def)
  next
    case (Some bs)
    note bs = this
    show ?thesis
    proof (cases "name_bytes_at filename")
      case None
      with st bs show ?thesis by (simp add: cache_file_in_kernel_nfs_def Let_def)
    next
      case (Some name)
      note name = this
      let ?e = "new_nfs_cache_entry st bs (io_time io) filename"
      show ?thesis
      proof (cases "bpf_map_update_elem 1024 (nfs_file_cache m) name ?e")
        case None
        with st bs name show ?thesis by (simp add: cache_file_in_kernel_nfs_def Let_def)
      next
        case (Some c)
        note c = this
        show ?thesis
        proof (cases "en \<and> S_ISREG (st_mode st) \<and> st_size st \<le> MAX_NFS_DATA_SIZE \<and>
                      io_open io \<and> length (take (st_size st) bs) = st_size st")
          case False
          with st bs show ?thesis by (auto simp add: cache_file_in_kernel_nfs_def Let_def)
        next
          case True
          note g = this
          show ?thesis
          proof (cases "bpf_map_update_elem 2048 (fh_to_name m)
                          (generate_nfs_file_handle filename zero_fh) name")
            case None
            with g st bs name c
            have "snd (cache_file_in_kernel_nfs en io m filename) = m\<lparr>nfs_file_cache := c\<rparr>"
              by (simp add: cache_file_in_kernel_nfs_def Let_def new_nfs_cache_entry_fh)
            with g st name c show ?thesis by blast
          next
            case (Some t)
            with g st bs name c
            have "fst (cache_file_in_kernel_nfs en io m filename) = 0 \<and>
                  snd (cache_file_in_kernel_nfs en io m filename) =
                    m\<lparr>nfs_file_cache := c, fh_to_name := t\<rparr>"
              by (simp add: cache_file_in_kernel_nfs_def Let_def new_nfs_cache_entry_fh)
            with g st name c Some show ?thesis by blast
          qed
        qed
      qed
    qed
  qed
qed

text \<open>
  The handles in \<^verbatim>\<open>fh_to_name\<close> come from \<^verbatim>\<open>generate_nfs_file_handle\<close>, which sets the
  length to 8; the zeroed handle of a request record is none of them.
\<close>

lemma nfs_reachable_zero_handle:
  "nfs_reachable m \<Longrightarrow> bpf_map_lookup_elem (fh_to_name m) zero_fh = None"
proof (induction rule: nfs_reachable.induct)
  case nfs_start
  then show ?case by (simp add: nfs_maps_init_def bpf_map_lookup_elem_def)
next
  case (nfs_frame m cfg env skb)
  then show ?case by (simp add: nfs_server_tc_fh_to_name)
next
  case (nfs_refresh m enable io filename)
  let ?r = "snd (cache_file_in_kernel_nfs enable io m filename)"
  from cache_file_in_kernel_nfs_cases[of enable io m filename]
  consider "fh_to_name ?r = fh_to_name m"
    | name t where "bpf_map_update_elem 2048 (fh_to_name m)
               (generate_nfs_file_handle filename zero_fh) name = Some t" "fh_to_name ?r = t"
    by auto
  then show ?case
  proof cases
    case 1
    with nfs_refresh.IH show ?thesis by simp
  next
    case 2
    show ?thesis
      using lookup_update_elem[OF 2(1), of zero_fh] 2(2) nfs_refresh.IH
        generated_handle_not_zero[of filename zero_fh]
      by auto
  qed
qed

lemma nfs_dispatch_zero_handle:
  assumes "bpf_map_lookup_elem (fh_to_name m) zero_fh = None" "rq_fh req = zero_fh"
  shows "nfs_dispatch cfg env m p req ev =
     (if nfs_enable_kernel_processing cfg \<noteq> 0 then
        (if p = NFSPROC3_NULL then
           (1, ev\<lparr>ev_result := NFS_OP_SUCCESS, ev_forwarded_to_user := 0, ev_from_cache := 0\<rparr>,
            m\<lparr>nfs_stats := update_stats (nfs_stats m) 1 1\<rparr>)
         else (0, ev\<lparr>ev_result := NFS_OP_FORWARD_TO_USER, ev_forwarded_to_user := 1\<rparr>, m))
      else (0, ev, m))"
  using assms
  by (simp add: nfs_dispatch_def handle_nfs_getattr_no_handle handle_nfs_read_no_handle)

lemma nfs_call_zero_handle:
  assumes z: "bpf_map_lookup_elem (fh_to_name m) zero_fh = None"
    and r: "reserve_nfs_request env" "reserve_nfs_event env"
  shows "decision (nfs_call cfg env m skb ip port rpc) =
           (if nfs_enable_kernel_processing cfg \<noteq> 0 \<and> rh_procedure rpc = NFSPROC3_NULL
            then KernelServed else ForwardToControlPlane) \<and>
         nfs_file_cache (maps (nfs_call cfg env m skb ip port rpc)) = nfs_file_cache m"
proof -
  have z': "bpf_map_lookup_elem (fh_to_name (snd (track_client env m ip))) zero_fh = None"
    using z by (simp add: track_client_fields)
  have q: "rq_fh (new_nfs_request ip port rpc) = zero_fh"
    by (simp add: new_nfs_request_def)
  note d = nfs_dispatch_zero_handle[OF z' q, of cfg env "rh_procedure rpc"
      "new_nfs_event env ip port rpc"]
  show ?thesis
    using r
    by (simp add: nfs_call_decision nfs_call_file_cache d track_client_fields)
qed

lemma nfs_server_tc_reachable:
  assumes "nfs_reachable m" "nfs_recognized skb"
  shows "decision (nfs_server_tc cfg env m skb) =
           (if \<not> (reserve_nfs_request env \<and> reserve_nfs_event env) then ChannelFull
            else if nfs_enable_kernel_processing cfg \<noteq> 0 \<and>
                    request_procedure skb = NFSPROC3_NULL
                 then KernelServed else ForwardToControlPlane) \<and>
         nfs_file_cache (maps (nfs_server_tc cfg env m skb)) = nfs_file_cache m"
proof (cases "reserve_nfs_request env \<and> reserve_nfs_event env")
  case True
  then show ?thesis
    using assms nfs_call_zero_handle[OF nfs_reachable_zero_handle[OF assms(1)], of env cfg skb
        "ip_saddr skb" "be16 skb (transport_offset skb)" "request_rpc skb"]
    by (simp add: nfs_server_tc_recognized request_rpc_procedure)
next
  case False
  then show ?thesis
    using assms(2) nfs_call_channel_full[of env cfg m skb "ip_saddr skb"
        "be16 skb (transport_offset skb)" "request_rpc skb"]
    by (auto simp: nfs_server_tc_recognized track_client_fields)
qed

text \<open>The state after the refresh of \<open>test.txt\<close> at start.\<close>

lemma test_txt_literal_bytes: "name_bytes_at test_txt_literal = Some test_txt_literal"
  by (simp add: name_bytes_at_def test_txt_literal_def bytes_def MAX_FILENAME_LEN_def)

lemma test_txt_cached_tables:
  "fh_to_name test_txt_cached =
     [(generate_nfs_file_handle test_txt_literal zero_fh, test_txt_literal)] \<and>
   nfs_stats test_txt_cached = replicate 16 0 \<and> nfs_events test_txt_cached = [] \<and>
   client_track test_txt_cached = [] \<and>
   (\<exists>ce. nfs_file_cache test_txt_cached = [(test_txt_literal, ce)] \<and> ce_valid ce = 1 \<and>
      ce_data_valid ce = 1 \<and> ce_data_size ce = 23 \<and> ce_cache_time ce = 0 \<and>
      ce_cache_hits ce = 0 \<and> fa_size (ce_attr ce) = 23)"
  by (simp add: test_txt_cached_def cache_file_in_kernel_nfs_def regular_file_def S_ISREG_def
      MAX_NFS_DATA_SIZE_def Let_def bpf_map_update_elem_def test_txt_literal_bytes
      nfs_maps_init_def new_nfs_cache_entry_def)

lemma test_txt_cached_reachable: "nfs_reachable test_txt_cached"
  unfolding test_txt_cached_def by (rule nfs_refresh[OF nfs_start])

section \<open>Cache hits\<close>

lemma ingress_hit_counter:
  assumes "http_recognized skb" "reserve_req_event env" "enable_kernel_processing cfg \<noteq> 0"
    "request_method skb = HTTP_GET" "check_file_exists (request_filename skb) \<noteq> 0"
    "bpf_map_lookup_elem (file_cache m) (request_filename skb) = Some e" "fc_valid e \<noteq> 0"
  shows "decision (fileserver_ingress cfg env m skb) = KernelServed \<and>
      bpf_map_lookup_elem (file_cache (maps (fileserver_ingress cfg env m skb)))
        (request_filename skb) = Some (e\<lparr>fc_cache_hits := fc_cache_hits e + 1\<rparr>)"
  using assms
    ingress_request_kernel_served[of env cfg "request_method skb"
      "drop (http_payload_offset skb) skb" "http_payload_len skb" m e skb "ip_saddr skb"
      "be16 skb (transport_offset skb)"]
  by (simp add: fileserver_ingress_recognized request_filename_def lookup_write_elem)

text \<open>
  Claim C2, as amended. File-fetch handler: a recognized GET request, handled with the
  switch on and the request record reserved, whose key passes the existence heuristic and
  has a cache entry with the valid flag set, is decided kernel-served, and the hit counter
  of that entry grows by one (modulo \<open>2 ^ 32\<close>); no clock is consulted.
  Remote-filesystem handler: in every state reached from the empty maps by frames and
  refreshes, a recognized attribute fetch or read is decided forward-to-control-plane
  (when both reservations succeed; otherwise the handler returns before it decides),
  whatever the cache holds, and no entry of the cache, hit counters included, changes:
  the handler looks up the zeroed handle of the request record it builds, which the
  handle table never holds.
\<close>

theorem cache_hit_is_served_by_file_fetch_only:
  "(http_recognized skb \<and> reserve_req_event env \<and> enable_kernel_processing cfg \<noteq> 0 \<and>
    request_method skb = HTTP_GET \<and> check_file_exists (request_filename skb) \<noteq> 0 \<and>
    bpf_map_lookup_elem (file_cache m) (request_filename skb) = Some e \<and> fc_valid e \<noteq> 0 \<longrightarrow>
      decision (fileserver_ingress cfg env m skb) = KernelServed \<and>
      bpf_map_lookup_elem (file_cache (maps (fileserver_ingress cfg env m skb)))
        (request_filename skb) = Some (e\<lparr>fc_cache_hits := fc_cache_hits e + 1\<rparr>)) \<and>
   (nfs_reachable nm \<and> nfs_recognized skb' \<and>
    (request_procedure skb' = NFSPROC3_GETATTR \<or> request_procedure skb' = NFSPROC3_READ) \<longrightarrow>
      decision (nfs_server_tc ncfg nenv nm skb') =
        (if reserve_nfs_request nenv \<and> reserve_nfs_event nenv then ForwardToControlPlane
         else ChannelFull) \<and>
      nfs_file_cache (maps (nfs_server_tc ncfg nenv nm skb')) = nfs_file_cache nm)"
proof -
  have nfs: "decision (nfs_server_tc ncfg nenv nm skb') =
        (if reserve_nfs_request nenv \<and> reserve_nfs_event nenv then ForwardToControlPlane
         else ChannelFull) \<and>
      nfs_file_cache (maps (nfs_server_tc ncfg nenv nm skb')) = nfs_file_cache nm"
    if "nfs_reachable nm" "nfs_recognized skb'"
      "request_procedure skb' = NFSPROC3_GETATTR \<or> request_procedure skb' = NFSPROC3_READ"
    using nfs_server_tc_reachable[OF that(1) that(2), of ncfg nenv] that(3)
    by (auto simp: NFSPROC3_GETATTR_def NFSPROC3_READ_def NFSPROC3_NULL_def)
  show ?thesis
    using ingress_hit_counter[of skb env cfg m e] nfs by blast
qed

lemma get_foo_length: "length get_foo = 21"
  by (simp add: get_foo_def bytes_def)

lemma get_foo_method: "parse_http_method get_foo 21 = HTTP_GET"
  by (simp add: parse_http_method_def get_foo_def bytes_def ch_def)

lemma replicate_256_split: "replicate 256 (0::u8) = [0, 0, 0, 0, 0, 0, 0, 0] @ replicate 248 0"
proof -
  have "replicate 256 (0::u8) = replicate 8 0 @ replicate 248 0"
    by (simp add: replicate_add[symmetric])
  moreover have "replicate 8 (0::u8) = [0, 0, 0, 0, 0, 0, 0, 0]"
    by (simp add: eval_nat_numeral)
  ultimately show ?thesis by simp
qed

lemma get_foo_filename: "ingress_filename get_foo 21 = filename_buf ''foo.txt''"
proof -
  have r: "replicate 249 (0::u8) = 0 # replicate 248 0"
    by (simp add: replicate_Suc[symmetric] del: replicate_Suc)
  have "extract_filename get_foo 21 (replicate MAX_FILENAME_LEN 0) =
          (7, [102, 111, 111, 46, 116, 120, 116, 0] @ replicate 248 0)"
    by (simp add: extract_filename_def extract_filename_loop.simps get_foo_def bytes_def ch_def
        MAX_FILENAME_LEN_def replicate_256_split list_update_append)
  then show ?thesis
    by (simp add: ingress_filename_def)
       (simp add: filename_buf_def MAX_FILENAME_LEN_def bytes_def ch_def r)
qed

lemma get_foo_frame_recognized:
  "http_recognized (tcp_frame d get_foo) \<longleftrightarrow> d = 80 \<or> d = 8080"
  by (simp add: http_recognized_def tcp_frame_match tcp_frame_payload_offset tcp_frame_length
      tcp_frame_payload_len request_method_def tcp_frame_payload get_foo_length
      get_foo_method HTTP_GET_def HTTP_UNKNOWN_def)

lemma get_foo_frame_method: "request_method (tcp_frame d get_foo) = HTTP_GET"
  by (simp add: request_method_def tcp_frame_payload_offset tcp_frame_payload
      tcp_frame_payload_len get_foo_length get_foo_method)

lemma get_foo_frame_filename:
  "request_filename (tcp_frame d get_foo) = filename_buf ''foo.txt''"
  by (simp add: request_filename_def tcp_frame_payload_offset tcp_frame_payload
      tcp_frame_payload_len get_foo_length get_foo_filename)

lemma foo_not_exists: "check_file_exists (filename_buf ''foo.txt'') = 0"
  by (simp add: check_file_exists_def filename_buf_def bytes_def ch_def)

lemma be32_append_left: "k + 4 \<le> length p \<Longrightarrow> be32 (p @ rest) k = be32 p k"
  by (simp add: be32_def nth_append)

lemma handle_arg_length:
  "length (be32_bytes 8 @ take 8 (fh_data (generate_nfs_file_handle s zero_fh))) = 12"
  by (simp add: length_be32_bytes generate_nfs_file_handle_def store_u32_def zero_fh_def Let_def)

lemma getattr_test_txt_frame:
  "nfs_recognized (udp_frame 2049 getattr_test_txt_call) \<and>
   request_procedure (udp_frame 2049 getattr_test_txt_call) = NFSPROC3_GETATTR"
proof -
  have len: "length getattr_test_txt_call = 44"
    using handle_arg_length[of test_txt_literal]
    by (simp add: getattr_test_txt_call_def getattr_call_def rpc_bytes_length)
  have f: "be32 getattr_test_txt_call k = be32 getattr_call k" if "k + 4 \<le> 32" for k
    using that be32_append_left[of k getattr_call]
    by (simp add: getattr_test_txt_call_def getattr_call_def rpc_bytes_length)
  have g: "be32 (udp_frame 2049 getattr_test_txt_call) (42 + k) = be32 getattr_call k"
    if "k + 4 \<le> 32" for k
    using that udp_frame_be32[of k getattr_test_txt_call 2049] f[of k] len by simp
  show ?thesis
    using g[of 4] g[of 8] g[of 12] g[of 16] g[of 20]
    by (simp add: nfs_recognized_def udp_frame_match rpc_envelope_valid_def
        udp_frame_payload_offset udp_frame_payload_len udp_frame_length len
        request_procedure_def NFSPROC3_GETATTR_def)
       (simp add: getattr_call_def rpc_bytes_fields)
qed

lemma ingress_request_not_found:
  assumes "reserve_req_event env" "enable_kernel_processing cfg \<noteq> 0" "method = HTTP_GET"
    "check_file_exists (ingress_filename payload len) = 0"
  shows "decision (ingress_request cfg env m skb ip port method payload len) = NotFound \<and>
    file_cache (maps (ingress_request cfg env m skb ip port method payload len)) = file_cache m"
  using assms
  by (simp add: ingress_request_def Let_def ingress_decide_def emit_file_event_def
      split: option.splits)

text \<open>
  The witness: \<open>GET /\<close> with \<open>index.html\<close> cached is kernel-served and the hit counter
  goes from 0 to 1; the attribute call that carries the handle of the cached \<open>test.txt\<close> is
  forwarded and the cache stays as the refresh left it.
\<close>

theorem cache_hit_is_served_by_file_fetch_only_witness:
  "decision (fileserver_ingress default_fileserver_config ingress_env_ok
      (maps_caching ''index.html'') (tcp_frame 8080 get_root)) = KernelServed \<and>
   map_option fc_cache_hits (bpf_map_lookup_elem
      (file_cache (maps (fileserver_ingress default_fileserver_config ingress_env_ok
         (maps_caching ''index.html'') (tcp_frame 8080 get_root))))
      (filename_buf ''index.html'')) = Some 1 \<and>
   nfs_reachable test_txt_cached \<and>
   decision (nfs_server_tc default_nfs_config nfs_env_ok test_txt_cached
      (udp_frame 2049 getattr_test_txt_call)) = ForwardToControlPlane \<and>
   nfs_file_cache (maps (nfs_server_tc default_nfs_config nfs_env_ok test_txt_cached
      (udp_frame 2049 getattr_test_txt_call))) = nfs_file_cache test_txt_cached"
proof -
  note t = cache_hit_is_served_by_file_fetch_only[where skb = "tcp_frame 8080 get_root"
      and env = ingress_env_ok and cfg = default_fileserver_config
      and m = "maps_caching ''index.html''" and e = "cached_file ''index.html''"
      and nm = test_txt_cached and skb' = "udp_frame 2049 getattr_test_txt_call"
      and ncfg = default_nfs_config and nenv = nfs_env_ok]
  have w: "decision (fileserver_ingress default_fileserver_config ingress_env_ok
      (maps_caching ''index.html'') (tcp_frame 8080 get_root)) = KernelServed \<and>
   map_option fc_cache_hits (bpf_map_lookup_elem
      (file_cache (maps (fileserver_ingress default_fileserver_config ingress_env_ok
         (maps_caching ''index.html'') (tcp_frame 8080 get_root))))
      (filename_buf ''index.html'')) = Some 1"
    using t
    by (simp add: get_root_frame_recognized get_root_frame_method get_root_frame_filename
        index_exists index_cached_lookup ingress_env_ok_def default_fileserver_config_def
        cached_file_def)
  have n: "decision (nfs_server_tc default_nfs_config nfs_env_ok test_txt_cached
      (udp_frame 2049 getattr_test_txt_call)) = ForwardToControlPlane \<and>
   nfs_file_cache (maps (nfs_server_tc default_nfs_config nfs_env_ok test_txt_cached
      (udp_frame 2049 getattr_test_txt_call))) = nfs_file_cache test_txt_cached"
    using t test_txt_cached_reachable getattr_test_txt_frame
    by (simp add: nfs_env_ok_def)
  from w n test_txt_cached_reachable show ?thesis by blast
qed

text \<open>
  Claim C2 as stated fails in both programs. A GET for \<open>foo.txt\<close>, whose key has a valid
  cache entry, is decided not-found, because the name does not pass the existence
  heuristic, and the entry's hit counter is left alone. An attribute call that carries the
  handle of \<open>test.txt\<close>, which the handle table maps to the key of a valid entry stamped 0,
  is forwarded at clock value 1002 with a TTL of 300 seconds, because the handler looks up
  the zeroed handle of the request record and never the handle in the payload; the hit
  counter of the entry stays 0.
\<close>

theorem valid_entry_not_kernel_served:
  "http_recognized (tcp_frame 8080 get_foo) \<and>
   request_method (tcp_frame 8080 get_foo) = HTTP_GET \<and>
   bpf_map_lookup_elem (file_cache (maps_caching ''foo.txt''))
     (request_filename (tcp_frame 8080 get_foo)) = Some (cached_file ''foo.txt'') \<and>
   fc_valid (cached_file ''foo.txt'') = 1 \<and>
   decision (fileserver_ingress default_fileserver_config ingress_env_ok
      (maps_caching ''foo.txt'') (tcp_frame 8080 get_foo)) = NotFound \<and>
   file_cache (maps (fileserver_ingress default_fileserver_config ingress_env_ok
      (maps_caching ''foo.txt'') (tcp_frame 8080 get_foo))) = file_cache (maps_caching ''foo.txt'') \<and>
   nfs_recognized (udp_frame 2049 getattr_test_txt_call) \<and>
   request_procedure (udp_frame 2049 getattr_test_txt_call) = NFSPROC3_GETATTR \<and>
   bpf_map_lookup_elem (fh_to_name test_txt_cached)
     (generate_nfs_file_handle test_txt_literal zero_fh) = Some test_txt_literal \<and>
   map_option ce_valid (lookup_file_cache test_txt_cached test_txt_literal) = Some 1 \<and>
   map_option ce_cache_time (lookup_file_cache test_txt_cached test_txt_literal) = Some 0 \<and>
   ktime_ttl nfs_env_ok = 1002 \<and> nfs_cache_ttl_seconds default_nfs_config = 300 \<and>
   decision (nfs_server_tc default_nfs_config nfs_env_ok test_txt_cached
      (udp_frame 2049 getattr_test_txt_call)) = ForwardToControlPlane \<and>
   map_option ce_cache_hits (lookup_file_cache
      (maps (nfs_server_tc default_nfs_config nfs_env_ok test_txt_cached
         (udp_frame 2049 getattr_test_txt_call))) test_txt_literal) = Some 0"
proof -
  have a: "decision (fileserver_ingress default_fileserver_config ingress_env_ok
      (maps_caching ''foo.txt'') (tcp_frame 8080 get_foo)) = NotFound \<and>
   file_cache (maps (fileserver_ingress default_fileserver_config ingress_env_ok
      (maps_caching ''foo.txt'') (tcp_frame 8080 get_foo))) = file_cache (maps_caching ''foo.txt'')"
    using ingress_request_not_found[of ingress_env_ok default_fileserver_config
        "request_method (tcp_frame 8080 get_foo)" get_foo 21 "maps_caching ''foo.txt''"
        "tcp_frame 8080 get_foo"]
    by (simp add: fileserver_ingress_recognized get_foo_frame_recognized get_foo_frame_method
        tcp_frame_payload_offset tcp_frame_payload tcp_frame_payload_len get_foo_length
        get_foo_filename foo_not_exists ingress_env_ok_def default_fileserver_config_def)
  obtain ce where ce: "nfs_file_cache test_txt_cached = [(test_txt_literal, ce)]"
      "ce_valid ce = 1" "ce_cache_time ce = 0" "ce_cache_hits ce = 0"
    using test_txt_cached_tables by blast
  have l: "lookup_file_cache test_txt_cached test_txt_literal = Some ce"
    by (simp add: lookup_file_cache_def bpf_map_lookup_elem_def ce)
  have h: "bpf_map_lookup_elem (fh_to_name test_txt_cached)
     (generate_nfs_file_handle test_txt_literal zero_fh) = Some test_txt_literal"
    by (simp add: test_txt_cached_tables bpf_map_lookup_elem_def)
  have b: "decision (nfs_server_tc default_nfs_config nfs_env_ok test_txt_cached
      (udp_frame 2049 getattr_test_txt_call)) = ForwardToControlPlane \<and>
     nfs_file_cache (maps (nfs_server_tc default_nfs_config nfs_env_ok test_txt_cached
      (udp_frame 2049 getattr_test_txt_call))) = nfs_file_cache test_txt_cached"
    using nfs_server_tc_reachable[OF test_txt_cached_reachable, of
        "udp_frame 2049 getattr_test_txt_call" default_nfs_config nfs_env_ok]
      getattr_test_txt_frame
    by (simp add: nfs_env_ok_def NFSPROC3_GETATTR_def NFSPROC3_NULL_def)
  then have c: "lookup_file_cache
      (maps (nfs_server_tc default_nfs_config nfs_env_ok test_txt_cached
         (udp_frame 2049 getattr_test_txt_call))) test_txt_literal = Some ce"
    using l by (simp add: lookup_file_cache_def)
  have k: "ktime_ttl nfs_env_ok = 1002 \<and> nfs_cache_ttl_seconds default_nfs_config = 300"
    by (simp add: nfs_env_ok_def default_nfs_config_def)
  show ?thesis
    using a b k getattr_test_txt_frame
    by (simp add: get_foo_frame_recognized get_foo_frame_method get_foo_frame_filename
        index_cached_lookup cached_file_def l c h ce)
qed

section \<open>What kernel-served means\<close>

lemma nfs_call_kernel_served:
  assumes "decision (nfs_call cfg env m skb ip port rpc) = KernelServed"
  shows "nfs_stats (maps (nfs_call cfg env m skb ip port rpc)) =
           update_stats (update_stats (nfs_stats m) 1 1) 0 1 \<and>
         (\<exists>ev. nfs_events (maps (nfs_call cfg env m skb ip port rpc)) =
                 nfs_events m @
                 [NfsRequest ((new_nfs_request ip port rpc)\<lparr>rq_processed_in_kernel := 1\<rparr>),
                  NfsEvent ev] \<and>
               ev_result ev = NFS_OP_SUCCESS \<and> ev_forwarded_to_user ev = 0)"
proof -
  have "decision (nfs_call cfg env m skb ip port rpc) = ChannelFull"
    if "\<not> reserve_nfs_request env \<or> \<not> reserve_nfs_event env"
    using nfs_call_channel_full[OF that, of cfg m skb ip port rpc] by simp
  with assms have r: "reserve_nfs_request env" "reserve_nfs_event env"
    by auto
  let ?d = "nfs_dispatch cfg env (snd (track_client env m ip)) (rh_procedure rpc)
              (new_nfs_request ip port rpc) (new_nfs_event env ip port rpc)"
  from assms r have h: "fst ?d \<noteq> 0"
    by (simp add: nfs_call_decision split: if_splits)
  note d = nfs_dispatch_result[of cfg env "snd (track_client env m ip)" "rh_procedure rpc"
        "new_nfs_request ip port rpc" "new_nfs_event env ip port rpc"]
  have ev: "nfs_events (maps (nfs_call cfg env m skb ip port rpc)) =
          nfs_events m @ [NfsRequest ((new_nfs_request ip port rpc)\<lparr>rq_processed_in_kernel := 1\<rparr>),
                          NfsEvent (fst (snd ?d))]"
    using r h d
    by (simp add: nfs_call_def Let_def case_prod_beta write_client_state_fields
        track_client_fields)
  have st: "nfs_stats (maps (nfs_call cfg env m skb ip port rpc)) =
           update_stats (update_stats (nfs_stats m) 1 1) 0 1"
    using r h d
    by (simp add: nfs_call_def Let_def case_prod_beta write_client_state_fields
        track_client_fields)
  show ?thesis
    using ev st h d by auto
qed

text \<open>
  Claim C1, as amended. For a request the handler decides kernel-served, the engine
  sends nothing and does not consume the frame: the verdict is \<open>TC_ACT_OK\<close> and the frame
  goes on, unmodified, along the normal network path. What the engine does is keep
  books. In the file-fetch handler the key has a valid cache entry, the total and
  kernel-served counters each grow by one, and the ring receives, if the reservation of
  the file event succeeds, a file event with result success and the size recorded in that
  entry, and then the request record marked processed-in-kernel. In the
  remote-filesystem handler the kernel-served and total counters each grow by one and
  the ring receives the request record marked processed-in-kernel and the operation event
  with result success and forwarded flag 0; in a state reached from the empty maps by
  frames and refreshes the request is a call of the NULL procedure and the cache is not
  touched.
\<close>

theorem kernel_served_is_recorded_not_answered:
  "(decision (fileserver_ingress cfg env m skb) = KernelServed \<longrightarrow>
      verdict (fileserver_ingress cfg env m skb) = TC_ACT_OK \<and>
      skb_out (fileserver_ingress cfg env m skb) = skb \<and>
      (\<exists>e. bpf_map_lookup_elem (file_cache m) (request_filename skb) = Some e \<and>
           fc_valid e \<noteq> 0 \<and>
           stats (maps (fileserver_ingress cfg env m skb)) =
             update_stats (update_stats (stats m) 0 1) 1 1 \<and>
           events (maps (fileserver_ingress cfg env m skb)) =
             events m @
             (if reserve_file_event env then
                [FileEvent \<lparr>fe_client_addr = ip_saddr skb,
                   fe_client_port = be16 skb (transport_offset skb),
                   fe_operation = FILE_OP_SUCCESS, fe_filename = request_filename skb,
                   fe_file_size = fc_file_size e, fe_timestamp = ktime_file_event env,
                   fe_forwarded_to_user = 0\<rparr>]
              else []) @
             [HttpRequest ((new_http_request (ip_saddr skb) (be16 skb (transport_offset skb))
                              (request_method skb) (request_filename skb))
                             \<lparr>hr_processed_in_kernel := 1\<rparr>)])) \<and>
   (decision (nfs_server_tc cfg' env' m' skb') = KernelServed \<longrightarrow>
      verdict (nfs_server_tc cfg' env' m' skb') = TC_ACT_OK \<and>
      skb_out (nfs_server_tc cfg' env' m' skb') = skb' \<and>
      nfs_stats (maps (nfs_server_tc cfg' env' m' skb')) =
        update_stats (update_stats (nfs_stats m') 1 1) 0 1 \<and>
      (\<exists>ev. nfs_events (maps (nfs_server_tc cfg' env' m' skb')) =
              nfs_events m' @
              [NfsRequest ((new_nfs_request (ip_saddr skb') (be16 skb' (transport_offset skb'))
                              (request_rpc skb'))\<lparr>rq_processed_in_kernel := 1\<rparr>),
               NfsEvent ev] \<and>
            ev_result ev = NFS_OP_SUCCESS \<and> ev_forwarded_to_user ev = 0)) \<and>
   (nfs_reachable m' \<and> decision (nfs_server_tc cfg' env' m' skb') = KernelServed \<longrightarrow>
      request_procedure skb' = NFSPROC3_NULL \<and>
      nfs_file_cache (maps (nfs_server_tc cfg' env' m' skb')) = nfs_file_cache m')"
proof -
  have http: "\<exists>e. bpf_map_lookup_elem (file_cache m) (request_filename skb) = Some e \<and>
           fc_valid e \<noteq> 0 \<and>
           stats (maps (fileserver_ingress cfg env m skb)) =
             update_stats (update_stats (stats m) 0 1) 1 1 \<and>
           events (maps (fileserver_ingress cfg env m skb)) =
             events m @
             (if reserve_file_event env then
                [FileEvent \<lparr>fe_client_addr = ip_saddr skb,
                   fe_client_port = be16 skb (transport_offset skb),
                   fe_operation = FILE_OP_SUCCESS, fe_filename = request_filename skb,
                   fe_file_size = fc_file_size e, fe_timestamp = ktime_file_event env,
                   fe_forwarded_to_user = 0\<rparr>]
              else []) @
             [HttpRequest ((new_http_request (ip_saddr skb) (be16 skb (transport_offset skb))
                              (request_method skb) (request_filename skb))
                             \<lparr>hr_processed_in_kernel := 1\<rparr>)]"
    if d: "decision (fileserver_ingress cfg env m skb) = KernelServed"
  proof -
    from d have c: "http_recognized skb" "reserve_req_event env"
        "enable_kernel_processing cfg \<noteq> 0" "request_method skb = HTTP_GET"
        "check_file_exists (request_filename skb) \<noteq> 0"
      by (auto simp: fileserver_ingress_decision split: if_splits)
    from d c obtain e where e: "bpf_map_lookup_elem (file_cache m) (request_filename skb) = Some e"
        "fc_valid e \<noteq> 0"
      by (auto simp: fileserver_ingress_decision split: if_splits option.splits)
    show ?thesis
      using c e
        ingress_request_kernel_served[of env cfg "request_method skb"
          "drop (http_payload_offset skb) skb" "http_payload_len skb" m e skb "ip_saddr skb"
          "be16 skb (transport_offset skb)"]
      by (simp add: fileserver_ingress_recognized request_filename_def)
  qed
  have rec: "nfs_recognized skb'"
    if d: "decision (nfs_server_tc cfg' env' m' skb') = KernelServed"
    using d by (cases "nfs_recognized skb'") (simp_all add: nfs_server_tc_pass)
  have nfs: "nfs_stats (maps (nfs_server_tc cfg' env' m' skb')) =
        update_stats (update_stats (nfs_stats m') 1 1) 0 1 \<and>
      (\<exists>ev. nfs_events (maps (nfs_server_tc cfg' env' m' skb')) =
              nfs_events m' @
              [NfsRequest ((new_nfs_request (ip_saddr skb') (be16 skb' (transport_offset skb'))
                              (request_rpc skb'))\<lparr>rq_processed_in_kernel := 1\<rparr>),
               NfsEvent ev] \<and>
            ev_result ev = NFS_OP_SUCCESS \<and> ev_forwarded_to_user ev = 0)"
    if d: "decision (nfs_server_tc cfg' env' m' skb') = KernelServed"
    using d rec[OF d]
      nfs_call_kernel_served[of cfg' env' m' skb' "ip_saddr skb'"
          "be16 skb' (transport_offset skb')" "request_rpc skb'"]
    by (simp add: nfs_server_tc_recognized)
  have null: "request_procedure skb' = NFSPROC3_NULL \<and>
      nfs_file_cache (maps (nfs_server_tc cfg' env' m' skb')) = nfs_file_cache m'"
    if r: "nfs_reachable m'" and d: "decision (nfs_server_tc cfg' env' m' skb') = KernelServed"
    using d nfs_server_tc_reachable[OF r rec[OF d], of cfg' env']
    by (auto split: if_splits)
  show ?thesis
    using http nfs null fileserver_ingress_verdict[of cfg env m skb]
      nfs_server_tc_verdict[of cfg' env' m' skb']
    by blast
qed

lemma null_frame_recognized:
  "nfs_recognized (udp_frame 2049 null_call) \<and> request_procedure (udp_frame 2049 null_call) = 0"
  by (simp add: nfs_recognized_def udp_frame_match null_call_def rpc_frame_envelope
      rpc_frame_procedure)

lemma null_call_served:
  "decision (nfs_server_tc default_nfs_config nfs_env_ok nfs_maps_init (udp_frame 2049 null_call)) =
     KernelServed"
  using null_frame_recognized
  by (simp add: nfs_server_tc_recognized nfs_call_decision nfs_env_ok_def nfs_dispatch_def
      default_nfs_config_def request_rpc_procedure NFSPROC3_NULL_def)

lemma update_stats_zeros: "update_stats (update_stats (replicate 16 0) 1 1) 0 1 ! 1 = 1"
  by (simp add: update_stats_def)

text \<open>
  The witness: \<open>GET /\<close> with \<open>index.html\<close> cached, and the NULL procedure in the empty
  maps, are kernel-served; both frames get \<open>TC_ACT_OK\<close> and stay as they are, and the
  kernel-served counter of the remote-filesystem handler goes from 0 to 1.
\<close>

theorem kernel_served_is_recorded_not_answered_witness:
  "decision (fileserver_ingress default_fileserver_config ingress_env_ok
      (maps_caching ''index.html'') (tcp_frame 8080 get_root)) = KernelServed \<and>
   verdict (fileserver_ingress default_fileserver_config ingress_env_ok
      (maps_caching ''index.html'') (tcp_frame 8080 get_root)) = TC_ACT_OK \<and>
   skb_out (fileserver_ingress default_fileserver_config ingress_env_ok
      (maps_caching ''index.html'') (tcp_frame 8080 get_root)) = tcp_frame 8080 get_root \<and>
   nfs_reachable nfs_maps_init \<and>
   decision (nfs_server_tc default_nfs_config nfs_env_ok nfs_maps_init
      (udp_frame 2049 null_call)) = KernelServed \<and>
   verdict (nfs_server_tc default_nfs_config nfs_env_ok nfs_maps_init
      (udp_frame 2049 null_call)) = TC_ACT_OK \<and>
   skb_out (nfs_server_tc default_nfs_config nfs_env_ok nfs_maps_init
      (udp_frame 2049 null_call)) = udp_frame 2049 null_call \<and>
   nfs_stats (maps (nfs_server_tc default_nfs_config nfs_env_ok nfs_maps_init
      (udp_frame 2049 null_call))) ! 1 = 1 \<and>
   nfs_file_cache (maps (nfs_server_tc default_nfs_config nfs_env_ok nfs_maps_init
      (udp_frame 2049 null_call))) = []"
proof -
  let ?h = "fileserver_ingress default_fileserver_config ingress_env_ok
      (maps_caching ''index.html'') (tcp_frame 8080 get_root)"
  let ?n = "nfs_server_tc default_nfs_config nfs_env_ok nfs_maps_init (udp_frame 2049 null_call)"
  have s: "nfs_stats nfs_maps_init = replicate 16 0" "nfs_file_cache nfs_maps_init = []"
    by (simp_all add: nfs_maps_init_def)
  note t = kernel_served_is_recorded_not_answered[of default_fileserver_config ingress_env_ok
        "maps_caching ''index.html''" "tcp_frame 8080 get_root" default_nfs_config nfs_env_ok
        nfs_maps_init "udp_frame 2049 null_call"]
  from t get_root_hit have h: "verdict ?h = TC_ACT_OK \<and> skb_out ?h = tcp_frame 8080 get_root"
    by blast
  from t null_call_served nfs_start
  have n: "verdict ?n = TC_ACT_OK \<and> skb_out ?n = udp_frame 2049 null_call \<and>
      nfs_stats (maps ?n) = update_stats (update_stats (nfs_stats nfs_maps_init) 1 1) 0 1 \<and>
      nfs_file_cache (maps ?n) = nfs_file_cache nfs_maps_init"
    by blast
  then have "nfs_stats (maps ?n) = update_stats (update_stats (replicate 16 0) 1 1) 0 1"
    by (simp only: s)
  then have c: "nfs_stats (maps ?n) ! 1 = 1"
    by (simp only: update_stats_zeros)
  from n have f: "nfs_file_cache (maps ?n) = []"
    by (simp only: s)
  from h n c f get_root_hit null_call_served nfs_start show ?thesis
    by blast
qed

text \<open>
  Claim C1 as stated fails at a cache hit: the request for the cached \<open>index.html\<close> is
  decided kernel-served, yet the verdict is \<open>TC_ACT_OK\<close>, not a terminal one such as
  \<open>TC_ACT_SHOT\<close>, and the handler's only outputs are the verdict, the maps and the
  unchanged frame, so the frame continues along the normal network path and the engine
  sends nothing to the client.
\<close>

theorem kernel_served_frame_not_terminal:
  "decision (fileserver_ingress default_fileserver_config ingress_env_ok
      (maps_caching ''index.html'') (tcp_frame 8080 get_root)) = KernelServed \<and>
   verdict (fileserver_ingress default_fileserver_config ingress_env_ok
      (maps_caching ''index.html'') (tcp_frame 8080 get_root)) = TC_ACT_OK \<and>
   verdict (fileserver_ingress default_fileserver_config ingress_env_ok
      (maps_caching ''index.html'') (tcp_frame 8080 get_root)) \<noteq> TC_ACT_SHOT \<and>
   skb_out (fileserver_ingress default_fileserver_config ingress_env_ok
      (maps_caching ''index.html'') (tcp_frame 8080 get_root)) = tcp_frame 8080 get_root"
  using get_root_hit
  by (simp add: fileserver_ingress_verdict TC_ACT_OK_def TC_ACT_SHOT_def)

section \<open>Expiry of cache entries\<close>

text \<open>
  Neither handler's result depends on the configured TTL, and the clock enters only the
  time stamps of records and trackers: the file-fetch handler never reads
  \<^verbatim>\<open>cache_ttl_seconds\<close>, and in a reachable state the remote-filesystem handler does not get
  as far as the TTL test of \<^verbatim>\<open>handle_nfs_getattr\<close>.
\<close>

lemma nfs_call_clock_free:
  assumes z: "bpf_map_lookup_elem (fh_to_name m) zero_fh = None"
  shows "nfs_call (cfg\<lparr>nfs_cache_ttl_seconds := t\<rparr>) (env\<lparr>ktime_ttl := now\<rparr>)
           m skb ip port rpc =
         nfs_call cfg env m skb ip port rpc"
proof -
  let ?env = "env\<lparr>ktime_ttl := now\<rparr>"
  let ?cfg = "cfg\<lparr>nfs_cache_ttl_seconds := t\<rparr>"
  have tc: "track_client ?env m ip = track_client env m ip"
    by (simp add: track_client_def Let_def split: option.splits)
  have ev: "new_nfs_event ?env ip port rpc = new_nfs_event env ip port rpc"
    by (simp add: new_nfs_event_def)
  have z': "bpf_map_lookup_elem (fh_to_name (snd (track_client env m ip))) zero_fh = None"
    using z by (simp add: track_client_fields)
  have q: "rq_fh (new_nfs_request ip port rpc) = zero_fh"
    by (simp add: new_nfs_request_def)
  have d: "nfs_dispatch ?cfg ?env (snd (track_client env m ip)) (rh_procedure rpc)
             (new_nfs_request ip port rpc) (new_nfs_event env ip port rpc) =
           nfs_dispatch cfg env (snd (track_client env m ip)) (rh_procedure rpc)
             (new_nfs_request ip port rpc) (new_nfs_event env ip port rpc)"
    by (simp add: nfs_dispatch_zero_handle[OF z' q])
  show ?thesis
    by (simp add: nfs_call_def Let_def case_prod_beta tc ev d)
qed

lemma nfs_server_tc_clock_free:
  assumes "nfs_reachable m"
  shows "nfs_server_tc (cfg\<lparr>nfs_cache_ttl_seconds := t\<rparr>) (env\<lparr>ktime_ttl := now\<rparr>) m skb =
         nfs_server_tc cfg env m skb"
  by (cases "nfs_recognized skb")
     (simp_all add: nfs_server_tc_pass nfs_server_tc_recognized
        nfs_call_clock_free[OF nfs_reachable_zero_handle[OF assms]])

lemma ingress_request_ttl_free:
  "ingress_request (cfg\<lparr>cache_ttl_seconds := t\<rparr>) env m skb ip port method payload len =
   ingress_request cfg env m skb ip port method payload len"
  by (simp add: ingress_request_def ingress_decide_def Let_def)

lemma fileserver_ingress_ttl_free:
  "fileserver_ingress (cfg\<lparr>cache_ttl_seconds := t\<rparr>) env m skb = fileserver_ingress cfg env m skb"
  by (cases "http_recognized skb")
     (simp_all add: fileserver_ingress_pass fileserver_ingress_recognized ingress_request_ttl_free)

lemma ingress_request_clock_free:
  "decision (ingress_request cfg (env\<lparr>ktime_file_event := a, ktime_conn_track := b\<rparr>) m skb
      ip port method payload len) =
     decision (ingress_request cfg env m skb ip port method payload len) \<and>
   file_cache (maps (ingress_request cfg (env\<lparr>ktime_file_event := a, ktime_conn_track := b\<rparr>)
      m skb ip port method payload len)) =
     file_cache (maps (ingress_request cfg env m skb ip port method payload len)) \<and>
   stats (maps (ingress_request cfg (env\<lparr>ktime_file_event := a, ktime_conn_track := b\<rparr>)
      m skb ip port method payload len)) =
     stats (maps (ingress_request cfg env m skb ip port method payload len))"
  by (simp add: ingress_request_def Let_def ingress_decide_def emit_file_event_def
      case_prod_beta split: option.splits)

lemma fileserver_ingress_clock_free:
  "decision (fileserver_ingress cfg (env\<lparr>ktime_file_event := a, ktime_conn_track := b\<rparr>) m skb) =
     decision (fileserver_ingress cfg env m skb) \<and>
   file_cache (maps (fileserver_ingress cfg (env\<lparr>ktime_file_event := a, ktime_conn_track := b\<rparr>)
      m skb)) = file_cache (maps (fileserver_ingress cfg env m skb)) \<and>
   stats (maps (fileserver_ingress cfg (env\<lparr>ktime_file_event := a, ktime_conn_track := b\<rparr>)
      m skb)) = stats (maps (fileserver_ingress cfg env m skb))"
  by (cases "http_recognized skb")
     (simp_all add: fileserver_ingress_pass fileserver_ingress_recognized
        ingress_request_clock_free)

text \<open>
  Claim C3, as amended. The file-fetch cache hit has no expiry: the result of the handler
  is the same for every value of \<^verbatim>\<open>cache_ttl_seconds\<close>, and its decision, the cache and the
  counters are the same at every clock value. In the remote-filesystem handler no entry is
  eligible to be served: in every state reached from the empty maps by frames and
  refreshes, the result of the handler is the same for every TTL and every clock value at
  the TTL test, and a recognized attribute fetch or read is never decided kernel-served,
  before or after the TTL has passed and before or after a refresh; it is forwarded
  whenever both reservations succeed.
\<close>

theorem ttl_enters_no_decision:
  "fileserver_ingress (hcfg\<lparr>cache_ttl_seconds := ht\<rparr>) henv hm hskb =
     fileserver_ingress hcfg henv hm hskb \<and>
   decision (fileserver_ingress hcfg (henv\<lparr>ktime_file_event := a, ktime_conn_track := b\<rparr>)
      hm hskb) = decision (fileserver_ingress hcfg henv hm hskb) \<and>
   file_cache (maps (fileserver_ingress hcfg
      (henv\<lparr>ktime_file_event := a, ktime_conn_track := b\<rparr>) hm hskb)) =
     file_cache (maps (fileserver_ingress hcfg henv hm hskb)) \<and>
   stats (maps (fileserver_ingress hcfg
      (henv\<lparr>ktime_file_event := a, ktime_conn_track := b\<rparr>) hm hskb)) =
     stats (maps (fileserver_ingress hcfg henv hm hskb)) \<and>
   (nfs_reachable m \<longrightarrow>
      nfs_server_tc (cfg\<lparr>nfs_cache_ttl_seconds := t\<rparr>) (env\<lparr>ktime_ttl := now\<rparr>) m skb =
        nfs_server_tc cfg env m skb) \<and>
   (nfs_reachable m \<and> nfs_recognized skb \<and>
    (request_procedure skb = NFSPROC3_GETATTR \<or> request_procedure skb = NFSPROC3_READ) \<longrightarrow>
      decision (nfs_server_tc cfg env m skb) \<noteq> KernelServed \<and>
      (reserve_nfs_request env \<and> reserve_nfs_event env \<longrightarrow>
         decision (nfs_server_tc cfg env m skb) = ForwardToControlPlane) \<and>
      decision (nfs_server_tc cfg env (snd (cache_file_in_kernel_nfs en io m filename)) skb) \<noteq>
        KernelServed)"
proof -
  have fwd: "decision (nfs_server_tc cfg env m' skb) \<noteq> KernelServed \<and>
      (reserve_nfs_request env \<and> reserve_nfs_event env \<longrightarrow>
         decision (nfs_server_tc cfg env m' skb) = ForwardToControlPlane)"
    if "nfs_reachable m'" "nfs_recognized skb"
      "request_procedure skb = NFSPROC3_GETATTR \<or> request_procedure skb = NFSPROC3_READ"
    for m'
    using nfs_server_tc_reachable[OF that(1) that(2), of cfg env] that(3)
    by (auto simp: NFSPROC3_GETATTR_def NFSPROC3_READ_def NFSPROC3_NULL_def)
  have nfs: "decision (nfs_server_tc cfg env m skb) \<noteq> KernelServed \<and>
      (reserve_nfs_request env \<and> reserve_nfs_event env \<longrightarrow>
         decision (nfs_server_tc cfg env m skb) = ForwardToControlPlane) \<and>
      decision (nfs_server_tc cfg env (snd (cache_file_in_kernel_nfs en io m filename)) skb) \<noteq>
        KernelServed"
    if r: "nfs_reachable m" and s: "nfs_recognized skb"
      and p: "request_procedure skb = NFSPROC3_GETATTR \<or> request_procedure skb = NFSPROC3_READ"
    using fwd[OF r s p] fwd[OF nfs_refresh[OF r, of en io filename] s p] by blast
  show ?thesis
    using nfs nfs_server_tc_clock_free[where m = m and cfg = cfg and t = t and env = env
        and now = now and skb = skb]
      fileserver_ingress_ttl_free[where cfg = hcfg and t = ht and env = henv and m = hm
        and skb = hskb]
      fileserver_ingress_clock_free[where cfg = hcfg and env = henv and a = a and b = b
        and m = hm and skb = hskb]
    by blast
qed

text \<open>
  The witness: the attribute call for the cached \<open>test.txt\<close>, stamped 0, gives the same
  result with a TTL of 300 seconds at clock value 1002 and with a TTL of 0 at clock value
  1000000000000, and is forwarded; after a refresh at second 2000 it is not kernel-served
  either.
\<close>

theorem ttl_enters_no_decision_witness:
  "nfs_reachable test_txt_cached \<and>
   nfs_server_tc (default_nfs_config\<lparr>nfs_cache_ttl_seconds := 0\<rparr>)
      (nfs_env_ok\<lparr>ktime_ttl := 1000000000000\<rparr>) test_txt_cached
      (udp_frame 2049 getattr_test_txt_call) =
     nfs_server_tc default_nfs_config nfs_env_ok test_txt_cached
      (udp_frame 2049 getattr_test_txt_call) \<and>
   decision (nfs_server_tc default_nfs_config nfs_env_ok test_txt_cached
      (udp_frame 2049 getattr_test_txt_call)) = ForwardToControlPlane \<and>
   decision (nfs_server_tc default_nfs_config nfs_env_ok
      (snd (cache_file_in_kernel_nfs True (regular_file 23 2000) test_txt_cached
         test_txt_literal))
      (udp_frame 2049 getattr_test_txt_call)) \<noteq> KernelServed"
  using ttl_enters_no_decision[where m = test_txt_cached and cfg = default_nfs_config
      and env = nfs_env_ok and skb = "udp_frame 2049 getattr_test_txt_call" and t = 0
      and now = 1000000000000 and en = True and io = "regular_file 23 2000"
      and filename = test_txt_literal
      and hcfg = default_fileserver_config and henv = ingress_env_ok
      and hm = "maps_caching ''index.html''" and hskb = "tcp_frame 8080 get_root"
      and ht = 0 and a = 0 and b = 0]
    test_txt_cached_reachable getattr_test_txt_frame
  by (simp add: nfs_env_ok_def)

text \<open>
  Claim C3 as stated fails for the file-fetch cache hit. With a TTL of 300 seconds the
  request for the cached \<open>index.html\<close> is kernel-served at clock value 1000 and is still
  kernel-served at the last clock value there is, \<open>2 ^ 64 - 1\<close> nanoseconds, with no refresh
  in between; the entry carries no time stamp to compare with.
\<close>

theorem file_fetch_hit_never_expires:
  "cache_ttl_seconds default_fileserver_config = 300 \<and>
   ktime_file_event ingress_env_ok = 1000 \<and>
   decision (fileserver_ingress default_fileserver_config ingress_env_ok
      (maps_caching ''index.html'') (tcp_frame 8080 get_root)) = KernelServed \<and>
   decision (fileserver_ingress default_fileserver_config
      (ingress_env_ok\<lparr>ktime_file_event := 0xFFFFFFFFFFFFFFFF,
                      ktime_conn_track := 0xFFFFFFFFFFFFFFFF\<rparr>)
      (maps_caching ''index.html'') (tcp_frame 8080 get_root)) = KernelServed"
proof -
  have e: "decision (fileserver_ingress default_fileserver_config
      (ingress_env_ok\<lparr>ktime_file_event := 0xFFFFFFFFFFFFFFFF,
                      ktime_conn_track := 0xFFFFFFFFFFFFFFFF\<rparr>)
      (maps_caching ''index.html'') (tcp_frame 8080 get_root)) =
    decision (fileserver_ingress default_fileserver_config ingress_env_ok
      (maps_caching ''index.html'') (tcp_frame 8080 get_root))"
    by (simp add: fileserver_ingress_clock_free)
  have k: "cache_ttl_seconds default_fileserver_config = 300 \<and>
      ktime_file_event ingress_env_ok = 1000"
    by (simp add: default_fileserver_config_def ingress_env_ok_def)
  show ?thesis
    by (simp only: e get_root_hit k)
qed

section \<open>The invariant of cache entries\<close>

text \<open>
  The handlers write only the hit counter of an entry, so whatever does not depend on
  the hit counter is the same before and after a frame.
\<close>

lemma handle_nfs_getattr_keeps:
  assumes "\<And>e h. f (e\<lparr>ce_cache_hits := h\<rparr>) = f e"
  shows "map_option f (lookup_file_cache (snd (snd (handle_nfs_getattr cfg now stack m req ev))) k) =
     map_option f (lookup_file_cache m k)"
  using assms
  by (auto simp: handle_nfs_getattr_def Let_def lookup_file_cache_def lookup_write_elem
      split: option.splits)

lemma handle_nfs_read_keeps:
  assumes "\<And>e h. f (e\<lparr>ce_cache_hits := h\<rparr>) = f e"
  shows "map_option f (lookup_file_cache (snd (snd (handle_nfs_read stack m req ev))) k) =
     map_option f (lookup_file_cache m k)"
  using assms
  by (auto simp: handle_nfs_read_def Let_def lookup_file_cache_def lookup_write_elem
      split: option.splits)

lemma nfs_dispatch_keeps:
  assumes "\<And>e h. f (e\<lparr>ce_cache_hits := h\<rparr>) = f e"
  shows "map_option f (lookup_file_cache (snd (snd (nfs_dispatch cfg env m p req ev))) k) =
     map_option f (lookup_file_cache m k)"
  using handle_nfs_getattr_keeps[of f cfg "ktime_ttl env" "stack_filename env" m req ev k, OF assms]
    handle_nfs_read_keeps[of f "stack_filename env" m req ev k, OF assms]
  by (simp add: nfs_dispatch_def lookup_file_cache_def)

lemma nfs_call_keeps:
  assumes "\<And>e h. f (e\<lparr>ce_cache_hits := h\<rparr>) = f e"
  shows "map_option f (lookup_file_cache (maps (nfs_call cfg env m skb ip port rpc)) k) =
     map_option f (lookup_file_cache m k)"
proof (cases "reserve_nfs_request env \<and> reserve_nfs_event env")
  case True
  let ?d = "nfs_dispatch cfg env (snd (track_client env m ip)) (rh_procedure rpc)
              (new_nfs_request ip port rpc) (new_nfs_event env ip port rpc)"
  have c: "nfs_file_cache (maps (nfs_call cfg env m skb ip port rpc)) = nfs_file_cache (snd (snd ?d))"
    using True by (simp add: nfs_call_file_cache)
  show ?thesis
    using nfs_dispatch_keeps[of f cfg env "snd (track_client env m ip)" "rh_procedure rpc"
        "new_nfs_request ip port rpc" "new_nfs_event env ip port rpc" k, OF assms] c
    by (simp add: lookup_file_cache_def track_client_fields)
next
  case False
  then show ?thesis
    using nfs_call_channel_full[of env cfg m skb ip port rpc]
    by (auto simp: lookup_file_cache_def track_client_fields)
qed

lemma nfs_server_tc_keeps:
  assumes "\<And>e h. f (e\<lparr>ce_cache_hits := h\<rparr>) = f e"
  shows "map_option f (lookup_file_cache (maps (nfs_server_tc cfg env m skb)) k) =
     map_option f (lookup_file_cache m k)"
  using nfs_call_keeps[of f, OF assms]
  by (cases "nfs_recognized skb") (simp_all add: nfs_server_tc_pass nfs_server_tc_recognized)

lemma nfs_entry_inv_hits: "nfs_entry_inv (e\<lparr>ce_cache_hits := h\<rparr>) = nfs_entry_inv e"
  by (simp add: nfs_entry_inv_def)

lemma unat_of_nat_small32: "n \<le> 8192 \<Longrightarrow> unat (of_nat n :: u32) = n"
  by (simp add: unat_of_nat)

lemma unat_of_nat_small64: "n \<le> 8192 \<Longrightarrow> unat (of_nat n :: u64) = n"
  by (simp add: unat_of_nat)

lemma new_nfs_cache_entry_inv:
  assumes "st_size st \<le> MAX_NFS_DATA_SIZE" "length (take (st_size st) bs) = st_size st"
  shows "nfs_entry_inv (new_nfs_cache_entry st bs now filename) \<and>
         unat (ce_data_size (new_nfs_cache_entry st bs now filename)) = st_size st \<and>
         length (ce_data (new_nfs_cache_entry st bs now filename)) = st_size st"
proof -
  from assms(1) have s: "st_size st \<le> 8192" by (simp add: MAX_NFS_DATA_SIZE_def)
  show ?thesis
    using assms s
    by (simp add: nfs_entry_inv_def new_nfs_cache_entry_def unat_of_nat_small32
        unat_of_nat_small64 MAX_NFS_DATA_SIZE_def)
qed

lemma cache_file_in_kernel_nfs_cache_cases:
  "nfs_file_cache (snd (cache_file_in_kernel_nfs en io m filename)) = nfs_file_cache m \<or>
   (\<exists>st bs c. io_stat io = Some st \<and> st_size st \<le> MAX_NFS_DATA_SIZE \<and>
      length (take (st_size st) bs) = st_size st \<and>
      bpf_map_update_elem 1024 (nfs_file_cache m) (take MAX_FILENAME_LEN filename)
        (new_nfs_cache_entry st bs (io_time io) filename) = Some c \<and>
      nfs_file_cache (snd (cache_file_in_kernel_nfs en io m filename)) = c)"
proof -
  from cache_file_in_kernel_nfs_cases[of en io m filename]
  consider "snd (cache_file_in_kernel_nfs en io m filename) = m"
    | st bs name c where "io_stat io = Some st" "st_size st \<le> MAX_NFS_DATA_SIZE"
        "length (take (st_size st) bs) = st_size st" "name_bytes_at filename = Some name"
        "bpf_map_update_elem 1024 (nfs_file_cache m) name
           (new_nfs_cache_entry st bs (io_time io) filename) = Some c"
        "nfs_file_cache (snd (cache_file_in_kernel_nfs en io m filename)) = c"
    by auto
  then show ?thesis
  proof cases
    case 1
    then show ?thesis by simp
  next
    case 2
    from 2(4) have "name = take MAX_FILENAME_LEN filename"
      by (simp add: name_bytes_at_def split: if_splits)
    with 2 show ?thesis by blast
  qed
qed

lemma ingress_request_keeps:
  assumes "\<And>e h. f (e\<lparr>fc_cache_hits := h\<rparr>) = f e"
  shows "map_option f (bpf_map_lookup_elem
           (file_cache (maps (ingress_request cfg env m skb ip port method payload len))) k) =
         map_option f (bpf_map_lookup_elem (file_cache m) k)"
  using assms
  by (simp add: ingress_request_def Let_def ingress_decide_def emit_file_event_def
      lookup_write_elem case_prod_beta split: option.splits)

lemma fileserver_ingress_keeps:
  assumes "\<And>e h. f (e\<lparr>fc_cache_hits := h\<rparr>) = f e"
  shows "map_option f (bpf_map_lookup_elem (file_cache (maps (fileserver_ingress cfg env m skb))) k) =
         map_option f (bpf_map_lookup_elem (file_cache m) k)"
  using ingress_request_keeps[of f, OF assms]
  by (cases "http_recognized skb")
     (simp_all add: fileserver_ingress_pass fileserver_ingress_recognized)

lemma file_entry_inv_hits: "file_entry_inv (e\<lparr>fc_cache_hits := h\<rparr>) = file_entry_inv e"
  by (simp add: file_entry_inv_def)

lemma new_file_cache_entry_inv:
  assumes "st_size st \<le> MAX_PACKET_SIZE" "length (take (st_size st) bs) = st_size st"
  shows "file_entry_inv (new_file_cache_entry st bs filename) \<and>
         unat (fc_file_size (new_file_cache_entry st bs filename)) = st_size st \<and>
         length (fc_cached_data (new_file_cache_entry st bs filename)) = st_size st"
proof -
  from assms(1) have s: "st_size st \<le> 1024" by (simp add: MAX_PACKET_SIZE_def)
  then have "unat (of_nat (st_size st) :: u32) = st_size st" by (simp add: unat_of_nat)
  then show ?thesis
    using assms
    by (simp add: file_entry_inv_def new_file_cache_entry_def Let_def)
qed

lemma cache_file_in_kernel_http_cases:
  "file_cache (snd (cache_file_in_kernel_http en io m filename)) = file_cache m \<or>
   (\<exists>st bs c. io_stat io = Some st \<and> st_size st \<le> MAX_PACKET_SIZE \<and>
      length (take (st_size st) bs) = st_size st \<and>
      bpf_map_update_elem 1024 (file_cache m) filename
        (new_file_cache_entry st bs filename) = Some c \<and>
      file_cache (snd (cache_file_in_kernel_http en io m filename)) = c)"
proof (cases "io_stat io")
  case None
  then show ?thesis by (simp add: cache_file_in_kernel_http_def)
next
  case (Some st)
  note st = this
  show ?thesis
  proof (cases "io_read io")
    case None
    with st show ?thesis by (simp add: cache_file_in_kernel_http_def)
  next
    case (Some bs)
    note bs = this
    show ?thesis
    proof (cases "bpf_map_update_elem 1024 (file_cache m) filename
                    (new_file_cache_entry st bs filename)")
      case None
      with st bs show ?thesis by (simp add: cache_file_in_kernel_http_def)
    next
      case (Some c)
      note c = this
      show ?thesis
      proof (cases "en \<and> S_ISREG (st_mode st) \<and> st_size st \<le> MAX_PACKET_SIZE \<and> io_open io \<and>
                    length (take (st_size st) bs) = st_size st")
        case False
        with st bs show ?thesis by (auto simp add: cache_file_in_kernel_http_def)
      next
        case True
        then have "file_cache (snd (cache_file_in_kernel_http en io m filename)) = c"
          using st bs c by (simp add: cache_file_in_kernel_http_def)
        with True st c show ?thesis by blast
      qed
    qed
  qed
qed

lemma nfs_reachable_inv:
  "nfs_reachable m \<Longrightarrow> lookup_file_cache m k = Some e \<Longrightarrow> nfs_entry_inv e"
proof (induction arbitrary: k e rule: nfs_reachable.induct)
  case nfs_start
  then show ?case
    by (simp add: nfs_maps_init_def lookup_file_cache_def bpf_map_lookup_elem_def)
next
  case (nfs_frame m cfg env skb)
  from nfs_server_tc_keeps[of nfs_entry_inv cfg env m skb k, OF nfs_entry_inv_hits]
    nfs_frame.prems
  obtain e' where "lookup_file_cache m k = Some e'" "nfs_entry_inv e' = nfs_entry_inv e"
    by (cases "lookup_file_cache m k") auto
  with nfs_frame.IH show ?case by blast
next
  case (nfs_refresh m enable io filename)
  let ?r = "snd (cache_file_in_kernel_nfs enable io m filename)"
  from cache_file_in_kernel_nfs_cache_cases[of enable io m filename]
  consider "nfs_file_cache ?r = nfs_file_cache m"
    | st bs c where "st_size st \<le> MAX_NFS_DATA_SIZE" "length (take (st_size st) bs) = st_size st"
        "bpf_map_update_elem 1024 (nfs_file_cache m) (take MAX_FILENAME_LEN filename)
           (new_nfs_cache_entry st bs (io_time io) filename) = Some c"
        "nfs_file_cache ?r = c"
    by blast
  then show ?case
  proof cases
    case 1
    with nfs_refresh.prems have "lookup_file_cache m k = Some e"
      by (simp add: lookup_file_cache_def)
    then show ?thesis by (rule nfs_refresh.IH)
  next
    case 2
    from nfs_refresh.prems 2(4) lookup_update_elem[OF 2(3), of k]
    have "e = new_nfs_cache_entry st bs (io_time io) filename \<or> lookup_file_cache m k = Some e"
      by (simp add: lookup_file_cache_def split: if_splits)
    then show ?thesis
      using new_nfs_cache_entry_inv[OF 2(1) 2(2)] nfs_refresh.IH by blast
  qed
qed

lemma fileserver_reachable_inv:
  "fileserver_reachable m \<Longrightarrow> bpf_map_lookup_elem (file_cache m) k = Some e \<Longrightarrow>
   file_entry_inv e"
proof (induction arbitrary: k e rule: fileserver_reachable.induct)
  case fileserver_start
  then show ?case
    by (simp add: fileserver_maps_init_def bpf_map_lookup_elem_def)
next
  case (fileserver_frame m cfg env skb)
  from fileserver_ingress_keeps[of file_entry_inv cfg env m skb k, OF file_entry_inv_hits]
    fileserver_frame.prems
  obtain e' where "bpf_map_lookup_elem (file_cache m) k = Some e'"
      "file_entry_inv e' = file_entry_inv e"
    by (cases "bpf_map_lookup_elem (file_cache m) k") auto
  with fileserver_frame.IH show ?case by blast
next
  case (fileserver_refresh m enable io filename)
  let ?r = "snd (cache_file_in_kernel_http enable io m filename)"
  from cache_file_in_kernel_http_cases[of enable io m filename]
  consider "file_cache ?r = file_cache m"
    | st bs c where "st_size st \<le> MAX_PACKET_SIZE" "length (take (st_size st) bs) = st_size st"
        "bpf_map_update_elem 1024 (file_cache m) filename
           (new_file_cache_entry st bs filename) = Some c"
        "file_cache ?r = c"
    by blast
  then show ?case
  proof cases
    case 1
    with fileserver_refresh.prems have "bpf_map_lookup_elem (file_cache m) k = Some e"
      by simp
    then show ?thesis by (rule fileserver_refresh.IH)
  next
    case 2
    from fileserver_refresh.prems 2(4) lookup_update_elem[OF 2(3), of k]
    have "e = new_file_cache_entry st bs filename \<or>
          bpf_map_lookup_elem (file_cache m) k = Some e"
      by (simp split: if_splits)
    then show ?thesis
      using new_file_cache_entry_inv[OF 2(1) 2(2)] fileserver_refresh.IH by blast
  qed
qed

lemma cache_file_in_kernel_nfs_installs:
  assumes "nfs_file_cache (snd (cache_file_in_kernel_nfs en io m filename)) \<noteq> nfs_file_cache m"
  shows "\<exists>st ce. io_stat io = Some st \<and> st_size st \<le> MAX_NFS_DATA_SIZE \<and>
           lookup_file_cache (snd (cache_file_in_kernel_nfs en io m filename))
             (take MAX_FILENAME_LEN filename) = Some ce \<and>
           unat (ce_data_size ce) = st_size st \<and> length (ce_data ce) = st_size st"
proof -
  from cache_file_in_kernel_nfs_cache_cases[of en io m filename] assms
  obtain st bs c where s: "io_stat io = Some st" "st_size st \<le> MAX_NFS_DATA_SIZE"
      "length (take (st_size st) bs) = st_size st"
    and u: "bpf_map_update_elem 1024 (nfs_file_cache m) (take MAX_FILENAME_LEN filename)
           (new_nfs_cache_entry st bs (io_time io) filename) = Some c"
    and c: "nfs_file_cache (snd (cache_file_in_kernel_nfs en io m filename)) = c"
    by blast
  have "lookup_file_cache (snd (cache_file_in_kernel_nfs en io m filename))
          (take MAX_FILENAME_LEN filename) =
        Some (new_nfs_cache_entry st bs (io_time io) filename)"
    using lookup_update_elem[OF u, of "take MAX_FILENAME_LEN filename"] c
    by (simp add: lookup_file_cache_def)
  with s new_nfs_cache_entry_inv[OF s(2) s(3), of "io_time io" filename] show ?thesis
    by blast
qed

lemma cache_file_in_kernel_http_installs:
  assumes "file_cache (snd (cache_file_in_kernel_http en io m filename)) \<noteq> file_cache m"
  shows "\<exists>st e. io_stat io = Some st \<and> st_size st \<le> MAX_PACKET_SIZE \<and>
           bpf_map_lookup_elem (file_cache (snd (cache_file_in_kernel_http en io m filename)))
             filename = Some e \<and>
           unat (fc_file_size e) = st_size st \<and> length (fc_cached_data e) = st_size st"
proof -
  from cache_file_in_kernel_http_cases[of en io m filename] assms
  obtain st bs c where s: "io_stat io = Some st" "st_size st \<le> MAX_PACKET_SIZE"
      "length (take (st_size st) bs) = st_size st"
    and u: "bpf_map_update_elem 1024 (file_cache m) filename
           (new_file_cache_entry st bs filename) = Some c"
    and c: "file_cache (snd (cache_file_in_kernel_http en io m filename)) = c"
    by blast
  have "bpf_map_lookup_elem (file_cache (snd (cache_file_in_kernel_http en io m filename)))
          filename = Some (new_file_cache_entry st bs filename)"
    using lookup_update_elem[OF u, of filename] c by simp
  with s new_file_cache_entry_inv[OF s(2) s(3), of filename] show ?thesis
    by blast
qed

text \<open>
  Claim C9, as amended. Every entry found in the cache of a reachable state, of either
  program, satisfies the invariant of its kind: \<open>data_valid\<close> implies \<open>valid\<close> and the
  content is as long as the recorded size, which is at most the capacity of the inline
  buffer. A refresh changes the cache only by installing, under the key it was given (in
  the remote-filesystem cache the \<open>MAX_FILENAME_LEN\<close> bytes at the pointer), an entry of a
  file whose size is at most that capacity, \<open>MAX_NFS_DATA_SIZE\<close> or \<open>MAX_PACKET_SIZE\<close>; no
  configured size takes part.
\<close>

theorem reachable_entries_satisfy_invariant:
  "(nfs_reachable m \<and> lookup_file_cache m k = Some e \<longrightarrow> nfs_entry_inv e) \<and>
   (fileserver_reachable hm \<and> bpf_map_lookup_elem (file_cache hm) hk = Some he \<longrightarrow>
      file_entry_inv he) \<and>
   (nfs_file_cache (snd (cache_file_in_kernel_nfs en io m0 filename)) \<noteq> nfs_file_cache m0 \<longrightarrow>
      (\<exists>st ce. io_stat io = Some st \<and> st_size st \<le> MAX_NFS_DATA_SIZE \<and>
         lookup_file_cache (snd (cache_file_in_kernel_nfs en io m0 filename))
           (take MAX_FILENAME_LEN filename) = Some ce \<and>
         unat (ce_data_size ce) = st_size st \<and> length (ce_data ce) = st_size st)) \<and>
   (file_cache (snd (cache_file_in_kernel_http hen hio hm0 hfilename)) \<noteq> file_cache hm0 \<longrightarrow>
      (\<exists>st he'. io_stat hio = Some st \<and> st_size st \<le> MAX_PACKET_SIZE \<and>
         bpf_map_lookup_elem
           (file_cache (snd (cache_file_in_kernel_http hen hio hm0 hfilename))) hfilename =
           Some he' \<and>
         unat (fc_file_size he') = st_size st \<and> length (fc_cached_data he') = st_size st))"
  using nfs_reachable_inv[of m k e] fileserver_reachable_inv[of hm hk he]
    cache_file_in_kernel_nfs_installs[of en io m0 filename]
    cache_file_in_kernel_http_installs[of hen hio hm0 hfilename]
  by blast

lemma bpf_map_update_elem_empty: "0 < n \<Longrightarrow> bpf_map_update_elem n [] k v = Some [(k, v)]"
  by (simp add: bpf_map_update_elem_def)

lemma index_html_refresh:
  "file_cache (snd (cache_file_in_kernel_http True (regular_file 23 0) fileserver_maps_init
      (filename_buf ''index.html''))) =
   [(filename_buf ''index.html'',
     new_file_cache_entry
       \<lparr>st_mode = 0x81A4, st_nlink = 1, st_uid = 0, st_gid = 0, st_size = 23,
          st_blocks = 8, st_ino = 42, st_atime = 0, st_mtime = 0, st_ctime = 0\<rparr>
       (replicate 23 0x48) (filename_buf ''index.html''))]"
  by (simp add: cache_file_in_kernel_http_def regular_file_def S_ISREG_def MAX_PACKET_SIZE_def
      bpf_map_update_elem_empty fileserver_maps_init_def)

text \<open>
  The witness: \<open>test.txt\<close> and \<open>index.html\<close>, 23 bytes each, cached into the empty maps.
\<close>

theorem reachable_entries_satisfy_invariant_witness:
  "nfs_reachable test_txt_cached \<and>
   map_option nfs_entry_inv (lookup_file_cache test_txt_cached test_txt_literal) = Some True \<and>
   map_option (\<lambda>ce. unat (ce_data_size ce)) (lookup_file_cache test_txt_cached test_txt_literal) = Some 23 \<and>
   fileserver_reachable (snd (cache_file_in_kernel_http True (regular_file 23 0)
      fileserver_maps_init (filename_buf ''index.html''))) \<and>
   map_option file_entry_inv (bpf_map_lookup_elem
      (file_cache (snd (cache_file_in_kernel_http True (regular_file 23 0)
         fileserver_maps_init (filename_buf ''index.html''))))
      (filename_buf ''index.html'')) = Some True"
proof -
  let ?h = "snd (cache_file_in_kernel_http True (regular_file 23 0)
      fileserver_maps_init (filename_buf ''index.html''))"
  obtain ce where ce: "nfs_file_cache test_txt_cached = [(test_txt_literal, ce)]" "ce_data_size ce = 23"
    using test_txt_cached_tables by blast
  have c: "lookup_file_cache test_txt_cached test_txt_literal = Some ce"
    by (simp add: lookup_file_cache_def bpf_map_lookup_elem_def ce)
  obtain he where he: "bpf_map_lookup_elem (file_cache ?h) (filename_buf ''index.html'') = Some he"
    by (simp add: index_html_refresh bpf_map_lookup_elem_def)
  note r = test_txt_cached_reachable
  have hr: "fileserver_reachable ?h"
    by (rule fileserver_refresh[OF fileserver_start])
  have "nfs_file_cache test_txt_cached \<noteq> nfs_file_cache nfs_maps_init"
    using ce by (simp add: nfs_maps_init_def)
  then have n: "nfs_file_cache (snd (cache_file_in_kernel_nfs True (regular_file 23 0)
             nfs_maps_init test_txt_literal)) \<noteq> nfs_file_cache nfs_maps_init"
    unfolding test_txt_cached_def .
  have "file_cache fileserver_maps_init = []"
    by (simp add: fileserver_maps_init_def)
  then have hn: "file_cache ?h \<noteq> file_cache fileserver_maps_init"
    by (simp add: index_html_refresh)
  note t = reachable_entries_satisfy_invariant[where m = test_txt_cached and k = test_txt_literal
      and e = ce and hm = ?h and hk = "filename_buf ''index.html''" and he = he
      and en = True and io = "regular_file 23 0" and ?m0.0 = nfs_maps_init and filename = test_txt_literal
      and hen = True and hio = "regular_file 23 0" and ?hm0.0 = fileserver_maps_init
      and hfilename = "filename_buf ''index.html''"]
  from t n have "\<exists>st. io_stat (regular_file 23 0) = Some st \<and> st_size st \<le> MAX_NFS_DATA_SIZE"
    by blast
  from t hn have "\<exists>st. io_stat (regular_file 23 0) = Some st \<and> st_size st \<le> MAX_PACKET_SIZE"
    by blast
  from t r c have "nfs_entry_inv ce" by blast
  moreover from t hr he have "file_entry_inv he" by blast
  ultimately show ?thesis
    using r hr c he ce by simp
qed

lemma big_file_refresh:
  "nfs_file_cache (snd (cache_file_in_kernel_nfs True (regular_file 5000 0) nfs_maps_init test_txt_literal)) =
   [(test_txt_literal,
     new_nfs_cache_entry
       \<lparr>st_mode = 0x81A4, st_nlink = 1, st_uid = 0, st_gid = 0, st_size = 5000,
          st_blocks = 8, st_ino = 42, st_atime = 0, st_mtime = 0, st_ctime = 0\<rparr>
       (replicate 5000 0x48) 0 test_txt_literal)] \<and>
   fst (cache_file_in_kernel_nfs True (regular_file 5000 0) nfs_maps_init test_txt_literal) = 0"
  by (simp add: cache_file_in_kernel_nfs_def regular_file_def S_ISREG_def
      MAX_NFS_DATA_SIZE_def Let_def bpf_map_update_elem_empty test_txt_literal_bytes nfs_maps_init_def)

text \<open>
  Claim C9 as stated fails: with the maximum cacheable size configured as 4096, the refresh
  of a file of 5000 bytes succeeds and installs an entry with \<open>data_valid\<close> set and 5000
  bytes of content, and the handler of the engine, run with that configuration, leaves the
  entry in the cache.
\<close>

theorem entry_above_configured_maximum:
  "max_cached_file_size default_nfs_config = 4096 \<and>
   fst (cache_file_in_kernel_nfs True (regular_file 5000 0) nfs_maps_init test_txt_literal) = 0 \<and>
   map_option ce_data_size (lookup_file_cache
      (snd (cache_file_in_kernel_nfs True (regular_file 5000 0) nfs_maps_init test_txt_literal))
      test_txt_literal) = Some 5000 \<and>
   map_option ce_data_valid (lookup_file_cache
      (snd (cache_file_in_kernel_nfs True (regular_file 5000 0) nfs_maps_init test_txt_literal))
      test_txt_literal) = Some 1 \<and>
   map_option (\<lambda>ce. length (ce_data ce)) (lookup_file_cache
      (snd (cache_file_in_kernel_nfs True (regular_file 5000 0) nfs_maps_init test_txt_literal))
      test_txt_literal) = Some 5000 \<and>
   map_option ce_data_size (lookup_file_cache
      (maps (nfs_server_tc default_nfs_config nfs_env_ok
         (snd (cache_file_in_kernel_nfs True (regular_file 5000 0) nfs_maps_init test_txt_literal))
         (udp_frame 2049 getattr_call)))
      test_txt_literal) = Some 5000"
proof -
  let ?m = "snd (cache_file_in_kernel_nfs True (regular_file 5000 0) nfs_maps_init test_txt_literal)"
  have l: "lookup_file_cache ?m test_txt_literal = Some (new_nfs_cache_entry
       \<lparr>st_mode = 0x81A4, st_nlink = 1, st_uid = 0, st_gid = 0, st_size = 5000,
          st_blocks = 8, st_ino = 42, st_atime = 0, st_mtime = 0, st_ctime = 0\<rparr>
       (replicate 5000 0x48) 0 test_txt_literal)"
    by (simp add: lookup_file_cache_def bpf_map_lookup_elem_def big_file_refresh)
  have k: "map_option ce_data_size (lookup_file_cache
      (maps (nfs_server_tc default_nfs_config nfs_env_ok ?m (udp_frame 2049 getattr_call)))
      test_txt_literal) = map_option ce_data_size (lookup_file_cache ?m test_txt_literal)"
    by (rule nfs_server_tc_keeps) simp
  show ?thesis
    by (simp only: k) (simp add: l big_file_refresh new_nfs_cache_entry_def default_nfs_config_def)
qed

end
